theory Spec2Isabelle
  imports Complex_Main
begin

section \<open>Tensors\<close>

text \<open>
  The repository is a PyTorch model.  A tensor is modelled by its metadata (shape, dtype,
  device) together with its entries, a function from index lists to values.  Only the
  entries at indices inside the shape are meaningful.  Floating-point entries are
  idealised as real numbers: a cast changes the dtype tag and leaves the entries alone,
  so rounding is outside the model.  Additive attention masks hold minus infinity and are
  tensors over \<open>xreal\<close>.

  A Python exception is a value \<open>Inl e\<close> of the result.  \<open>ExternalError\<close> stands for
  a failure inside an external collaborator (tokenizer, pretrained model loading), and
  \<open>Unmodelled\<close> marks an input on which torch has a behaviour that this development does
  not describe (for example a matrix product of operands that are not both
  two-dimensional); no statement below is made about such inputs.
\<close>

datatype dtype = Float16 | BFloat16 | Float32 | Float64 | Int32 | Int64

datatype device = CPU | CUDA nat

datatype error =
    RuntimeError
  | IndexError
  | KeyError
  | AttributeError
  | UnboundLocalError
  | ZeroDivisionError
  | AssertionError
  | ValueError
  | TypeError
  | ExternalError
  | Unmodelled

datatype xreal = MInf | Fin real

record 'a tensor =
  shape :: "nat list"
  dtype :: dtype
  device :: device
  entry :: "nat list \<Rightarrow> 'a"

definition is_floating_point :: "dtype \<Rightarrow> bool" where
  "is_floating_point d = (d = Float16 \<or> d = BFloat16 \<or> d = Float32 \<or> d = Float64)"

text \<open>\<open>x.type(d)\<close>: the same tensor under another dtype.\<close>

definition tensor_type :: "dtype \<Rightarrow> 'a tensor \<Rightarrow> 'a tensor" where
  "tensor_type d x = x\<lparr>dtype := d\<rparr>"

text \<open>\<open>x.to(dtype=d, device=dev)\<close>: the same tensor under another dtype and device.\<close>

definition tensor_to :: "dtype \<Rightarrow> device \<Rightarrow> 'a tensor \<Rightarrow> 'a tensor" where
  "tensor_to d dev x = x\<lparr>dtype := d, device := dev\<rparr>"

text \<open>\<open>x.to(d)\<close> with a dtype only, and \<open>x.to(dev)\<close> with a device only.\<close>

definition to_dtype :: "dtype \<Rightarrow> 'a tensor \<Rightarrow> 'a tensor" where
  "to_dtype d x = x\<lparr>dtype := d\<rparr>"

definition to_device :: "device \<Rightarrow> 'a tensor \<Rightarrow> 'a tensor" where
  "to_device dev x = x\<lparr>device := dev\<rparr>"

fun ebind :: "error + 'a \<Rightarrow> ('a \<Rightarrow> error + 'b) \<Rightarrow> error + 'b" where
  "ebind (Inl e) f = Inl e"
| "ebind (Inr v) f = f v"

primrec sum_upto :: "nat \<Rightarrow> (nat \<Rightarrow> real) \<Rightarrow> real" where
  "sum_upto 0 f = 0"
| "sum_upto (Suc n) f = sum_upto n f + f n"

section \<open>Elementwise operations, broadcasting and type promotion\<close>

text \<open>
  torch's promotion of two dtypes, on the dtypes of the model: equal dtypes stay, a wider
  float wins, float16 with bfloat16 gives float32, a float wins over an integer.
\<close>

definition promote_types :: "dtype \<Rightarrow> dtype \<Rightarrow> dtype" where
  "promote_types a b =
     (if a = b then a
      else if a = Float64 \<or> b = Float64 then Float64
      else if a = Float32 \<or> b = Float32 then Float32
      else if is_floating_point a \<and> is_floating_point b then Float32
      else if is_floating_point a then a
      else if is_floating_point b then b
      else Int64)"

text \<open>
  A zero-dimensional operand does not take part in the promotion against an operand with
  dimensions unless it is of a higher category (a float against integers).
\<close>

definition result_type :: "'a tensor \<Rightarrow> 'b tensor \<Rightarrow> dtype" where
  "result_type x y =
     (if shape x = [] \<and> shape y \<noteq> [] then
        (if is_floating_point (dtype x) \<and> \<not> is_floating_point (dtype y) then dtype x else dtype y)
      else if shape y = [] \<and> shape x \<noteq> [] then
        (if is_floating_point (dtype y) \<and> \<not> is_floating_point (dtype x) then dtype y else dtype x)
      else promote_types (dtype x) (dtype y))"

text \<open>
  Both operands live on one device; the exception torch makes is a zero-dimensional CPU
  tensor, which combines with a tensor on any device.
\<close>

definition result_device :: "'a tensor \<Rightarrow> 'b tensor \<Rightarrow> device option" where
  "result_device x y =
     (if device x = device y then Some (device x)
      else if shape x = [] \<and> device x = CPU then Some (device y)
      else if shape y = [] \<and> device y = CPU then Some (device x)
      else None)"

text \<open>Broadcasting, on the shapes read from the last dimension backwards.\<close>

fun broadcast_rev :: "nat list \<Rightarrow> nat list \<Rightarrow> nat list option" where
  "broadcast_rev [] ys = Some ys"
| "broadcast_rev (x # xs) [] = Some (x # xs)"
| "broadcast_rev (x # xs) (y # ys) =
     (if x = y \<or> y = 1 then map_option ((#) x) (broadcast_rev xs ys)
      else if x = 1 then map_option ((#) y) (broadcast_rev xs ys)
      else None)"

definition broadcast_shapes :: "nat list \<Rightarrow> nat list \<Rightarrow> nat list option" where
  "broadcast_shapes a b = map_option rev (broadcast_rev (rev a) (rev b))"

text \<open>
  The index at which an operand of shape \<open>s\<close> is read for the index \<open>idx\<close> of the result:
  its own trailing dimensions, with 0 wherever the operand has size 1.
\<close>

definition bidx :: "nat list \<Rightarrow> nat list \<Rightarrow> nat list" where
  "bidx s idx = map2 (\<lambda>d i. if d = 1 then 0 else i) s (drop (length idx - length s) idx)"

definition binop ::
  "(real \<Rightarrow> real \<Rightarrow> real) \<Rightarrow> real tensor \<Rightarrow> real tensor \<Rightarrow> error + real tensor" where
  "binop f x y =
     (case result_device x y of
        None \<Rightarrow> Inl RuntimeError
      | Some dev \<Rightarrow>
          (case broadcast_shapes (shape x) (shape y) of
             None \<Rightarrow> Inl RuntimeError
           | Some s \<Rightarrow>
               Inr \<lparr>shape = s, dtype = result_type x y, device = dev,
                    entry = (\<lambda>idx. f (entry x (bidx (shape x) idx)) (entry y (bidx (shape y) idx)))\<rparr>))"

definition tensor_add :: "real tensor \<Rightarrow> real tensor \<Rightarrow> error + real tensor" where
  "tensor_add x y = binop (+) x y"

definition tensor_mul :: "real tensor \<Rightarrow> real tensor \<Rightarrow> error + real tensor" where
  "tensor_mul x y = binop (*) x y"

text \<open>
  True division; integer operands give the default float dtype.  Where the divisor is
  zero torch yields an infinity or a NaN, which a real entry cannot hold (the entry of the
  model is then 0): statements about quotients are made for non-zero divisors only.
\<close>

definition tensor_div :: "real tensor \<Rightarrow> real tensor \<Rightarrow> error + real tensor" where
  "tensor_div x y =
     ebind (binop (/) x y)
       (\<lambda>r. Inr (if is_floating_point (dtype r) then r else r\<lparr>dtype := Float32\<rparr>))"

text \<open>\<open>x.exp()\<close>.\<close>

definition tensor_exp :: "real tensor \<Rightarrow> real tensor" where
  "tensor_exp x =
     x\<lparr>dtype := (if is_floating_point (dtype x) then dtype x else Float32),
       entry := (\<lambda>idx. exp (entry x idx))\<rparr>"

text \<open>
  \<open>x.norm(dim=-1, keepdim=True)\<close>: the Euclidean norm along the last dimension, which is
  kept with size 1.  Integer tensors are refused.
\<close>

definition tensor_norm :: "real tensor \<Rightarrow> error + real tensor" where
  "tensor_norm x =
     (if \<not> is_floating_point (dtype x) then Inl RuntimeError
      else if shape x = [] then Inl Unmodelled
      else Inr (x\<lparr>shape := butlast (shape x) @ [1],
                  entry := (\<lambda>idx. sqrt (sum_upto (last (shape x))
                                       (\<lambda>k. (entry x (butlast idx @ [k]))\<^sup>2)))\<rparr>))"

text \<open>\<open>x.t()\<close>: the transpose of a tensor of at most two dimensions.\<close>

definition tensor_t :: "'a tensor \<Rightarrow> error + 'a tensor" where
  "tensor_t x =
     (if 2 < length (shape x) then Inl RuntimeError
      else if length (shape x) < 2 then Inr x
      else Inr (x\<lparr>shape := rev (shape x), entry := (\<lambda>idx. entry x (rev idx))\<rparr>))"

text \<open>
  \<open>x @ y\<close> for two-dimensional operands: the inner sizes, the dtypes and the devices must
  agree.
\<close>

definition matmul :: "real tensor \<Rightarrow> real tensor \<Rightarrow> error + real tensor" where
  "matmul x y =
     (if length (shape x) \<noteq> 2 \<or> length (shape y) \<noteq> 2 then Inl Unmodelled
      else if device x \<noteq> device y then Inl RuntimeError
      else if dtype x \<noteq> dtype y then Inl RuntimeError
      else if shape x ! 1 \<noteq> shape y ! 0 then Inl RuntimeError
      else Inr \<lparr>shape = [shape x ! 0, shape y ! 1], dtype = dtype x, device = device x,
                entry = (\<lambda>idx. sum_upto (shape x ! 1)
                                 (\<lambda>k. entry x [idx ! 0, k] * entry y [k, idx ! 1]))\<rparr>)"


section \<open>The layers of \<open>nets/vit.py\<close>\<close>

subsection \<open>\<open>LayerNorm\<close>\<close>

text \<open>
  torch's \<open>nn.LayerNorm(d)\<close>: a weight and a bias of shape \<open>(d)\<close>, float32 on the CPU when
  constructed, and \<open>eps = 1e-5\<close>.  Its forward normalises along the last dimension, which
  must have size \<open>d\<close>; the result has the shape, dtype and device of the input.  The
  input is a floating-point tensor on the device of the parameters, and the parameters
  have the dtype of the input; the CPU kernel also takes float32 parameters with a
  float16 or bfloat16 input (its mixed-dtype path).  Every other combination is refused:
  a float32 input with float16 parameters raises.
\<close>

record nn_LayerNorm =
  normalized_shape :: nat
  ln_weight :: "real tensor"
  ln_bias :: "real tensor"
  ln_eps :: real

definition nn_LayerNorm_init :: "int \<Rightarrow> error + nn_LayerNorm" where
  "nn_LayerNorm_init d =
     (if d < 0 then Inl RuntimeError
      else Inr \<lparr>normalized_shape = nat d,
                ln_weight = \<lparr>shape = [nat d], dtype = Float32, device = CPU, entry = (\<lambda>_. 1)\<rparr>,
                ln_bias = \<lparr>shape = [nat d], dtype = Float32, device = CPU, entry = (\<lambda>_. 0)\<rparr>,
                ln_eps = 1 / 100000\<rparr>)"

definition layer_norm_dtype_ok :: "dtype \<Rightarrow> device \<Rightarrow> dtype \<Rightarrow> bool" where
  "layer_norm_dtype_ok dx dev dp =
     (dp = dx \<or> (dev = CPU \<and> (dx = Float16 \<or> dx = BFloat16) \<and> dp = Float32))"

definition nn_LayerNorm_forward :: "nn_LayerNorm \<Rightarrow> real tensor \<Rightarrow> error + real tensor" where
  "nn_LayerNorm_forward lnm x =
     (if shape x = [] \<or> last (shape x) \<noteq> normalized_shape lnm then Inl RuntimeError
      else if device x \<noteq> device (ln_weight lnm) \<or> device x \<noteq> device (ln_bias lnm)
        then Inl RuntimeError
      else if \<not> is_floating_point (dtype x)
          \<or> \<not> layer_norm_dtype_ok (dtype x) (device x) (dtype (ln_weight lnm))
          \<or> \<not> layer_norm_dtype_ok (dtype x) (device x) (dtype (ln_bias lnm))
        then Inl RuntimeError
      else Inr (x\<lparr>entry := (\<lambda>idx.
             let d = normalized_shape lnm;
                 row = (\<lambda>k. entry x (butlast idx @ [k]));
                 mean = sum_upto d row / real d;
                 var = sum_upto d (\<lambda>k. (row k - mean)\<^sup>2) / real d
             in (entry x idx - mean) / sqrt (var + ln_eps lnm) * entry (ln_weight lnm) [last idx]
                + entry (ln_bias lnm) [last idx])\<rparr>))"

text \<open>
  The subclass of \<open>nets/vit.py\<close>: remember the dtype, run the parent's forward on the
  float32 cast, cast the result back.  The parent always sees a float32 input, so it
  refuses a layer whose parameters are not float32.
\<close>

definition LayerNorm_forward :: "nn_LayerNorm \<Rightarrow> real tensor \<Rightarrow> error + real tensor" where
  "LayerNorm_forward lnm x =
     (let orig_type = dtype x
      in ebind (nn_LayerNorm_forward lnm (tensor_type Float32 x))
           (\<lambda>ret. Inr (tensor_type orig_type ret)))"

subsection \<open>\<open>QuickGELU\<close>\<close>

definition sigmoid :: "real \<Rightarrow> real" where
  "sigmoid z = 1 / (1 + exp (- z))"

definition QuickGELU_forward :: "real tensor \<Rightarrow> real tensor" where
  "QuickGELU_forward x =
     x\<lparr>dtype := (if is_floating_point (dtype x) then dtype x else Float32),
       entry := (\<lambda>idx. entry x idx * sigmoid (1702 / 1000 * entry x idx))\<rparr>"

subsection \<open>\<open>nn.Linear\<close>\<close>

text \<open>
  torch's \<open>nn.Linear(i, o)\<close>: a weight of shape \<open>(o, i)\<close> and a bias of shape \<open>(o)\<close>.  Its
  forward maps the last dimension, which must have size \<open>i\<close>; input and parameters share
  dtype and device.
\<close>

record nn_Linear =
  in_features :: nat
  out_features :: nat
  lin_weight :: "real tensor"
  lin_bias :: "real tensor"

definition nn_Linear_init ::
  "int \<Rightarrow> int \<Rightarrow> (nat list \<Rightarrow> real) \<Rightarrow> (nat list \<Rightarrow> real) \<Rightarrow> error + nn_Linear" where
  "nn_Linear_init inpf outf w0 b0 =
     (if inpf < 0 \<or> outf < 0 then Inl RuntimeError
      else Inr \<lparr>in_features = nat inpf, out_features = nat outf,
                lin_weight = \<lparr>shape = [nat outf, nat inpf], dtype = Float32, device = CPU, entry = w0\<rparr>,
                lin_bias = \<lparr>shape = [nat outf], dtype = Float32, device = CPU, entry = b0\<rparr>\<rparr>)"

definition nn_Linear_forward :: "nn_Linear \<Rightarrow> real tensor \<Rightarrow> error + real tensor" where
  "nn_Linear_forward l x =
     (if shape x = [] \<or> last (shape x) \<noteq> in_features l then Inl RuntimeError
      else if dtype x \<noteq> dtype (lin_weight l) \<or> dtype x \<noteq> dtype (lin_bias l)
        then Inl RuntimeError
      else if device x \<noteq> device (lin_weight l) \<or> device x \<noteq> device (lin_bias l)
        then Inl RuntimeError
      else Inr (x\<lparr>shape := butlast (shape x) @ [out_features l],
                  entry := (\<lambda>idx.
                     sum_upto (in_features l)
                       (\<lambda>k. entry x (butlast idx @ [k]) * entry (lin_weight l) [last idx, k])
                     + entry (lin_bias l) [last idx])\<rparr>))"

subsection \<open>\<open>ResidualAttentionBlock\<close>\<close>

text \<open>
  \<open>nn.MultiheadAttention\<close> is torch's; the block holds it as a function: the call
  \<open>self.attn(q, k, v, need_weights=False, attn_mask=m)[0]\<close>.
\<close>

type_synonym multihead_attention =
  "real tensor \<Rightarrow> real tensor \<Rightarrow> real tensor \<Rightarrow> xreal tensor option \<Rightarrow> error + real tensor"

record ResidualAttentionBlock =
  attn :: multihead_attention
  ln_1 :: nn_LayerNorm
  c_fc :: nn_Linear
  c_proj :: nn_Linear
  ln_2 :: nn_LayerNorm
  attn_mask :: "xreal tensor option"

text \<open>What construction draws at random, and the attention module torch builds.\<close>

record block_params =
  mha :: multihead_attention
  c_fc_w :: "nat list \<Rightarrow> real"
  c_fc_b :: "nat list \<Rightarrow> real"
  c_proj_w :: "nat list \<Rightarrow> real"
  c_proj_b :: "nat list \<Rightarrow> real"

text \<open>
  \<open>nn.MultiheadAttention(d_model, n_head)\<close> raises \<open>ValueError\<close> for sizes that are not
  positive, and asserts that the number of heads divides the width.
\<close>

definition ResidualAttentionBlock_init ::
  "int \<Rightarrow> int \<Rightarrow> xreal tensor option \<Rightarrow> block_params \<Rightarrow> error + ResidualAttentionBlock" where
  "ResidualAttentionBlock_init d_model n_head mask0 ps =
     (if d_model \<le> 0 \<or> n_head \<le> 0 then Inl ValueError
      else if d_model mod n_head \<noteq> 0 then Inl AssertionError
      else
        ebind (nn_LayerNorm_init d_model) (\<lambda>l1.
        ebind (nn_Linear_init d_model (d_model * 4) (c_fc_w ps) (c_fc_b ps)) (\<lambda>fc.
        ebind (nn_Linear_init (d_model * 4) d_model (c_proj_w ps) (c_proj_b ps)) (\<lambda>pr.
        ebind (nn_LayerNorm_init d_model) (\<lambda>l2.
          Inr \<lparr>attn = mha ps, ln_1 = l1, c_fc = fc, c_proj = pr, ln_2 = l2,
               attn_mask = mask0\<rparr>)))))"

text \<open>
  \<open>attention\<close> stores the mask cast to the dtype and device of its argument back into the
  block, then calls the attention module with the stored mask.  The block is returned
  with the result: the assignment has happened whether or not the module then fails.
\<close>

definition attention ::
  "ResidualAttentionBlock \<Rightarrow> real tensor \<Rightarrow> (error + real tensor) \<times> ResidualAttentionBlock" where
  "attention blk x =
     (let blk' = blk\<lparr>attn_mask :=
                   (case attn_mask blk of
                      Some m \<Rightarrow> Some (tensor_to (dtype x) (device x) m)
                    | None \<Rightarrow> None)\<rparr>
      in (attn blk' x x x (attn_mask blk'), blk'))"

text \<open>\<open>self.mlp\<close>: \<open>c_fc\<close>, \<open>QuickGELU\<close>, \<open>c_proj\<close> in sequence.\<close>

definition mlp :: "ResidualAttentionBlock \<Rightarrow> real tensor \<Rightarrow> error + real tensor" where
  "mlp blk x =
     ebind (nn_Linear_forward (c_fc blk) x)
       (\<lambda>h. nn_Linear_forward (c_proj blk) (QuickGELU_forward h))"

definition ResidualAttentionBlock_forward ::
  "ResidualAttentionBlock \<Rightarrow> real tensor \<Rightarrow> (error + real tensor) \<times> ResidualAttentionBlock" where
  "ResidualAttentionBlock_forward blk x =
     (case LayerNorm_forward (ln_1 blk) x of
        Inl e \<Rightarrow> (Inl e, blk)
      | Inr n1 \<Rightarrow>
          (let (a, blk') = attention blk n1
           in (ebind a (\<lambda>a.
               ebind (tensor_add x a) (\<lambda>x1.
               ebind (LayerNorm_forward (ln_2 blk') x1) (\<lambda>n2.
               ebind (mlp blk' n2) (\<lambda>f.
                 tensor_add x1 f)))), blk')))"

subsection \<open>\<open>Transformer\<close>\<close>

record Transformer =
  width :: int
  layers :: int
  resblocks :: "ResidualAttentionBlock list"

text \<open>The list comprehension: one block per layer, stopping at the first that fails.\<close>

fun build_blocks ::
  "int \<Rightarrow> int \<Rightarrow> xreal tensor option \<Rightarrow> block_params list
     \<Rightarrow> error + ResidualAttentionBlock list" where
  "build_blocks w h mask0 [] = Inr []"
| "build_blocks w h mask0 (ps # pss) =
     ebind (ResidualAttentionBlock_init w h mask0 ps) (\<lambda>b.
     ebind (build_blocks w h mask0 pss) (\<lambda>bs. Inr (b # bs)))"

definition Transformer_init ::
  "int \<Rightarrow> int \<Rightarrow> int \<Rightarrow> xreal tensor option \<Rightarrow> (nat \<Rightarrow> block_params) \<Rightarrow> error + Transformer" where
  "Transformer_init w l h mask0 ps =
     ebind (build_blocks w h mask0 (map ps [0..<nat l]))
       (\<lambda>bs. Inr \<lparr>width = w, layers = l, resblocks = bs\<rparr>)"

text \<open>
  \<open>nn.Sequential\<close> over the blocks: each block receives the previous block's result; the
  blocks after a failing one are not run.
\<close>

fun resblocks_forward ::
  "ResidualAttentionBlock list \<Rightarrow> real tensor
     \<Rightarrow> (error + real tensor) \<times> ResidualAttentionBlock list" where
  "resblocks_forward [] x = (Inr x, [])"
| "resblocks_forward (b # bs) x =
     (case ResidualAttentionBlock_forward b x of
        (Inl e, b') \<Rightarrow> (Inl e, b' # bs)
      | (Inr y, b') \<Rightarrow> (case resblocks_forward bs y of (r, bs') \<Rightarrow> (r, b' # bs')))"

definition Transformer_forward ::
  "Transformer \<Rightarrow> real tensor \<Rightarrow> (error + real tensor) \<times> Transformer" where
  "Transformer_forward t x =
     (case resblocks_forward (resblocks t) x of (r, bs') \<Rightarrow> (r, t\<lparr>resblocks := bs'\<rparr>))"

subsection \<open>The tensor operations of \<open>VisionTransformer.forward\<close>\<close>

text \<open>
  torch's \<open>nn.Conv2d\<close> without bias and without padding, with a square kernel: a weight of
  shape \<open>(out_channels, in_channels, k, k)\<close>.  Its forward takes a batched input
  \<open>(B, C, H, W)\<close> or an unbatched one \<open>(C, H, W)\<close> of the weight's dtype and device, with
  \<open>C = in_channels\<close> and a kernel that fits, and slides the kernel with the stride.
\<close>

record nn_Conv2d =
  in_channels :: nat
  out_channels :: nat
  kernel_size :: nat
  stride :: nat
  conv_weight :: "real tensor"

definition nn_Conv2d_init ::
  "int \<Rightarrow> int \<Rightarrow> int \<Rightarrow> int \<Rightarrow> (nat list \<Rightarrow> real) \<Rightarrow> error + nn_Conv2d" where
  "nn_Conv2d_init ic oc k st w0 =
     (if ic < 0 \<or> oc < 0 \<or> k < 0 \<or> st < 0 then Inl RuntimeError
      else Inr \<lparr>in_channels = nat ic, out_channels = nat oc, kernel_size = nat k,
                stride = nat st,
                conv_weight = \<lparr>shape = [nat oc, nat ic, nat k, nat k], dtype = Float32,
                                 device = CPU, entry = w0\<rparr>\<rparr>)"

definition nn_Conv2d_forward :: "nn_Conv2d \<Rightarrow> real tensor \<Rightarrow> error + real tensor" where
  "nn_Conv2d_forward c x =
     (let n = length (shape x) in
      if n \<noteq> 3 \<and> n \<noteq> 4 then Inl RuntimeError
      else if shape x ! (n - 3) \<noteq> in_channels c then Inl RuntimeError
      else if dtype x \<noteq> dtype (conv_weight c) then Inl RuntimeError
      else if device x \<noteq> device (conv_weight c) then Inl RuntimeError
      else if stride c = 0 then Inl RuntimeError
      else if kernel_size c = 0 then Inl Unmodelled
      else if shape x ! (n - 2) < kernel_size c \<or> shape x ! (n - 1) < kernel_size c
        then Inl RuntimeError
      else Inr (x\<lparr>shape := take (n - 3) (shape x) @
                    [out_channels c,
                     (shape x ! (n - 2) - kernel_size c) div stride c + 1,
                     (shape x ! (n - 1) - kernel_size c) div stride c + 1],
                  entry := (\<lambda>idx.
                    let m = length idx; co = idx ! (m - 3); i = idx ! (m - 2); j = idx ! (m - 1)
                    in sum_upto (in_channels c) (\<lambda>ch.
                       sum_upto (kernel_size c) (\<lambda>u.
                       sum_upto (kernel_size c) (\<lambda>v.
                         entry (conv_weight c) [co, ch, u, v]
                         * entry x (take (m - 3) idx @ [ch, i * stride c + u, j * stride c + v])))))\<rparr>))"

text \<open>The multi-index of a flat position within dimensions \<open>ds\<close> (row-major).\<close>

fun unravel :: "nat list \<Rightarrow> nat \<Rightarrow> nat list" where
  "unravel [] k = []"
| "unravel (d # ds) k = (k div prod_list ds) # unravel ds (k mod prod_list ds)"

text \<open>
  \<open>x.reshape(x.shape[0], x.shape[1], -1)\<close>: the dimensions after the second are flattened
  into one.  The size \<open>-1\<close> cannot be inferred when the first two sizes multiply to zero.
\<close>

definition reshape_flatten :: "'a tensor \<Rightarrow> error + 'a tensor" where
  "reshape_flatten x =
     (if length (shape x) < 2 then Inl IndexError
      else if shape x ! 0 * shape x ! 1 = 0 then Inl RuntimeError
      else Inr (x\<lparr>shape := [shape x ! 0, shape x ! 1, prod_list (drop 2 (shape x))],
                  entry := (\<lambda>idx. entry x (take 2 idx @ unravel (drop 2 (shape x)) (idx ! 2)))\<rparr>))"

text \<open>
  \<open>x.permute(p)\<close>: \<open>p\<close> lists every dimension once; dimension \<open>i\<close> of the result is
  dimension \<open>p ! i\<close> of \<open>x\<close>.
\<close>

definition permute :: "nat list \<Rightarrow> 'a tensor \<Rightarrow> error + 'a tensor" where
  "permute p x =
     (if length p \<noteq> length (shape x) \<or> \<not> distinct p \<or> \<not> list_all (\<lambda>d. d < length p) p
        then Inl RuntimeError
      else Inr (x\<lparr>shape := map (\<lambda>d. shape x ! d) p,
                  entry := (\<lambda>idx. entry x (map (\<lambda>d. idx ! length (takeWhile (\<lambda>e. e \<noteq> d) p))
                                             [0..<length p]))\<rparr>))"

text \<open>\<open>torch.zeros(b, 1, w, dtype=d, device=dev)\<close>.\<close>

definition zeros :: "nat list \<Rightarrow> dtype \<Rightarrow> device \<Rightarrow> real tensor" where
  "zeros s d dev = \<lparr>shape = s, dtype = d, device = dev, entry = (\<lambda>_. 0)\<rparr>"

text \<open>
  \<open>torch.cat([a, b], dim=1)\<close>: the operands agree in every dimension but the second and
  live on one device; the entries of \<open>a\<close> come first.  (torch also accepts an operand of
  shape \<open>(0)\<close>, which it skips.)
\<close>

definition cat_dim1 :: "real tensor \<Rightarrow> real tensor \<Rightarrow> error + real tensor" where
  "cat_dim1 a b =
     (if shape a = [0] \<or> shape b = [0] then Inl Unmodelled
      else if length (shape a) < 2 then Inl IndexError
      else if length (shape a) \<noteq> length (shape b) then Inl RuntimeError
      else if (shape a)[1 := 0] \<noteq> (shape b)[1 := 0] then Inl RuntimeError
      else if device a \<noteq> device b then Inl RuntimeError
      else Inr \<lparr>shape = (shape a)[1 := shape a ! 1 + shape b ! 1],
                dtype = promote_types (dtype a) (dtype b), device = device a,
                entry = (\<lambda>idx. if idx ! 1 < shape a ! 1 then entry a idx
                                else entry b (idx[1 := idx ! 1 - shape a ! 1]))\<rparr>)"

text \<open>\<open>x[:, 0, :]\<close>: the first position of the second dimension.\<close>

definition select_first :: "'a tensor \<Rightarrow> error + 'a tensor" where
  "select_first x =
     (if length (shape x) < 3 then Inl IndexError
      else if shape x ! 1 = 0 then Inl IndexError
      else Inr (x\<lparr>shape := hd (shape x) # drop 2 (shape x),
                  entry := (\<lambda>idx. entry x (hd idx # 0 # tl idx))\<rparr>))"

subsection \<open>\<open>VisionTransformer\<close>\<close>

record VisionTransformer =
  input_resolution :: int
  output_dim :: int
  conv1 :: nn_Conv2d
  class_embedding :: "real tensor"
  positional_embedding :: "real tensor"
  ln_pre :: nn_LayerNorm
  transformer :: Transformer
  ln_post :: nn_LayerNorm
  proj :: "real tensor option"

text \<open>What construction draws at random.\<close>

record vit_params =
  conv1_w :: "nat list \<Rightarrow> real"
  class_randn :: "nat list \<Rightarrow> real"
  pos_randn :: "nat list \<Rightarrow> real"
  proj_randn :: "nat list \<Rightarrow> real"
  vit_blocks :: "nat \<Rightarrow> block_params"

text \<open>
  \<open>width ** -0.5\<close> raises for width 0, and \<open>input_resolution // patch_size\<close> for patch
  size 0.  The positional embedding has \<open>(input_resolution // patch_size) ** 2 + 1\<close> rows.
\<close>

definition VisionTransformer_init ::
  "int \<Rightarrow> int \<Rightarrow> int \<Rightarrow> int \<Rightarrow> int \<Rightarrow> int \<Rightarrow> vit_params \<Rightarrow> error + VisionTransformer" where
  "VisionTransformer_init res patch_size w l h od ps =
     ebind (nn_Conv2d_init 3 w patch_size patch_size (conv1_w ps)) (\<lambda>c1.
       if w = 0 then Inl ZeroDivisionError
       else if patch_size = 0 then Inl ZeroDivisionError
       else
         (let scale = real_of_int w powr (- 1 / 2) in
          ebind (nn_LayerNorm_init w) (\<lambda>lpre.
          ebind (Transformer_init w l h None (vit_blocks ps)) (\<lambda>tr.
          ebind (nn_LayerNorm_init w) (\<lambda>lpost.
            if od < 0 then Inl RuntimeError
            else Inr \<lparr>input_resolution = res, output_dim = od, conv1 = c1,
                      class_embedding =
                        \<lparr>shape = [nat w], dtype = Float32, device = CPU,
                         entry = (\<lambda>idx. scale * class_randn ps idx)\<rparr>,
                      positional_embedding =
                        \<lparr>shape = [nat ((res div patch_size)\<^sup>2 + 1), nat w], dtype = Float32,
                         device = CPU, entry = (\<lambda>idx. scale * pos_randn ps idx)\<rparr>,
                      ln_pre = lpre, transformer = tr, ln_post = lpost,
                      proj = Some \<lparr>shape = [nat w, nat od], dtype = Float32, device = CPU,
                                   entry = (\<lambda>idx. scale * proj_randn ps idx)\<rparr>\<rparr>)))))"

text \<open>
  The parts of \<open>forward\<close> before the transformer stack.  \<open>patchify\<close>: the strided
  convolution, the flattening of the grid and the move of the width to the last
  dimension.  \<open>prepend_class_token\<close>: the class embedding, broadcast over the batch by
  adding it to zeros of shape \<open>(B, 1, width)\<close>, concatenated in front of the tokens.
  \<open>vit_embed\<close>: both, then the positional embedding, \<open>ln_pre\<close> and the move to
  sequence-first.
\<close>

definition patchify :: "VisionTransformer \<Rightarrow> real tensor \<Rightarrow> error + real tensor" where
  "patchify vt x0 =
     ebind (nn_Conv2d_forward (conv1 vt) x0) (\<lambda>x.
     ebind (reshape_flatten x) (\<lambda>x.
       permute [0, 2, 1] x))"

definition prepend_class_token :: "VisionTransformer \<Rightarrow> real tensor \<Rightarrow> error + real tensor" where
  "prepend_class_token vt x =
     ebind (tensor_add (to_dtype (dtype x) (class_embedding vt))
              (zeros [shape x ! 0, 1, last (shape x)] (dtype x) (device x))) (\<lambda>cls.
       cat_dim1 cls x)"

definition vit_embed :: "VisionTransformer \<Rightarrow> real tensor \<Rightarrow> error + real tensor" where
  "vit_embed vt x0 =
     ebind (patchify vt x0) (\<lambda>x.
     ebind (prepend_class_token vt x) (\<lambda>x.
     ebind (tensor_add x (to_dtype (dtype x) (positional_embedding vt))) (\<lambda>x.
     ebind (LayerNorm_forward (ln_pre vt) x) (\<lambda>x.
       permute [1, 0, 2] x))))"

text \<open>
  The part after the stack: back to batch-first, the class-token position, \<open>ln_post\<close>,
  and the projection when there is one.
\<close>

definition vit_pool :: "VisionTransformer \<Rightarrow> real tensor \<Rightarrow> error + real tensor" where
  "vit_pool vt x0 =
     ebind (permute [1, 0, 2] x0) (\<lambda>x.
     ebind (select_first x) (\<lambda>c.
     ebind (LayerNorm_forward (ln_post vt) c) (\<lambda>x.
       case proj vt of None \<Rightarrow> Inr x | Some p \<Rightarrow> matmul x p)))"

definition VisionTransformer_forward ::
  "VisionTransformer \<Rightarrow> real tensor \<Rightarrow> (error + real tensor) \<times> VisionTransformer" where
  "VisionTransformer_forward vt x =
     (case vit_embed vt x of
        Inl e \<Rightarrow> (Inl e, vt)
      | Inr x1 \<Rightarrow>
          (case Transformer_forward (transformer vt) x1 of
             (r, tr') \<Rightarrow> (ebind r (vit_pool vt), vt\<lparr>transformer := tr'\<rparr>)))"

section \<open>The causal attention mask (\<open>CLIP.build_attention_mask\<close>)\<close>

text \<open>
  \<open>torch.empty(n, n)\<close> allocates a float32 tensor on the CPU whose contents are whatever
  the memory held; the model takes those contents as a parameter.  A negative size is
  refused by torch.
\<close>

definition empty2 :: "int \<Rightarrow> int \<Rightarrow> (nat list \<Rightarrow> 'a) \<Rightarrow> error + 'a tensor" where
  "empty2 r c uninit =
     (if r < 0 \<or> c < 0 then Inl RuntimeError
      else Inr \<lparr>shape = [nat r, nat c], dtype = Float32, device = CPU, entry = uninit\<rparr>)"

text \<open>\<open>mask.fill_(v)\<close> overwrites every entry.\<close>

definition fill_inplace :: "'a \<Rightarrow> 'a tensor \<Rightarrow> 'a tensor" where
  "fill_inplace v x = x\<lparr>entry := (\<lambda>_. v)\<rparr>"

text \<open>
  \<open>mask.triu_(k)\<close> keeps the entries on and above the \<open>k\<close>-th diagonal of the last two
  dimensions (column minus row at least \<open>k\<close>) and writes zero elsewhere; it needs at least
  two dimensions.
\<close>

definition triu_inplace :: "int \<Rightarrow> xreal tensor \<Rightarrow> error + xreal tensor" where
  "triu_inplace k x =
     (if length (shape x) < 2 then Inl RuntimeError
      else Inr (x\<lparr>entry := (\<lambda>idx.
             let n = length idx; i = idx ! (n - 2); j = idx ! (n - 1)
             in if k \<le> int j - int i then entry x idx else Fin 0)\<rparr>))"

definition build_attention_mask :: "int \<Rightarrow> (nat list \<Rightarrow> xreal) \<Rightarrow> error + xreal tensor" where
  "build_attention_mask context_length uninit =
     (case empty2 context_length context_length uninit of
        Inl e \<Rightarrow> Inl e
      | Inr msk \<Rightarrow> triu_inplace 1 (fill_inplace MInf msk))"

text \<open>
  Additive masking as the attention operation applies it: the mask entry is added to the
  (finite) score, and the softmax numerator is the exponential of the sum, which is zero
  at minus infinity.
\<close>

fun xadd :: "real \<Rightarrow> xreal \<Rightarrow> xreal" where
  "xadd s MInf = MInf"
| "xadd s (Fin m) = Fin (s + m)"

fun xexp :: "xreal \<Rightarrow> real" where
  "xexp MInf = 0"
| "xexp (Fin r) = exp r"

section \<open>The container of \<open>nets/clip.py\<close>\<close>

subsection \<open>Token ids: embedding, argmax, row selection\<close>

text \<open>Every index of a tensor of the given shape, in row-major order.\<close>

fun all_indices :: "nat list \<Rightarrow> nat list list" where
  "all_indices [] = [[]]"
| "all_indices (d # ds) = concat (map (\<lambda>i. map ((#) i) (all_indices ds)) [0..<d])"

text \<open>
  torch's \<open>nn.Embedding(v, w)\<close>: a weight of shape \<open>(v, w)\<close>.  Its forward takes integer ids
  on the weight's device, each of them in \<open>[0, v)\<close>, and returns the rows they name.
\<close>

record nn_Embedding =
  num_embeddings :: nat
  embedding_dim :: nat
  emb_weight :: "real tensor"

definition nn_Embedding_init :: "int \<Rightarrow> int \<Rightarrow> (nat list \<Rightarrow> real) \<Rightarrow> error + nn_Embedding" where
  "nn_Embedding_init v w w0 =
     (if v < 0 \<or> w < 0 then Inl RuntimeError
      else Inr \<lparr>num_embeddings = nat v, embedding_dim = nat w,
                emb_weight = \<lparr>shape = [nat v, nat w], dtype = Float32, device = CPU,
                                entry = w0\<rparr>\<rparr>)"

definition nn_Embedding_forward :: "nn_Embedding \<Rightarrow> int tensor \<Rightarrow> error + real tensor" where
  "nn_Embedding_forward e ids =
     (if dtype ids \<noteq> Int32 \<and> dtype ids \<noteq> Int64 then Inl RuntimeError
      else if device ids \<noteq> device (emb_weight e) then Inl RuntimeError
      else if \<not> list_all (\<lambda>idx. 0 \<le> entry ids idx \<and> entry ids idx < int (num_embeddings e))
                   (all_indices (shape ids))
        then Inl IndexError
      else Inr \<lparr>shape = shape ids @ [embedding_dim e], dtype = dtype (emb_weight e),
                device = device (emb_weight e),
                entry = (\<lambda>idx. entry (emb_weight e) [nat (entry ids (butlast idx)), last idx])\<rparr>)"

text \<open>
  The position of the largest element of a list, the first one when it occurs several
  times (as \<open>torch.argmax\<close> documents).
\<close>

fun argmax_acc :: "int list \<Rightarrow> nat \<Rightarrow> int \<Rightarrow> nat \<Rightarrow> nat" where
  "argmax_acc [] i best bi = bi"
| "argmax_acc (v # vs) i best bi =
     (if best < v then argmax_acc vs (Suc i) v i else argmax_acc vs (Suc i) best bi)"

definition argmax_list :: "int list \<Rightarrow> nat" where
  "argmax_list xs = (case xs of [] \<Rightarrow> 0 | v # vs \<Rightarrow> argmax_acc vs 1 v 0)"

text \<open>The ids of one row of a tensor of token ids.\<close>

definition row_of :: "int tensor \<Rightarrow> nat list \<Rightarrow> int list" where
  "row_of t idx = map (\<lambda>k. entry t (idx @ [k])) [0..<last (shape t)]"

text \<open>\<open>text.argmax(dim=-1)\<close>; an empty last dimension is refused.\<close>

definition argmax_last :: "int tensor \<Rightarrow> error + int tensor" where
  "argmax_last t =
     (if shape t = [] then Inl Unmodelled
      else if last (shape t) = 0 then Inl IndexError
      else Inr \<lparr>shape = butlast (shape t), dtype = Int64, device = device t,
                entry = (\<lambda>idx. int (argmax_list (row_of t idx)))\<rparr>)"

text \<open>
  \<open>x[torch.arange(x.shape[0]), pos]\<close> for a \<open>pos\<close> with one position per row of \<open>x\<close>: row \<open>b\<close>
  of the result is \<open>x[b, pos[b]]\<close>.  A position outside the second dimension is refused
  (a negative one counts from the end); \<open>pos\<close> lives on the CPU or on the device of \<open>x\<close>.
\<close>

definition index_rows :: "real tensor \<Rightarrow> int tensor \<Rightarrow> error + real tensor" where
  "index_rows x pos =
     (if length (shape x) < 2 then Inl IndexError
      else if shape pos \<noteq> [shape x ! 0] then Inl Unmodelled
      else if device pos \<noteq> CPU \<and> device pos \<noteq> device x then Inl RuntimeError
      else if \<not> list_all (\<lambda>b. - int (shape x ! 1) \<le> entry pos [b]
                               \<and> entry pos [b] < int (shape x ! 1)) [0..<shape x ! 0]
        then Inl IndexError
      else Inr (x\<lparr>shape := shape x ! 0 # drop 2 (shape x),
                  entry := (\<lambda>idx.
                    let p = entry pos [hd idx];
                        q = (if p < 0 then p + int (shape x ! 1) else p)
                    in entry x (hd idx # nat q # tl idx))\<rparr>))"

subsection \<open>The external collaborators\<close>

text \<open>
  Modelled from the spec: \<open>nets/simple_tokenizer.py\<close> (\<open>SimpleTokenizer\<close>, \<open>tokenize\<close>) and
  \<open>nets/bert.py\<close> (\<open>Transformer\<close>) are not among the sources.  The tokenizer is held as the
  function \<open>tokenize(self.tokenizer, text, truncate=True)\<close>, of which the spec says that it
  maps each string to a fixed-length sequence of integer ids; nothing else is assumed of
  it.  The \<open>Transformer\<close> of the text path is the Transformer stack of the spec (section
  4.4), an ordered sequence of Residual Attention Blocks sharing one attention mask: the
  class \<open>Transformer\<close> of \<open>nets/vit.py\<close>, which is used for it.

  The pretrained tokenizer and model of the second variant are those of the
  \<open>transformers\<close> library; they are held as functions too.
\<close>

type_synonym tokenize_fn = "string list \<Rightarrow> error + int tensor"

record hf_encoding =
  input_ids :: "int tensor"
  attention_mask :: "int tensor"
  token_type_ids :: "int tensor"

type_synonym hf_tokenizer = "string list \<Rightarrow> error + hf_encoding"

record bert_model =
  hidden_size :: int
  pooler_output :: "hf_encoding \<Rightarrow> error + real tensor"

datatype tokenizer = SimpleTokenizer tokenize_fn | BertTokenizer hf_tokenizer

datatype text_model = TextTransformer Transformer | BertModel bert_model

subsection \<open>\<open>CLIP\<close>\<close>

text \<open>
  An attribute that only one branch of the constructor assigns is an option: \<open>None\<close> is
  the attribute that was never set, and reading it raises \<open>AttributeError\<close>.  The
  attributes \<open>transformer\<close> and \<open>positional_embedding\<close> carry the prefix \<open>text_\<close> here, the
  vision encoder having fields of the same names.
\<close>

record CLIP =
  context_length :: int
  visual :: VisionTransformer
  bert_type :: string
  tokenizer :: "tokenizer option"
  text_transformer :: "text_model option"
  vocab_size :: "int option"
  token_embedding :: "nn_Embedding option"
  text_positional_embedding :: "real tensor option"
  text_projection :: "real tensor"
  ln_final :: nn_LayerNorm
  logit_scale :: "real tensor"

text \<open>What construction takes from outside: the collaborators and the random draws.\<close>

record clip_env =
  new_SimpleTokenizer :: "error + tokenize_fn"
  BertTokenizer_from_pretrained :: "string \<Rightarrow> error + hf_tokenizer"
  BertModel_from_pretrained :: "string \<Rightarrow> error + bert_model"
  visual_params :: vit_params
  text_blocks :: "nat \<Rightarrow> block_params"
  mask_uninit :: "nat list \<Rightarrow> xreal"
  token_embedding_w :: "nat list \<Rightarrow> real"
  positional_uninit :: "nat list \<Rightarrow> real"
  text_projection_normal :: "nat list \<Rightarrow> real"

text \<open>The hyperparameters of the constructor, with the defaults of the source.\<close>

record clip_args =
  arg_bert_type :: string
  embed_dim :: int
  arg_input_resolution :: int
  vision_layers :: int
  vision_width :: int
  vision_patch_size :: int
  arg_context_length :: int
  transformer_layers :: int
  transformer_width :: int
  transformer_heads :: int
  arg_vocab_size :: int
  kwargs :: "string \<rightharpoonup> string"

definition default_args :: clip_args where
  "default_args =
     \<lparr>arg_bert_type = ''openai'', embed_dim = 512, arg_input_resolution = 224,
      vision_layers = 12, vision_width = 768, vision_patch_size = 32,
      arg_context_length = 77, transformer_layers = 12, transformer_width = 768,
      transformer_heads = 12, arg_vocab_size = 49408, kwargs = Map.empty\<rparr>"

text \<open>
  The text backbone the constructor installs: what the branch on \<open>bert_type\<close> assigns,
  with the transformer width the rest of the constructor goes on with.  A value that is
  neither \<open>"openai"\<close> nor \<open>"huggingface"\<close> takes no branch: nothing is assigned.
\<close>

record text_backbone =
  tb_tokenizer :: "tokenizer option"
  tb_transformer :: "text_model option"
  tb_vocab_size :: "int option"
  tb_token_embedding :: "nn_Embedding option"
  tb_positional_embedding :: "real tensor option"
  tb_width :: int

definition init_text_backbone :: "clip_env \<Rightarrow> clip_args \<Rightarrow> error + text_backbone" where
  "init_text_backbone env a =
     (if arg_bert_type a = ''openai'' then
        ebind (new_SimpleTokenizer env) (\<lambda>tok.
        ebind (build_attention_mask (arg_context_length a) (mask_uninit env)) (\<lambda>msk.
        ebind (Transformer_init (transformer_width a) (transformer_layers a)
                 (transformer_heads a) (Some msk) (text_blocks env)) (\<lambda>tr.
        ebind (nn_Embedding_init (arg_vocab_size a) (transformer_width a)
                 (token_embedding_w env)) (\<lambda>emb.
        ebind (empty2 (arg_context_length a) (transformer_width a) (positional_uninit env))
          (\<lambda>pos.
            Inr \<lparr>tb_tokenizer = Some (SimpleTokenizer tok),
                 tb_transformer = Some (TextTransformer tr),
                 tb_vocab_size = Some (arg_vocab_size a),
                 tb_token_embedding = Some emb,
                 tb_positional_embedding = Some pos,
                 tb_width = transformer_width a\<rparr>)))))
      else if arg_bert_type a = ''huggingface'' then
        (case kwargs a ''huggingface_model_name'' of
           None \<Rightarrow> Inl KeyError
         | Some name \<Rightarrow>
             ebind (BertTokenizer_from_pretrained env name) (\<lambda>tok.
             ebind (BertModel_from_pretrained env name) (\<lambda>bm.
               Inr \<lparr>tb_tokenizer = Some (BertTokenizer tok),
                    tb_transformer = Some (BertModel bm),
                    tb_vocab_size = None, tb_token_embedding = None,
                    tb_positional_embedding = None,
                    tb_width = hidden_size bm\<rparr>)))
      else
        Inr \<lparr>tb_tokenizer = None, tb_transformer = None, tb_vocab_size = None,
             tb_token_embedding = None, tb_positional_embedding = None,
             tb_width = transformer_width a\<rparr>)"

text \<open>
  The constructor.  After the branch: the text projection (\<open>torch.empty\<close>, then
  \<open>normal_\<close> with \<open>std = transformer_width ** -0.5\<close>, which raises for width 0), the final
  norm and the logit scale \<open>log(1 / 0.07)\<close>.
\<close>

definition CLIP_init :: "clip_env \<Rightarrow> clip_args \<Rightarrow> error + CLIP" where
  "CLIP_init env a =
     (let vision_heads = vision_width a div 64 in
      ebind (VisionTransformer_init (arg_input_resolution a) (vision_patch_size a)
               (vision_width a) (vision_layers a) vision_heads (embed_dim a)
               (visual_params env)) (\<lambda>vis.
      ebind (init_text_backbone env a) (\<lambda>tb.
      ebind (empty2 (tb_width tb) (embed_dim a) (text_projection_normal env)) (\<lambda>tp.
        if tb_width tb = 0 then Inl ZeroDivisionError
        else
          ebind (nn_LayerNorm_init (tb_width tb)) (\<lambda>lf.
            Inr \<lparr>context_length = arg_context_length a, visual = vis,
                 bert_type = arg_bert_type a,
                 tokenizer = tb_tokenizer tb,
                 text_transformer = tb_transformer tb,
                 vocab_size = tb_vocab_size tb,
                 token_embedding = tb_token_embedding tb,
                 text_positional_embedding = tb_positional_embedding tb,
                 text_projection =
                   tp\<lparr>entry := (\<lambda>idx. real_of_int (tb_width tb) powr (- 1 / 2)
                                         * text_projection_normal env idx)\<rparr>,
                 ln_final = lf,
                 logit_scale = \<lparr>shape = [], dtype = Float32, device = CPU,
                                 entry = (\<lambda>_. ln (1 / (7 / 100)))\<rparr>\<rparr>)))))"

text \<open>The property \<open>dtype\<close>, and the device the text path moves its ids to.\<close>

definition CLIP_dtype :: "CLIP \<Rightarrow> dtype" where
  "CLIP_dtype m = dtype (conv_weight (conv1 (visual m)))"

definition CLIP_device :: "CLIP \<Rightarrow> device" where
  "CLIP_device m = device (conv_weight (conv1 (visual m)))"

definition encode_image :: "CLIP \<Rightarrow> real tensor \<Rightarrow> (error + real tensor) \<times> CLIP" where
  "encode_image m img =
     (case VisionTransformer_forward (visual m) (tensor_type (CLIP_dtype m) img) of
        (r, vis') \<Rightarrow> (r, m\<lparr>visual := vis'\<rparr>))"

text \<open>
  The first variant of \<open>encode_text\<close>, in its parts.  \<open>text_tokens\<close>: the token ids, moved
  to the device of the vision encoder's convolution weight.  \<open>text_embed\<close>: token
  embedding, cast, positional embedding, sequence-first.  Then the transformer.
  \<open>text_hidden\<close>: batch-first, \<open>ln_final\<close>, cast.  \<open>text_pool\<close>: of each sequence the
  hidden state at the argmax of its ids, projected.
\<close>

definition text_tokens :: "CLIP \<Rightarrow> string list \<Rightarrow> error + int tensor" where
  "text_tokens m strs =
     (case tokenizer m of
        None \<Rightarrow> Inl AttributeError
      | Some (BertTokenizer _) \<Rightarrow> Inl Unmodelled
      | Some (SimpleTokenizer tokenize) \<Rightarrow>
          ebind (tokenize strs) (\<lambda>ids0. Inr (to_device (CLIP_device m) ids0)))"

definition text_embed :: "CLIP \<Rightarrow> int tensor \<Rightarrow> error + real tensor" where
  "text_embed m ids =
     (case token_embedding m of
        None \<Rightarrow> Inl AttributeError
      | Some emb \<Rightarrow>
          ebind (nn_Embedding_forward emb ids) (\<lambda>x0.
            let x = tensor_type (CLIP_dtype m) x0 in
            (case text_positional_embedding m of
               None \<Rightarrow> Inl AttributeError
             | Some pos \<Rightarrow>
                 ebind (tensor_add x (tensor_type (CLIP_dtype m) pos)) (\<lambda>x.
                   permute [1, 0, 2] x))))"

definition text_hidden :: "CLIP \<Rightarrow> real tensor \<Rightarrow> error + real tensor" where
  "text_hidden m x0 =
     ebind (permute [1, 0, 2] x0) (\<lambda>x.
     ebind (nn_LayerNorm_forward (ln_final m) x) (\<lambda>x1.
       Inr (tensor_type (CLIP_dtype m) x1)))"

definition text_pool :: "CLIP \<Rightarrow> int tensor \<Rightarrow> real tensor \<Rightarrow> error + real tensor" where
  "text_pool m ids x0 =
     ebind (text_hidden m x0) (\<lambda>x.
     ebind (argmax_last ids) (\<lambda>pos.
     ebind (index_rows x pos) (\<lambda>sel.
       matmul sel (text_projection m))))"

definition encode_text_openai :: "CLIP \<Rightarrow> string list \<Rightarrow> (error + real tensor) \<times> CLIP" where
  "encode_text_openai m strs =
     (case text_tokens m strs of
        Inl e \<Rightarrow> (Inl e, m)
      | Inr ids \<Rightarrow>
          (case text_embed m ids of
             Inl e \<Rightarrow> (Inl e, m)
           | Inr x \<Rightarrow>
               (case text_transformer m of
                  None \<Rightarrow> (Inl AttributeError, m)
                | Some (BertModel _) \<Rightarrow> (Inl Unmodelled, m)
                | Some (TextTransformer tr) \<Rightarrow>
                    (case Transformer_forward tr x of
                       (r, tr') \<Rightarrow>
                         (ebind r (text_pool m ids),
                          m\<lparr>text_transformer := Some (TextTransformer tr')\<rparr>)))))"

text \<open>The second variant: the pretrained model's pooled output, normalised and projected.\<close>

definition encode_text_huggingface :: "CLIP \<Rightarrow> string list \<Rightarrow> error + real tensor" where
  "encode_text_huggingface m strs =
     (case tokenizer m of
        None \<Rightarrow> Inl AttributeError
      | Some (SimpleTokenizer _) \<Rightarrow> Inl Unmodelled
      | Some (BertTokenizer tok) \<Rightarrow>
          ebind (tok strs) (\<lambda>enc.
            let enc' = \<lparr>input_ids = to_device (CLIP_device m) (input_ids enc),
                        attention_mask = to_device (CLIP_device m) (attention_mask enc),
                        token_type_ids = to_device (CLIP_device m) (token_type_ids enc)\<rparr>
            in (case text_transformer m of
                  None \<Rightarrow> Inl AttributeError
                | Some (TextTransformer _) \<Rightarrow> Inl Unmodelled
                | Some (BertModel bm) \<Rightarrow>
                    ebind (pooler_output bm enc') (\<lambda>x.
                    ebind (nn_LayerNorm_forward (ln_final m) x) (\<lambda>x1.
                      matmul (tensor_type (CLIP_dtype m) x1) (text_projection m))))))"

text \<open>
  \<open>encode_text\<close>: a \<open>bert_type\<close> that is neither of the two takes no branch, and the
  \<open>return x\<close> finds no \<open>x\<close>.
\<close>

definition encode_text :: "CLIP \<Rightarrow> string list \<Rightarrow> (error + real tensor) \<times> CLIP" where
  "encode_text m strs =
     (if bert_type m = ''openai'' then encode_text_openai m strs
      else if bert_type m = ''huggingface'' then (encode_text_huggingface m strs, m)
      else (Inl UnboundLocalError, m))"

text \<open>
  The similarity of \<open>forward\<close>, from the two feature matrices: each divided by its norm
  along the last dimension; \<open>logit_scale.exp() * image_features @ text_features.t()\<close>
  (Python reads the product left to right); the transpose of the result.
\<close>

definition similarity ::
  "CLIP \<Rightarrow> real tensor \<Rightarrow> real tensor \<Rightarrow> error + real tensor \<times> real tensor" where
  "similarity m image_features0 text_features0 =
     ebind (tensor_norm image_features0) (\<lambda>ni.
     ebind (tensor_div image_features0 ni) (\<lambda>image_features.
     ebind (tensor_norm text_features0) (\<lambda>nt.
     ebind (tensor_div text_features0 nt) (\<lambda>text_features.
       let scale = tensor_exp (logit_scale m) in
       ebind (tensor_mul scale image_features) (\<lambda>scaled.
       ebind (tensor_t text_features) (\<lambda>tt.
       ebind (matmul scaled tt) (\<lambda>logits_per_image.
       ebind (tensor_t logits_per_image) (\<lambda>logits_per_text.
         Inr (logits_per_image, logits_per_text)))))))))"

definition forward ::
  "CLIP \<Rightarrow> real tensor \<Rightarrow> string list \<Rightarrow> (error + real tensor \<times> real tensor) \<times> CLIP" where
  "forward m img strs =
     (case encode_image m img of
        (Inl e, m1) \<Rightarrow> (Inl e, m1)
      | (Inr image_features, m1) \<Rightarrow>
          (case encode_text m1 strs of
             (Inl e, m2) \<Rightarrow> (Inl e, m2)
           | (Inr text_features, m2) \<Rightarrow> (similarity m2 image_features text_features, m2)))"

section \<open>Notions used in the statements\<close>


text \<open>
  What torch's attention module guarantees about the dtype of its result: it is the
  dtype of the query.
\<close>

definition attn_keeps_dtype :: "multihead_attention \<Rightarrow> bool" where
  "attn_keeps_dtype f = (\<forall>q k v m a. f q k v m = Inr a \<longrightarrow> dtype a = dtype q)"

section \<open>What a forward pass may change\<close>

text \<open>
  The stored state before and after a pass.  A mask is \<^emph>\<open>recast\<close> when it is still
  absent, or still present with the same shape and entries (its dtype and device may
  differ).  A block, a stack, a vision encoder and a container are \<^emph>\<open>framed\<close> when
  nothing but the masks of their blocks differs, and those are recast.
\<close>

definition mask_recast :: "xreal tensor option \<Rightarrow> xreal tensor option \<Rightarrow> bool" where
  "mask_recast old new =
     (case old of
        None \<Rightarrow> new = None
      | Some m \<Rightarrow> (case new of None \<Rightarrow> False | Some m' \<Rightarrow> shape m' = shape m \<and> entry m' = entry m))"

definition block_frame :: "ResidualAttentionBlock \<Rightarrow> ResidualAttentionBlock \<Rightarrow> bool" where
  "block_frame b b' = (b'\<lparr>attn_mask := attn_mask b\<rparr> = b \<and> mask_recast (attn_mask b) (attn_mask b'))"

definition transformer_frame :: "Transformer \<Rightarrow> Transformer \<Rightarrow> bool" where
  "transformer_frame t t' =
     (t'\<lparr>resblocks := resblocks t\<rparr> = t \<and> list_all2 block_frame (resblocks t) (resblocks t'))"

definition vit_frame :: "VisionTransformer \<Rightarrow> VisionTransformer \<Rightarrow> bool" where
  "vit_frame v v' =
     (v'\<lparr>transformer := transformer v\<rparr> = v \<and> transformer_frame (transformer v) (transformer v'))"

definition text_model_frame :: "text_model option \<Rightarrow> text_model option \<Rightarrow> bool" where
  "text_model_frame old new =
     (case old of
        Some (TextTransformer t) \<Rightarrow>
          (case new of Some (TextTransformer t') \<Rightarrow> transformer_frame t t' | _ \<Rightarrow> False)
      | _ \<Rightarrow> new = old)"

definition clip_frame :: "CLIP \<Rightarrow> CLIP \<Rightarrow> bool" where
  "clip_frame m m' =
     (m'\<lparr>visual := visual m, text_transformer := text_transformer m\<rparr> = m
      \<and> vit_frame (visual m) (visual m')
      \<and> text_model_frame (text_transformer m) (text_transformer m'))"

section \<open>Moving a module to a device\<close>

text \<open>
  torch's \<open>module.to(device)\<close> moves the parameters and buffers of a module.  The
  \<open>attn_mask\<close> of a block is a plain attribute, neither a parameter nor a buffer, and stays
  where it is.
\<close>

definition nn_LayerNorm_to :: "device \<Rightarrow> nn_LayerNorm \<Rightarrow> nn_LayerNorm" where
  "nn_LayerNorm_to dev lnm =
     lnm\<lparr>ln_weight := to_device dev (ln_weight lnm), ln_bias := to_device dev (ln_bias lnm)\<rparr>"

definition nn_Linear_to :: "device \<Rightarrow> nn_Linear \<Rightarrow> nn_Linear" where
  "nn_Linear_to dev l =
     l\<lparr>lin_weight := to_device dev (lin_weight l), lin_bias := to_device dev (lin_bias l)\<rparr>"

definition ResidualAttentionBlock_to :: "device \<Rightarrow> ResidualAttentionBlock \<Rightarrow> ResidualAttentionBlock" where
  "ResidualAttentionBlock_to dev b =
     b\<lparr>ln_1 := nn_LayerNorm_to dev (ln_1 b), c_fc := nn_Linear_to dev (c_fc b),
       c_proj := nn_Linear_to dev (c_proj b), ln_2 := nn_LayerNorm_to dev (ln_2 b)\<rparr>"

section \<open>Small instances\<close>

text \<open>
  A one-wide configuration on which the statements below are evaluated.  The attention
  module of the instance hands its query back, which has the metadata torch's module
  returns (the shape, dtype and device of the query).
\<close>

definition passthrough_attention :: multihead_attention where
  "passthrough_attention q k v m = Inr q"

definition demo_block_params :: block_params where
  "demo_block_params =
     \<lparr>mha = passthrough_attention, c_fc_w = (\<lambda>_. 1), c_fc_b = (\<lambda>_. 0),
      c_proj_w = (\<lambda>_. 1), c_proj_b = (\<lambda>_. 0)\<rparr>"

definition demo_x :: "real tensor" where
  "demo_x = \<lparr>shape = [1, 1, 1], dtype = Float32, device = CPU, entry = (\<lambda>_. 2)\<rparr>"

definition demo_mask :: "xreal tensor" where
  "demo_mask = \<lparr>shape = [1, 1], dtype = Float32, device = CPU, entry = (\<lambda>_. Fin 0)\<rparr>"

definition demo_block :: ResidualAttentionBlock where
  "demo_block = projr (ResidualAttentionBlock_init 1 1 (Some demo_mask) demo_block_params)"

definition demo_x_cuda :: "real tensor" where
  "demo_x_cuda = \<lparr>shape = [1, 1, 1], dtype = Float32, device = CUDA 0, entry = (\<lambda>_. 2)\<rparr>"

definition demo_half :: "real tensor" where
  "demo_half = \<lparr>shape = [1, 1, 1], dtype = Float16, device = CUDA 0, entry = (\<lambda>_. 2)\<rparr>"

text \<open>
  A small container: a tokenizer that maps every string to the ids \<open>(2, 1)\<close>, pretrained
  loaders that fail, and constant draws.
\<close>

definition demo_tokenize :: tokenize_fn where
  "demo_tokenize strs =
     Inr \<lparr>shape = [length strs, 2], dtype = Int64, device = CPU,
          entry = (\<lambda>idx. if last idx = 0 then 2 else 1)\<rparr>"

definition demo_vit_params :: vit_params where
  "demo_vit_params =
     \<lparr>conv1_w = (\<lambda>_. 1), class_randn = (\<lambda>_. 1), pos_randn = (\<lambda>_. 1), proj_randn = (\<lambda>_. 1),
      vit_blocks = (\<lambda>_. demo_block_params)\<rparr>"

definition demo_env :: clip_env where
  "demo_env =
     \<lparr>new_SimpleTokenizer = Inr demo_tokenize,
      BertTokenizer_from_pretrained = (\<lambda>_. Inl ExternalError),
      BertModel_from_pretrained = (\<lambda>_. Inl ExternalError),
      visual_params = demo_vit_params,
      text_blocks = (\<lambda>_. demo_block_params),
      mask_uninit = (\<lambda>_. Fin 0),
      token_embedding_w = (\<lambda>_. 1),
      positional_uninit = (\<lambda>_. 0),
      text_projection_normal = (\<lambda>_. 1)\<rparr>"

definition demo_args :: clip_args where
  "demo_args =
     \<lparr>arg_bert_type = ''openai'', embed_dim = 2, arg_input_resolution = 2,
      vision_layers = 1, vision_width = 64, vision_patch_size = 1,
      arg_context_length = 2, transformer_layers = 1, transformer_width = 2,
      transformer_heads = 1, arg_vocab_size = 3, kwargs = Map.empty\<rparr>"

definition demo_image :: "real tensor" where
  "demo_image = \<lparr>shape = [1, 3, 2, 2], dtype = Float32, device = CPU, entry = (\<lambda>_. 1)\<rparr>"

definition demo_clip :: CLIP where
  "demo_clip = projr (CLIP_init demo_env demo_args)"

section \<open>Properties\<close>

subsection \<open>Auxiliary facts\<close>

lemma ebind_eq_Inr: "ebind r f = Inr y \<longleftrightarrow> (\<exists>v. r = Inr v \<and> f v = Inr y)"
  by (cases r) auto

lemma broadcast_rev_same: "broadcast_rev xs xs = Some xs"
  by (induction xs) auto

lemma broadcast_shapes_same: "broadcast_shapes s s = Some s"
  by (simp add: broadcast_shapes_def broadcast_rev_same)

lemma promote_types_same: "promote_types d d = d"
  by (simp add: promote_types_def)

lemma tensor_add_same:
  assumes "shape y = shape x" "device y = device x" "dtype y = dtype x"
  shows "tensor_add x y = Inr \<lparr>shape = shape x, dtype = dtype x, device = device x,
            entry = (\<lambda>idx. entry x (bidx (shape x) idx) + entry y (bidx (shape x) idx))\<rparr>"
  using assms
  by (simp add: tensor_add_def binop_def result_device_def result_type_def
      broadcast_shapes_same promote_types_same)

lemma bidx_in_range3:
  assumes "i < a" "j < b" "k < c"
  shows "bidx [a, b, c] [i, j, k] = [i, j, k]"
  using assms by (auto simp add: bidx_def)

lemma LayerNorm_forward_ok:
  assumes "shape x \<noteq> []" "last (shape x) = normalized_shape lnm"
    "device x = device (ln_weight lnm)" "device x = device (ln_bias lnm)"
    "dtype (ln_weight lnm) = Float32" "dtype (ln_bias lnm) = Float32"
  shows "\<exists>r. LayerNorm_forward lnm x = Inr r \<and> shape r = shape x \<and> dtype r = dtype x
           \<and> device r = device x"
  using assms
  by (simp add: LayerNorm_forward_def nn_LayerNorm_forward_def tensor_type_def
      layer_norm_dtype_ok_def is_floating_point_def)

lemma LayerNorm_forward_converted_layer:
  assumes "dtype (ln_weight lnm) \<noteq> Float32 \<or> dtype (ln_bias lnm) \<noteq> Float32"
  shows "LayerNorm_forward lnm x = Inl RuntimeError"
  using assms
  by (auto simp add: LayerNorm_forward_def nn_LayerNorm_forward_def tensor_type_def
      layer_norm_dtype_ok_def)

lemma nn_Linear_forward_ok:
  assumes "shape x \<noteq> []" "last (shape x) = in_features l"
    "dtype (lin_weight l) = dtype x" "dtype (lin_bias l) = dtype x"
    "device (lin_weight l) = device x" "device (lin_bias l) = device x"
  shows "\<exists>r. nn_Linear_forward l x = Inr r \<and> shape r = butlast (shape x) @ [out_features l]
           \<and> dtype r = dtype x \<and> device r = device x"
  using assms by (simp add: nn_Linear_forward_def)

lemma QuickGELU_forward_meta:
  "shape (QuickGELU_forward x) = shape x \<and> device (QuickGELU_forward x) = device x
   \<and> (is_floating_point (dtype x) \<longrightarrow> dtype (QuickGELU_forward x) = dtype x)"
  by (simp add: QuickGELU_forward_def)

lemma ResidualAttentionBlock_init_Inr:
  assumes "ResidualAttentionBlock_init d_model n_head mask0 ps = Inr blk"
  shows "0 < d_model \<and> 0 < n_head \<and> d_model mod n_head = 0
       \<and> attn blk = mha ps \<and> attn_mask blk = mask0
       \<and> ln_1 blk = projr (nn_LayerNorm_init d_model)
       \<and> ln_2 blk = projr (nn_LayerNorm_init d_model)
       \<and> c_fc blk = projr (nn_Linear_init d_model (d_model * 4) (c_fc_w ps) (c_fc_b ps))
       \<and> c_proj blk = projr (nn_Linear_init (d_model * 4) d_model (c_proj_w ps) (c_proj_b ps))"
  using assms
  by (auto simp add: ResidualAttentionBlock_init_def nn_LayerNorm_init_def nn_Linear_init_def
      split: if_splits)

lemma mask_recast_refl: "mask_recast a a"
  by (simp add: mask_recast_def split: option.splits)

lemma block_frame_refl: "block_frame b b"
  by (simp add: block_frame_def mask_recast_refl)

lemma transformer_frame_refl: "transformer_frame t t"
  by (simp add: transformer_frame_def list_all2_same block_frame_refl)

lemma vit_frame_refl: "vit_frame v v"
  by (simp add: vit_frame_def transformer_frame_refl)

lemma text_model_frame_refl: "text_model_frame a a"
  by (simp add: text_model_frame_def transformer_frame_refl split: option.splits text_model.splits)

lemma attention_frame: "block_frame blk (snd (attention blk x))"
  by (cases "attn_mask blk")
     (simp_all add: attention_def Let_def block_frame_def mask_recast_def tensor_to_def)

lemma block_forward_frame: "block_frame blk (snd (ResidualAttentionBlock_forward blk x))"
proof (cases "LayerNorm_forward (ln_1 blk) x")
  case (Inl e)
  then show ?thesis by (simp add: ResidualAttentionBlock_forward_def block_frame_refl)
next
  case (Inr n1)
  then have "snd (ResidualAttentionBlock_forward blk x) = snd (attention blk n1)"
    by (simp add: ResidualAttentionBlock_forward_def split: prod.splits)
  then show ?thesis by (simp add: attention_frame)
qed

lemma resblocks_forward_frame: "list_all2 block_frame bs (snd (resblocks_forward bs x))"
proof (induction bs arbitrary: x)
  case Nil
  then show ?case by simp
next
  case (Cons b bs)
  obtain r b' where fb: "ResidualAttentionBlock_forward b x = (r, b')"
    by (cases "ResidualAttentionBlock_forward b x")
  have bf: "block_frame b b'"
    using block_forward_frame [of b x] fb by simp
  show ?case
  proof (cases r)
    case (Inl e)
    then show ?thesis using fb bf by (simp add: list_all2_same block_frame_refl)
  next
    case (Inr y)
    then show ?thesis using fb bf Cons.IH [of y] by (auto split: prod.splits)
  qed
qed

lemma Transformer_forward_frame: "transformer_frame t (snd (Transformer_forward t x))"
  using resblocks_forward_frame [of "resblocks t" x]
  by (auto simp add: Transformer_forward_def transformer_frame_def split: prod.splits)

lemma VisionTransformer_forward_frame: "vit_frame v (snd (VisionTransformer_forward v x))"
proof (cases "vit_embed v x")
  case (Inl e)
  then show ?thesis by (simp add: VisionTransformer_forward_def vit_frame_refl)
next
  case (Inr x1)
  then show ?thesis
    using Transformer_forward_frame [of "transformer v" x1]
    by (auto simp add: VisionTransformer_forward_def vit_frame_def split: prod.splits)
qed

lemma encode_image_frame:
  "(snd (encode_image m img))\<lparr>visual := visual m\<rparr> = m
   \<and> vit_frame (visual m) (visual (snd (encode_image m img)))"
  using VisionTransformer_forward_frame [of "visual m" "tensor_type (CLIP_dtype m) img"]
  by (auto simp add: encode_image_def split: prod.splits)

lemma encode_text_openai_frame:
  "(snd (encode_text_openai m strs))\<lparr>text_transformer := text_transformer m\<rparr> = m
   \<and> text_model_frame (text_transformer m) (text_transformer (snd (encode_text_openai m strs)))"
proof (cases "\<exists>ids x tr. text_tokens m strs = Inr ids \<and> text_embed m ids = Inr x
    \<and> text_transformer m = Some (TextTransformer tr)")
  case True
  then obtain ids x tr where h: "text_tokens m strs = Inr ids" "text_embed m ids = Inr x"
    "text_transformer m = Some (TextTransformer tr)"
    by blast
  obtain r tr' where tf: "Transformer_forward tr x = (r, tr')"
    by (cases "Transformer_forward tr x")
  have "transformer_frame tr tr'"
    using Transformer_forward_frame [of tr x] tf by simp
  then show ?thesis
    using h tf by (simp add: encode_text_openai_def text_model_frame_def)
next
  case False
  then have "snd (encode_text_openai m strs) = m"
    by (auto simp add: encode_text_openai_def
        split: option.splits sum.splits text_model.splits)
  then show ?thesis
    by (simp add: text_model_frame_refl)
qed

lemma encode_text_frame:
  "(snd (encode_text m strs))\<lparr>text_transformer := text_transformer m\<rparr> = m
   \<and> text_model_frame (text_transformer m) (text_transformer (snd (encode_text m strs)))"
  using encode_text_openai_frame [of m strs]
  by (simp add: encode_text_def text_model_frame_refl)

lemma ResidualAttentionBlock_init_ok:
  assumes "0 < w" "0 < h" "w mod h = 0"
  shows "\<exists>b. ResidualAttentionBlock_init w h mask0 ps = Inr b"
  using assms
  by (simp add: ResidualAttentionBlock_init_def nn_LayerNorm_init_def nn_Linear_init_def)

lemma build_blocks_ok:
  assumes "0 < w" "0 < h" "w mod h = 0"
  shows "\<exists>bs. build_blocks w h mask0 pss = Inr bs \<and> length bs = length pss
           \<and> (\<forall>i<length pss. ResidualAttentionBlock_init w h mask0 (pss ! i) = Inr (bs ! i))"
proof (induction pss)
  case Nil
  then show ?case by simp
next
  case (Cons ps pss)
  obtain b where b: "ResidualAttentionBlock_init w h mask0 ps = Inr b"
    using ResidualAttentionBlock_init_ok [OF assms] by blast
  obtain bs where bs: "build_blocks w h mask0 pss = Inr bs" "length bs = length pss"
    "\<forall>i<length pss. ResidualAttentionBlock_init w h mask0 (pss ! i) = Inr (bs ! i)"
    using Cons.IH by blast
  have "\<forall>i<length (ps # pss). ResidualAttentionBlock_init w h mask0 ((ps # pss) ! i) = Inr ((b # bs) ! i)"
    using b bs(3) by (auto simp add: nth_Cons split: nat.splits)
  then show ?case
    using b bs by auto
qed

lemma build_blocks_Inr:
  assumes "build_blocks w h mask0 pss = Inr bs"
  shows "length bs = length pss
       \<and> (\<forall>i<length pss. ResidualAttentionBlock_init w h mask0 (pss ! i) = Inr (bs ! i))"
  using assms
proof (induction pss arbitrary: bs)
  case Nil
  then show ?case by simp
next
  case (Cons ps pss)
  from Cons.prems obtain b bs' where b: "ResidualAttentionBlock_init w h mask0 ps = Inr b"
    and bs': "build_blocks w h mask0 pss = Inr bs'" and e: "bs = b # bs'"
    by (auto simp add: ebind_eq_Inr)
  show ?case
    using Cons.IH [OF bs'] b e by (auto simp add: nth_Cons split: nat.splits)
qed

lemma Transformer_init_ok:
  assumes "0 < w" "0 < h" "w mod h = 0"
  shows "\<exists>t. Transformer_init w l h mask0 ps = Inr t"
  using build_blocks_ok [OF assms, of mask0 "map ps [0..<nat l]"]
  by (auto simp add: Transformer_init_def)

lemma VisionTransformer_init_ok:
  assumes "0 < w" "0 < h" "w mod h = 0" "0 < patch_size" "0 \<le> od"
  shows "\<exists>vt. VisionTransformer_init res patch_size w l h od ps = Inr vt"
proof -
  obtain t where "Transformer_init w l h None (vit_blocks ps) = Inr t"
    using Transformer_init_ok [OF assms(1-3)] by blast
  then show ?thesis
    using assms
    by (simp add: VisionTransformer_init_def nn_Conv2d_init_def nn_LayerNorm_init_def Let_def)
qed

lemma init_text_backbone_other:
  assumes "arg_bert_type a \<noteq> ''openai''" "arg_bert_type a \<noteq> ''huggingface''"
  shows "init_text_backbone env a =
           Inr \<lparr>tb_tokenizer = None, tb_transformer = None, tb_vocab_size = None,
                tb_token_embedding = None, tb_positional_embedding = None,
                tb_width = transformer_width a\<rparr>"
  using assms by (simp add: init_text_backbone_def)







lemma binop_Inr:
  assumes "binop f x y = Inr z"
  shows "broadcast_shapes (shape x) (shape y) = Some (shape z)
       \<and> entry z = (\<lambda>idx. f (entry x (bidx (shape x) idx)) (entry y (bidx (shape y) idx)))
       \<and> dtype z = result_type x y \<and> result_device x y = Some (device z)"
  using assms by (auto simp add: binop_def split: option.splits)



lemma matmul_Inr:
  assumes "matmul x y = Inr z"
  shows "length (shape x) = 2 \<and> length (shape y) = 2 \<and> shape x ! 1 = shape y ! 0
       \<and> dtype y = dtype x \<and> device y = device x
       \<and> shape z = [shape x ! 0, shape y ! 1] \<and> dtype z = dtype x \<and> device z = device x
       \<and> entry z = (\<lambda>idx. sum_upto (shape x ! 1) (\<lambda>k. entry x [idx ! 0, k] * entry y [k, idx ! 1]))"
  using assms by (auto simp add: matmul_def split: if_splits)







lemma encode_text_logit_scale: "logit_scale (snd (encode_text m strs)) = logit_scale m"
  using arg_cong [OF conjunct1 [OF encode_text_frame [of m strs]], of logit_scale]
  by simp

lemma block_forward_run:
  assumes init: "ResidualAttentionBlock_init d_model n_head mask0 ps = Inr blk"
    and sx: "shape x = [L, N, nat d_model]" and dx: "dtype x = Float32" and vx: "device x = CPU"
    and mha: "\<forall>q. shape q = shape x \<and> dtype q = Float32 \<and> device q = CPU \<longrightarrow>
               (\<exists>a. mha ps q q q (map_option (tensor_to Float32 CPU) mask0) = Inr a
                  \<and> shape a = shape q \<and> dtype a = Float32 \<and> device a = CPU)"
  shows "\<exists>n1 a x' n2 h f y blk'.
           LayerNorm_forward (ln_1 blk) x = Inr n1
         \<and> attention blk n1 = (Inr a, blk')
         \<and> tensor_add x a = Inr x'
         \<and> LayerNorm_forward (ln_2 blk) x' = Inr n2
         \<and> nn_Linear_forward (c_fc blk) n2 = Inr h
         \<and> shape h = [L, N, 4 * nat d_model]
         \<and> nn_Linear_forward (c_proj blk) (QuickGELU_forward h) = Inr f
         \<and> tensor_add x' f = Inr y
         \<and> ResidualAttentionBlock_forward blk x = (Inr y, blk')
         \<and> shape y = shape x \<and> dtype y = Float32 \<and> device y = CPU
         \<and> (\<forall>i j k. i < L \<and> j < N \<and> k < nat d_model \<longrightarrow>
               entry x' [i, j, k] = entry x [i, j, k] + entry a [i, j, k]
             \<and> entry y [i, j, k] = entry x' [i, j, k] + entry f [i, j, k])"
proof -
  note flds = ResidualAttentionBlock_init_Inr [OF init]
  have dpos: "0 < d_model" using flds by simp
  have l1: "ln_1 blk = projr (nn_LayerNorm_init d_model)" using flds by simp
  have l2: "ln_2 blk = projr (nn_LayerNorm_init d_model)" using flds by simp
  have fc: "c_fc blk = projr (nn_Linear_init d_model (d_model * 4) (c_fc_w ps) (c_fc_b ps))"
    using flds by simp
  have pr: "c_proj blk = projr (nn_Linear_init (d_model * 4) d_model (c_proj_w ps) (c_proj_b ps))"
    using flds by simp
  obtain n1 where n1: "LayerNorm_forward (ln_1 blk) x = Inr n1" "shape n1 = shape x"
      "dtype n1 = dtype x" "device n1 = device x"
    using LayerNorm_forward_ok [of x "ln_1 blk"] sx vx dpos
    by (auto simp add: l1 nn_LayerNorm_init_def)
  define m' where "m' = map_option (tensor_to Float32 CPU) mask0"
  obtain a where a: "mha ps n1 n1 n1 m' = Inr a" "shape a = shape n1" "dtype a = Float32"
      "device a = CPU"
    using mha n1 dx vx unfolding m'_def by metis
  define blk' where "blk' = blk\<lparr>attn_mask := m'\<rparr>"
  have att: "attention blk n1 = (Inr a, blk')"
    using a flds n1 dx vx
    by (cases mask0) (simp_all add: attention_def Let_def blk'_def m'_def)
  have b'flds: "ln_2 blk' = ln_2 blk" "c_fc blk' = c_fc blk" "c_proj blk' = c_proj blk"
    by (simp_all add: blk'_def)
  define x' where "x' = \<lparr>shape = shape x, dtype = dtype x, device = device x,
      entry = (\<lambda>idx. entry x (bidx (shape x) idx) + entry a (bidx (shape x) idx))\<rparr>"
  have x': "tensor_add x a = Inr x'"
    unfolding x'_def using tensor_add_same [of a x] a n1 dx vx by simp
  have x'm: "shape x' = shape x" "dtype x' = Float32" "device x' = CPU"
    using dx vx by (simp_all add: x'_def)
  obtain n2 where n2: "LayerNorm_forward (ln_2 blk) x' = Inr n2" "shape n2 = shape x"
      "dtype n2 = Float32" "device n2 = CPU"
    using LayerNorm_forward_ok [of x' "ln_2 blk"] sx x'm dpos
    by (auto simp add: l2 nn_LayerNorm_init_def)
  obtain h where h: "nn_Linear_forward (c_fc blk) n2 = Inr h"
      "shape h = butlast (shape n2) @ [out_features (c_fc blk)]" "dtype h = Float32"
      "device h = CPU"
    using nn_Linear_forward_ok [of n2 "c_fc blk"] n2 sx dpos
    by (auto simp add: fc nn_Linear_init_def)
  have sh: "shape h = [L, N, 4 * nat d_model]"
    using h n2 sx dpos by (simp add: fc nn_Linear_init_def nat_mult_distrib)
  have g: "shape (QuickGELU_forward h) = shape h" "dtype (QuickGELU_forward h) = Float32"
      "device (QuickGELU_forward h) = CPU"
    using h by (simp_all add: QuickGELU_forward_def is_floating_point_def)
  obtain f where f: "nn_Linear_forward (c_proj blk) (QuickGELU_forward h) = Inr f"
      "shape f = butlast (shape (QuickGELU_forward h)) @ [out_features (c_proj blk)]"
      "dtype f = Float32" "device f = CPU"
    using nn_Linear_forward_ok [of "QuickGELU_forward h" "c_proj blk"] g sh dpos
    by (auto simp add: pr nn_Linear_init_def nat_mult_distrib)
  have sf: "shape f = shape x"
    using f g sh sx dpos by (simp add: pr nn_Linear_init_def)
  define y where "y = \<lparr>shape = shape x', dtype = dtype x', device = device x',
      entry = (\<lambda>idx. entry x' (bidx (shape x') idx) + entry f (bidx (shape x') idx))\<rparr>"
  have y: "tensor_add x' f = Inr y"
    unfolding y_def using tensor_add_same [of f x'] f sf x'm by simp
  have mlp: "mlp blk' n2 = Inr f"
    using h f by (simp add: mlp_def b'flds)
  have fwd: "ResidualAttentionBlock_forward blk x = (Inr y, blk')"
    using n1 att x' n2 mlp y by (simp add: ResidualAttentionBlock_forward_def b'flds)
  have ent: "\<forall>i j k. i < L \<and> j < N \<and> k < nat d_model \<longrightarrow>
               entry x' [i, j, k] = entry x [i, j, k] + entry a [i, j, k]
             \<and> entry y [i, j, k] = entry x' [i, j, k] + entry f [i, j, k]"
    by (simp add: x'_def y_def sx bidx_in_range3)
  have sy: "shape y = shape x" "dtype y = Float32" "device y = CPU"
    using dx vx by (simp_all add: y_def x'_def)
  show ?thesis
    using n1(1) att x' n2(1) h(1) sh f(1) y fwd sy ent by blast
qed

lemma resblocks_forward_ok:
  assumes "build_blocks w h mask0 pss = Inr bs"
    and "shape x = [L, N, nat w]" and "dtype x = Float32" and "device x = CPU"
    and "\<forall>ps\<in>set pss. \<forall>q. shape q = [L, N, nat w] \<and> dtype q = Float32 \<and> device q = CPU \<longrightarrow>
               (\<exists>a. mha ps q q q (map_option (tensor_to Float32 CPU) mask0) = Inr a
                  \<and> shape a = shape q \<and> dtype a = Float32 \<and> device a = CPU)"
  shows "\<exists>y bs'. resblocks_forward bs x = (Inr y, bs')
           \<and> shape y = shape x \<and> dtype y = Float32 \<and> device y = CPU"
  using assms
proof (induction pss arbitrary: bs x)
  case Nil
  then show ?case by simp
next
  case (Cons ps pss)
  from Cons.prems(1) obtain b bs0 where b: "ResidualAttentionBlock_init w h mask0 ps = Inr b"
    and bs0: "build_blocks w h mask0 pss = Inr bs0" and e: "bs = b # bs0"
    by (auto simp add: ebind_eq_Inr)
  have c: "\<forall>q. shape q = shape x \<and> dtype q = Float32 \<and> device q = CPU \<longrightarrow>
               (\<exists>a. mha ps q q q (map_option (tensor_to Float32 CPU) mask0) = Inr a
                  \<and> shape a = shape q \<and> dtype a = Float32 \<and> device a = CPU)"
    using Cons.prems(2,5) by simp
  obtain y b' where y: "ResidualAttentionBlock_forward b x = (Inr y, b')"
    "shape y = shape x" "dtype y = Float32" "device y = CPU"
    using block_forward_run [OF b Cons.prems(2,3,4) c] by blast
  have c': "\<forall>ps\<in>set pss. \<forall>q. shape q = [L, N, nat w] \<and> dtype q = Float32 \<and> device q = CPU \<longrightarrow>
               (\<exists>a. mha ps q q q (map_option (tensor_to Float32 CPU) mask0) = Inr a
                  \<and> shape a = shape q \<and> dtype a = Float32 \<and> device a = CPU)"
    using Cons.prems(5) by simp
  have sy: "shape y = [L, N, nat w]" using y Cons.prems(2) by simp
  obtain z bs' where z: "resblocks_forward bs0 y = (Inr z, bs')"
    "shape z = shape y" "dtype z = Float32" "device z = CPU"
    using Cons.IH [OF bs0 sy y(3) y(4) c'] by blast
  show ?case
    using y z e by simp
qed

lemma nat_grid: "0 \<le> (a::int) \<Longrightarrow> nat (a\<^sup>2 + 1) = (nat a)\<^sup>2 + 1"
  by (simp add: nat_add_distrib nat_power_eq)

lemma conv_grid:
  assumes "0 < p" "p \<le> (r::nat)"
  shows "(r - p) div p + 1 = r div p"
  using assms by (simp add: le_div_geq)

lemma VisionTransformer_init_Inr:
  assumes "VisionTransformer_init res patch_size w l h od ps = Inr vt"
  shows "0 < w \<and> 0 < patch_size \<and> 0 \<le> od
       \<and> conv1 vt = \<lparr>in_channels = 3, out_channels = nat w, kernel_size = nat patch_size,
                       stride = nat patch_size,
                       conv_weight = \<lparr>shape = [nat w, 3, nat patch_size, nat patch_size],
                                        dtype = Float32, device = CPU, entry = conv1_w ps\<rparr>\<rparr>
       \<and> shape (class_embedding vt) = [nat w] \<and> dtype (class_embedding vt) = Float32
       \<and> device (class_embedding vt) = CPU
       \<and> shape (positional_embedding vt) = [nat ((res div patch_size)\<^sup>2 + 1), nat w]
       \<and> dtype (positional_embedding vt) = Float32 \<and> device (positional_embedding vt) = CPU
       \<and> ln_pre vt = projr (nn_LayerNorm_init w) \<and> ln_post vt = projr (nn_LayerNorm_init w)
       \<and> Transformer_init w l h None (vit_blocks ps) = Inr (transformer vt)
       \<and> (\<exists>p. proj vt = Some p \<and> shape p = [nat w, nat od] \<and> dtype p = Float32
              \<and> device p = CPU)"
proof -
  from assms obtain c1 where c1: "nn_Conv2d_init 3 w patch_size patch_size (conv1_w ps) = Inr c1"
    and rest: "(if w = 0 then Inl ZeroDivisionError
       else if patch_size = 0 then Inl ZeroDivisionError
       else
         (let scale = real_of_int w powr (- 1 / 2) in
          ebind (nn_LayerNorm_init w) (\<lambda>lpre.
          ebind (Transformer_init w l h None (vit_blocks ps)) (\<lambda>tr.
          ebind (nn_LayerNorm_init w) (\<lambda>lpost.
            if od < 0 then Inl RuntimeError
            else Inr \<lparr>input_resolution = res, output_dim = od, conv1 = c1,
                      class_embedding =
                        \<lparr>shape = [nat w], dtype = Float32, device = CPU,
                         entry = (\<lambda>idx. scale * class_randn ps idx)\<rparr>,
                      positional_embedding =
                        \<lparr>shape = [nat ((res div patch_size)\<^sup>2 + 1), nat w], dtype = Float32,
                         device = CPU, entry = (\<lambda>idx. scale * pos_randn ps idx)\<rparr>,
                      ln_pre = lpre, transformer = tr, ln_post = lpost,
                      proj = Some \<lparr>shape = [nat w, nat od], dtype = Float32, device = CPU,
                                   entry = (\<lambda>idx. scale * proj_randn ps idx)\<rparr>\<rparr>))))) = Inr vt"
    by (auto simp add: VisionTransformer_init_def ebind_eq_Inr)
  have geo: "0 \<le> w" "0 \<le> patch_size"
    using c1 by (auto simp add: nn_Conv2d_init_def split: if_splits)
  have c1v: "c1 = \<lparr>in_channels = 3, out_channels = nat w, kernel_size = nat patch_size,
                       stride = nat patch_size,
                       conv_weight = \<lparr>shape = [nat w, 3, nat patch_size, nat patch_size],
                                        dtype = Float32, device = CPU, entry = conv1_w ps\<rparr>\<rparr>"
    using c1 by (auto simp add: nn_Conv2d_init_def split: if_splits)
  have nz: "w \<noteq> 0" "patch_size \<noteq> 0"
    using rest by (auto split: if_splits)
  from rest nz obtain lpre tr lpost where
    lpre: "nn_LayerNorm_init w = Inr lpre" and tr: "Transformer_init w l h None (vit_blocks ps) = Inr tr"
    and lpost: "nn_LayerNorm_init w = Inr lpost" and od: "\<not> od < 0"
    and vt: "vt = \<lparr>input_resolution = res, output_dim = od, conv1 = c1,
                      class_embedding =
                        \<lparr>shape = [nat w], dtype = Float32, device = CPU,
                         entry = (\<lambda>idx. real_of_int w powr (- 1 / 2) * class_randn ps idx)\<rparr>,
                      positional_embedding =
                        \<lparr>shape = [nat ((res div patch_size)\<^sup>2 + 1), nat w], dtype = Float32,
                         device = CPU, entry = (\<lambda>idx. real_of_int w powr (- 1 / 2) * pos_randn ps idx)\<rparr>,
                      ln_pre = lpre, transformer = tr, ln_post = lpost,
                      proj = Some \<lparr>shape = [nat w, nat od], dtype = Float32, device = CPU,
                                   entry = (\<lambda>idx. real_of_int w powr (- 1 / 2) * proj_randn ps idx)\<rparr>\<rparr>"
    by (auto simp add: ebind_eq_Inr Let_def split: if_splits)
  show ?thesis
    using geo nz od lpre lpost tr c1v by (simp add: vt)
qed

lemma permute3_ok:
  assumes "shape x = [a, b, c]" "p = [0, 2, 1] \<or> p = [1, 0, 2]"
  shows "\<exists>y. permute p x = Inr y \<and> shape y = map (\<lambda>d. [a, b, c] ! d) p \<and> dtype y = dtype x
           \<and> device y = device x
           \<and> (\<forall>i j k. entry y [i, j, k] =
                 entry x (if p = [0, 2, 1] then [i, k, j] else [j, i, k]))"
  using assms by (auto simp add: permute_def)

lemma patchify_ok:
  assumes c: "conv1 vt = \<lparr>in_channels = 3, out_channels = w, kernel_size = p, stride = p,
                       conv_weight = cw\<rparr>"
    and cw: "dtype cw = Float32" "device cw = CPU"
    and x: "shape x = [B, 3, r, r]" "dtype x = Float32" "device x = CPU"
    and g: "0 < p" "p \<le> r" "0 < B" "0 < w"
  shows "\<exists>xc tok. nn_Conv2d_forward (conv1 vt) x = Inr xc
           \<and> shape xc = [B, w, r div p, r div p]
           \<and> patchify vt x = Inr tok \<and> shape tok = [B, (r div p) * (r div p), w]
           \<and> dtype tok = Float32 \<and> device tok = CPU"
proof -
  define xc where "xc = x\<lparr>shape := [B, w, r div p, r div p],
      entry := (\<lambda>idx.
                    let m = length idx; co = idx ! (m - 3); i = idx ! (m - 2); j = idx ! (m - 1)
                    in sum_upto 3 (\<lambda>ch.
                       sum_upto p (\<lambda>u.
                       sum_upto p (\<lambda>v.
                         entry cw [co, ch, u, v]
                         * entry x (take (m - 3) idx @ [ch, i * p + u, j * p + v])))))\<rparr>"
  have cv: "nn_Conv2d_forward (conv1 vt) x = Inr xc"
    using x g cw conv_grid [of p r]
    by (simp add: nn_Conv2d_forward_def c xc_def Let_def)
  have sxc: "shape xc = [B, w, r div p, r div p]" "dtype xc = Float32" "device xc = CPU"
    using x by (simp_all add: xc_def)
  obtain xf where xf: "reshape_flatten xc = Inr xf" "shape xf = [B, w, (r div p) * (r div p)]"
    "dtype xf = Float32" "device xf = CPU"
    using sxc g by (simp add: reshape_flatten_def)
  obtain tok where tok: "permute [0, 2, 1] xf = Inr tok" "shape tok = [B, (r div p) * (r div p), w]"
    "dtype tok = Float32" "device tok = CPU"
    using permute3_ok [OF xf(2), of "[0, 2, 1]"] xf by auto
  show ?thesis
    using cv sxc xf tok by (simp add: patchify_def)
qed

lemma prepend_class_token_ok:
  assumes ce: "shape (class_embedding vt) = [w]" "device (class_embedding vt) = CPU"
    and t: "shape tok = [B, n, w]" "dtype tok = Float32" "device tok = CPU"
  shows "\<exists>sq. prepend_class_token vt tok = Inr sq \<and> shape sq = [B, n + 1, w]
           \<and> dtype sq = Float32 \<and> device sq = CPU
           \<and> (\<forall>b k. b < B \<and> k < w \<longrightarrow>
                  entry sq [b, 0, k] = entry (class_embedding vt) [k]
                \<and> (\<forall>s. entry sq [b, Suc s, k] = entry tok [b, s, k]))"
proof -
  let ?c = "to_dtype Float32 (class_embedding vt)"
  let ?z = "zeros [B, 1, w] Float32 CPU"
  have bs: "broadcast_shapes [w] [B, 1, w] = Some [B, 1, w]"
    by (simp add: broadcast_shapes_def)
  define cls where "cls = \<lparr>shape = [B, 1, w], dtype = Float32, device = CPU,
      entry = (\<lambda>idx. entry ?c (bidx [w] idx) + entry ?z (bidx [B, 1, w] idx))\<rparr>"
  have a: "tensor_add ?c ?z = Inr cls"
    using ce bs
    by (simp add: tensor_add_def binop_def result_device_def result_type_def to_dtype_def
        zeros_def promote_types_same cls_def)
  define sq where "sq = \<lparr>shape = [B, 1 + n, w], dtype = Float32, device = CPU,
      entry = (\<lambda>idx. if idx ! 1 < 1 then entry cls idx else entry tok (idx[1 := idx ! 1 - 1]))\<rparr>"
  have clsm: "shape cls = [B, 1, w]" "dtype cls = Float32" "device cls = CPU"
    by (simp_all add: cls_def)
  have c: "cat_dim1 cls tok = Inr sq"
    using t clsm by (simp add: cat_dim1_def sq_def promote_types_same cong: if_cong)
  have p: "prepend_class_token vt tok = Inr sq"
    using a c t by (simp add: prepend_class_token_def)
  have e: "entry sq [b, 0, k] = entry (class_embedding vt) [k]
         \<and> (\<forall>s. entry sq [b, Suc s, k] = entry tok [b, s, k])" if "b < B" "k < w" for b k
    using that by (auto simp add: sq_def cls_def bidx_def to_dtype_def zeros_def)
  show ?thesis
    using p e by (auto simp add: sq_def)
qed

lemma add_positional_ok:
  assumes "shape x = [B, n, w]" "dtype x = Float32" "device x = CPU"
    and "shape pe = [n, w]" "dtype pe = Float32" "device pe = CPU"
  shows "\<exists>y. tensor_add x (to_dtype (dtype x) pe) = Inr y \<and> shape y = [B, n, w]
           \<and> dtype y = Float32 \<and> device y = CPU"
  using assms
  by (simp add: tensor_add_def binop_def result_device_def result_type_def to_dtype_def
      promote_types_same broadcast_shapes_def)

lemma select_first_ok:
  assumes "shape x = [B, n, w]" "0 < n"
  shows "\<exists>c. select_first x = Inr c \<and> shape c = [B, w] \<and> dtype c = dtype x
           \<and> device c = device x \<and> (\<forall>b k. entry c [b, k] = entry x [b, 0, k])"
  using assms by (simp add: select_first_def)

lemma matmul_ok:
  assumes "shape x = [B, w]" "shape p = [w, e]" "dtype p = dtype x" "device p = device x"
  shows "\<exists>y. matmul x p = Inr y \<and> shape y = [B, e] \<and> dtype y = dtype x \<and> device y = device x
           \<and> (\<forall>b j. entry y [b, j] = sum_upto w (\<lambda>k. entry x [b, k] * entry p [k, j]))"
  using assms by (simp add: matmul_def)

lemma build_blocks_masks:
  assumes "build_blocks w h mask0 pss = Inr bs"
  shows "\<forall>b\<in>set bs. attn_mask b = mask0"
  using assms
proof (induction pss arbitrary: bs)
  case Nil
  then show ?case by simp
next
  case (Cons ps pss)
  from Cons.prems obtain b bs' where b: "ResidualAttentionBlock_init w h mask0 ps = Inr b"
    and bs': "build_blocks w h mask0 pss = Inr bs'" and e: "bs = b # bs'"
    by (auto simp add: ebind_eq_Inr)
  show ?case
    using Cons.IH [OF bs'] ResidualAttentionBlock_init_Inr [OF b] e by simp
qed

lemma Transformer_forward_ok:
  assumes init: "Transformer_init w l h mask0 ps = Inr t"
    and x: "shape x = [L, N, nat w]" "dtype x = Float32" "device x = CPU"
    and mha: "\<forall>i<nat l. \<forall>q. shape q = [L, N, nat w] \<and> dtype q = Float32 \<and> device q = CPU \<longrightarrow>
               (\<exists>a. mha (ps i) q q q (map_option (tensor_to Float32 CPU) mask0) = Inr a
                  \<and> shape a = shape q \<and> dtype a = Float32 \<and> device a = CPU)"
  shows "\<exists>y t'. Transformer_forward t x = (Inr y, t')
           \<and> shape y = shape x \<and> dtype y = Float32 \<and> device y = CPU
           \<and> (\<forall>b\<in>set (resblocks t). attn_mask b = mask0)"
proof -
  from init obtain bs where bs: "build_blocks w h mask0 (map ps [0..<nat l]) = Inr bs"
    and t: "t = \<lparr>width = w, layers = l, resblocks = bs\<rparr>"
    by (auto simp add: Transformer_init_def ebind_eq_Inr)
  have c: "\<forall>p\<in>set (map ps [0..<nat l]). \<forall>q. shape q = [L, N, nat w] \<and> dtype q = Float32
              \<and> device q = CPU \<longrightarrow>
               (\<exists>a. mha p q q q (map_option (tensor_to Float32 CPU) mask0) = Inr a
                  \<and> shape a = shape q \<and> dtype a = Float32 \<and> device a = CPU)"
    using mha by auto
  obtain y bs' where y: "resblocks_forward bs x = (Inr y, bs')"
    "shape y = shape x" "dtype y = Float32" "device y = CPU"
    using resblocks_forward_ok [OF bs x c] by blast
  show ?thesis
    using y build_blocks_masks [OF bs] by (simp add: Transformer_forward_def t)
qed

lemma argmax_acc_spec:
  assumes "length pre = i" "bi < i" "pre ! bi = best"
    and "\<forall>k<i. pre ! k \<le> best" and "\<forall>k<bi. pre ! k < best"
  shows "argmax_acc vs i best bi < length (pre @ vs)
       \<and> (\<forall>k<length (pre @ vs). (pre @ vs) ! k \<le> (pre @ vs) ! argmax_acc vs i best bi)
       \<and> (\<forall>k<argmax_acc vs i best bi. (pre @ vs) ! k < (pre @ vs) ! argmax_acc vs i best bi)"
  using assms
proof (induction vs arbitrary: pre i best bi)
  case Nil
  then show ?case by simp
next
  case (Cons v vs)
  show ?case
  proof (cases "best < v")
    case True
    have "argmax_acc vs (Suc i) v i < length ((pre @ [v]) @ vs)
       \<and> (\<forall>k<length ((pre @ [v]) @ vs). ((pre @ [v]) @ vs) ! k \<le> ((pre @ [v]) @ vs) ! argmax_acc vs (Suc i) v i)
       \<and> (\<forall>k<argmax_acc vs (Suc i) v i. ((pre @ [v]) @ vs) ! k < ((pre @ [v]) @ vs) ! argmax_acc vs (Suc i) v i)"
    proof (rule Cons.IH)
      show "length (pre @ [v]) = Suc i" using Cons.prems by simp
      show "i < Suc i" by simp
      show "(pre @ [v]) ! i = v" using Cons.prems by (simp add: nth_append)
      show "\<forall>k<Suc i. (pre @ [v]) ! k \<le> v"
        using Cons.prems True by (auto simp add: nth_append less_Suc_eq)
      show "\<forall>k<i. (pre @ [v]) ! k < v"
        using Cons.prems True by (auto simp add: nth_append)
    qed
    then show ?thesis using True by simp
  next
    case False
    have "argmax_acc vs (Suc i) best bi < length ((pre @ [v]) @ vs)
       \<and> (\<forall>k<length ((pre @ [v]) @ vs). ((pre @ [v]) @ vs) ! k \<le> ((pre @ [v]) @ vs) ! argmax_acc vs (Suc i) best bi)
       \<and> (\<forall>k<argmax_acc vs (Suc i) best bi. ((pre @ [v]) @ vs) ! k < ((pre @ [v]) @ vs) ! argmax_acc vs (Suc i) best bi)"
    proof (rule Cons.IH)
      show "length (pre @ [v]) = Suc i" using Cons.prems by simp
      show "bi < Suc i" using Cons.prems by simp
      show "(pre @ [v]) ! bi = best" using Cons.prems by (simp add: nth_append)
      show "\<forall>k<Suc i. (pre @ [v]) ! k \<le> best"
        using Cons.prems False by (auto simp add: nth_append less_Suc_eq)
      show "\<forall>k<bi. (pre @ [v]) ! k < best"
        using Cons.prems by (auto simp add: nth_append)
    qed
    then show ?thesis using False by simp
  qed
qed

lemma argmax_list_spec:
  assumes "xs \<noteq> []"
  shows "argmax_list xs < length xs
       \<and> (\<forall>k<length xs. xs ! k \<le> xs ! argmax_list xs)
       \<and> (\<forall>k<argmax_list xs. xs ! k < xs ! argmax_list xs)"
proof -
  obtain v vs where xs: "xs = v # vs" using assms by (cases xs) auto
  have "argmax_acc vs 1 v 0 < length ([v] @ vs)
       \<and> (\<forall>k<length ([v] @ vs). ([v] @ vs) ! k \<le> ([v] @ vs) ! argmax_acc vs 1 v 0)
       \<and> (\<forall>k<argmax_acc vs 1 v 0. ([v] @ vs) ! k < ([v] @ vs) ! argmax_acc vs 1 v 0)"
    by (rule argmax_acc_spec) simp_all
  then show ?thesis by (simp add: argmax_list_def xs)
qed

lemma row_of_nth:
  assumes "shape t = [B, n]" "k < n"
  shows "length (row_of t [b]) = n \<and> row_of t [b] ! k = entry t [b, k]"
  using assms by (simp add: row_of_def)

lemma permute_Inr:
  assumes "permute p x = Inr y"
  shows "length (shape x) = length p \<and> shape y = map (\<lambda>d. shape x ! d) p
       \<and> dtype y = dtype x \<and> device y = device x"
  using assms by (auto simp add: permute_def split: if_splits)

lemma nn_LayerNorm_forward_Inr:
  assumes "nn_LayerNorm_forward lnm x = Inr y"
  shows "shape y = shape x \<and> dtype y = dtype x \<and> device y = device x"
  using assms by (auto simp add: nn_LayerNorm_forward_def split: if_splits)

lemma text_hidden_Inr:
  assumes "text_hidden m h = Inr hid"
  shows "length (shape h) = 3 \<and> shape hid = [shape h ! 1, shape h ! 0, shape h ! 2]
       \<and> dtype hid = CLIP_dtype m"
proof -
  from assms obtain x x1 where x: "permute [1, 0, 2] h = Inr x"
    and x1: "nn_LayerNorm_forward (ln_final m) x = Inr x1"
    and hid: "hid = tensor_type (CLIP_dtype m) x1"
    by (auto simp add: text_hidden_def ebind_eq_Inr)
  show ?thesis
    using permute_Inr [OF x] nn_LayerNorm_forward_Inr [OF x1]
    by (simp add: hid tensor_type_def)
qed

lemma argmax_last_Inr:
  assumes "argmax_last t = Inr pos"
  shows "shape t \<noteq> [] \<and> last (shape t) \<noteq> 0 \<and> shape pos = butlast (shape t)
       \<and> device pos = device t
       \<and> entry pos = (\<lambda>idx. int (argmax_list (row_of t idx)))"
  using assms by (auto simp add: argmax_last_def split: if_splits)

lemma index_rows_Inr:
  assumes "index_rows x pos = Inr sel"
  shows "2 \<le> length (shape x) \<and> shape pos = [shape x ! 0]
       \<and> shape sel = shape x ! 0 # drop 2 (shape x) \<and> dtype sel = dtype x
       \<and> device sel = device x
       \<and> (\<forall>b<shape x ! 0. - int (shape x ! 1) \<le> entry pos [b] \<and> entry pos [b] < int (shape x ! 1))
       \<and> entry sel = (\<lambda>idx. let p = entry pos [hd idx];
                                q = (if p < 0 then p + int (shape x ! 1) else p)
                            in entry x (hd idx # nat q # tl idx))"
  using assms by (auto simp add: index_rows_def list_all_iff split: if_splits)

lemma encode_text_trace:
  assumes bt: "bert_type m = ''openai''" and enc: "encode_text m strs = (Inr y, m')"
  shows "\<exists>ids x tr h tr' hid pos sel.
           text_tokens m strs = Inr ids \<and> text_embed m ids = Inr x
         \<and> text_transformer m = Some (TextTransformer tr)
         \<and> Transformer_forward tr x = (Inr h, tr')
         \<and> m' = m\<lparr>text_transformer := Some (TextTransformer tr')\<rparr>
         \<and> text_hidden m h = Inr hid \<and> argmax_last ids = Inr pos
         \<and> index_rows hid pos = Inr sel \<and> matmul sel (text_projection m) = Inr y"
proof -
  have e: "encode_text_openai m strs = (Inr y, m')"
    using bt enc by (simp add: encode_text_def)
  obtain ids where ids: "text_tokens m strs = Inr ids"
    using e by (cases "text_tokens m strs") (auto simp add: encode_text_openai_def)
  obtain x where x: "text_embed m ids = Inr x"
    using e ids by (cases "text_embed m ids") (auto simp add: encode_text_openai_def)
  obtain tr where tr: "text_transformer m = Some (TextTransformer tr)"
    using e ids x
    by (cases "text_transformer m")
       (auto simp add: encode_text_openai_def split: text_model.splits)
  obtain r tr' where tf: "Transformer_forward tr x = (r, tr')"
    by (cases "Transformer_forward tr x")
  have r: "ebind r (text_pool m ids) = Inr y"
    and m': "m' = m\<lparr>text_transformer := Some (TextTransformer tr')\<rparr>"
    using e ids x tr tf by (simp_all add: encode_text_openai_def)
  from r obtain h where h: "r = Inr h" and pool: "text_pool m ids h = Inr y"
    by (auto simp add: ebind_eq_Inr)
  from pool obtain hid pos sel where "text_hidden m h = Inr hid" "argmax_last ids = Inr pos"
    "index_rows hid pos = Inr sel" "matmul sel (text_projection m) = Inr y"
    by (auto simp add: text_pool_def ebind_eq_Inr)
  then show ?thesis
    using ids x tr tf h m' by blast
qed

lemma LayerNorm_forward_Inr:
  assumes "LayerNorm_forward lnm x = Inr r"
  shows "shape r = shape x \<and> dtype r = dtype x \<and> device r = device x"
  using assms
  by (auto simp add: LayerNorm_forward_def nn_LayerNorm_forward_def tensor_type_def Let_def
      ebind_eq_Inr split: if_splits)

lemma result_type_same: "dtype y = dtype x \<Longrightarrow> result_type x y = dtype x"
  by (simp add: result_type_def promote_types_same)

lemma tensor_add_dtype:
  assumes "tensor_add x y = Inr z" "dtype y = dtype x"
  shows "dtype z = dtype x"
  using binop_Inr [OF assms(1) [unfolded tensor_add_def]] result_type_same [OF assms(2)]
  by simp

lemma nn_Conv2d_forward_Inr:
  assumes "nn_Conv2d_forward c x = Inr y"
  shows "dtype y = dtype x \<and> dtype x = dtype (conv_weight c) \<and> device y = device x"
  using assms by (auto simp add: nn_Conv2d_forward_def Let_def split: if_splits)

lemma reshape_flatten_Inr:
  assumes "reshape_flatten x = Inr y"
  shows "dtype y = dtype x \<and> device y = device x"
  using assms by (auto simp add: reshape_flatten_def split: if_splits)

lemma cat_dim1_Inr:
  assumes "cat_dim1 a b = Inr y"
  shows "dtype y = promote_types (dtype a) (dtype b)"
  using assms by (auto simp add: cat_dim1_def split: if_splits)

lemma select_first_Inr:
  assumes "select_first x = Inr y"
  shows "dtype y = dtype x \<and> device y = device x"
  using assms by (auto simp add: select_first_def split: if_splits)

lemma nn_Linear_forward_Inr:
  assumes "nn_Linear_forward l x = Inr y"
  shows "dtype y = dtype x \<and> device y = device x"
  using assms by (auto simp add: nn_Linear_forward_def split: if_splits)

lemma patchify_dtype:
  assumes "patchify vt x = Inr tok"
  shows "dtype tok = dtype x"
proof -
  from assms obtain a b where a: "nn_Conv2d_forward (conv1 vt) x = Inr a"
    and b: "reshape_flatten a = Inr b" and c: "permute [0, 2, 1] b = Inr tok"
    by (auto simp add: patchify_def ebind_eq_Inr)
  show ?thesis
    using nn_Conv2d_forward_Inr [OF a] reshape_flatten_Inr [OF b] permute_Inr [OF c] by simp
qed

lemma prepend_class_token_dtype:
  assumes "prepend_class_token vt x = Inr sq"
  shows "dtype sq = dtype x"
proof -
  from assms obtain cls where
    a: "tensor_add (to_dtype (dtype x) (class_embedding vt))
          (zeros [shape x ! 0, 1, last (shape x)] (dtype x) (device x)) = Inr cls"
    and c: "cat_dim1 cls x = Inr sq"
    by (auto simp add: prepend_class_token_def ebind_eq_Inr)
  have "dtype cls = dtype x"
    using tensor_add_dtype [OF a] by (simp add: to_dtype_def zeros_def)
  then show ?thesis
    using cat_dim1_Inr [OF c] by (simp add: promote_types_same)
qed

lemma vit_embed_dtype:
  assumes "vit_embed vt x = Inr e"
  shows "dtype e = dtype x"
proof -
  from assms obtain a b c d where a: "patchify vt x = Inr a"
    and b: "prepend_class_token vt a = Inr b"
    and c: "tensor_add b (to_dtype (dtype b) (positional_embedding vt)) = Inr c"
    and d: "LayerNorm_forward (ln_pre vt) c = Inr d" and e: "permute [1, 0, 2] d = Inr e"
    by (auto simp add: vit_embed_def ebind_eq_Inr)
  have "dtype c = dtype b"
    using tensor_add_dtype [OF c] by (simp add: to_dtype_def)
  then show ?thesis
    using patchify_dtype [OF a] prepend_class_token_dtype [OF b] LayerNorm_forward_Inr [OF d]
      permute_Inr [OF e] by simp
qed

lemma vit_pool_dtype:
  assumes "vit_pool vt h = Inr y"
  shows "dtype y = dtype h"
proof -
  from assms obtain a b c where a: "permute [1, 0, 2] h = Inr a"
    and b: "select_first a = Inr b" and c: "LayerNorm_forward (ln_post vt) b = Inr c"
    and y: "(case proj vt of None \<Rightarrow> Inr c | Some p \<Rightarrow> matmul c p) = Inr y"
    by (auto simp add: vit_pool_def ebind_eq_Inr)
  have "dtype y = dtype c"
    using y matmul_Inr by (cases "proj vt") auto
  then show ?thesis
    using permute_Inr [OF a] select_first_Inr [OF b] LayerNorm_forward_Inr [OF c] by simp
qed

lemma block_forward_dtype:
  assumes run: "ResidualAttentionBlock_forward b x = (Inr y, b')"
    and k: "attn_keeps_dtype (attn b)" and f: "is_floating_point (dtype x)"
  shows "dtype y = dtype x"
proof -
  obtain n1 where n1: "LayerNorm_forward (ln_1 b) x = Inr n1"
    using run by (cases "LayerNorm_forward (ln_1 b) x") (auto simp add: ResidualAttentionBlock_forward_def)
  obtain r b1 where at: "attention b n1 = (r, b1)" by (cases "attention b n1")
  have r: "r = attn b n1 n1 n1 (attn_mask b1)" and b1: "ln_2 b1 = ln_2 b" "c_fc b1 = c_fc b"
      "c_proj b1 = c_proj b"
    using at by (auto simp add: attention_def Let_def)
  from run n1 at obtain a x1 n2 ff where a: "r = Inr a" and x1: "tensor_add x a = Inr x1"
    and n2: "LayerNorm_forward (ln_2 b1) x1 = Inr n2" and ff: "mlp b1 n2 = Inr ff"
    and y: "tensor_add x1 ff = Inr y"
    by (auto simp add: ResidualAttentionBlock_forward_def ebind_eq_Inr)
  have da: "dtype a = dtype x"
    using k r a LayerNorm_forward_Inr [OF n1] unfolding attn_keeps_dtype_def by metis
  have dx1: "dtype x1 = dtype x" using tensor_add_dtype [OF x1 da] .
  have dn2: "dtype n2 = dtype x" using LayerNorm_forward_Inr [OF n2] dx1 by simp
  from ff obtain h where h: "nn_Linear_forward (c_fc b1) n2 = Inr h"
    and p: "nn_Linear_forward (c_proj b1) (QuickGELU_forward h) = Inr ff"
    by (auto simp add: mlp_def ebind_eq_Inr)
  have dh: "dtype h = dtype x" using nn_Linear_forward_Inr [OF h] dn2 by simp
  have "dtype (QuickGELU_forward h) = dtype x"
    using dh f by (simp add: QuickGELU_forward_def)
  then have "dtype ff = dtype x1" using nn_Linear_forward_Inr [OF p] dx1 by simp
  then show ?thesis using tensor_add_dtype [OF y] dx1 by simp
qed

lemma resblocks_forward_dtype:
  assumes "resblocks_forward bs x = (Inr y, bs')"
    and "\<forall>b\<in>set bs. attn_keeps_dtype (attn b)" and "is_floating_point (dtype x)"
  shows "dtype y = dtype x"
  using assms
proof (induction bs arbitrary: x bs')
  case Nil
  then show ?case by simp
next
  case (Cons b bs)
  obtain r b1 where fb: "ResidualAttentionBlock_forward b x = (r, b1)"
    by (cases "ResidualAttentionBlock_forward b x")
  obtain z where z: "r = Inr z"
    using Cons.prems(1) fb by (cases r) auto
  obtain r2 bs2 where rest: "resblocks_forward bs z = (r2, bs2)"
    by (cases "resblocks_forward bs z")
  have r2: "r2 = Inr y" using Cons.prems(1) fb z rest by simp
  have dz: "dtype z = dtype x"
    using block_forward_dtype [of b x z b1] fb z Cons.prems(2,3) by simp
  have "dtype y = dtype z"
    using Cons.IH [of z bs2] rest r2 Cons.prems(2,3) dz by simp
  then show ?case using dz by simp
qed

lemma VisionTransformer_forward_dtype:
  assumes run: "VisionTransformer_forward vt x = (Inr y, vt')"
    and k: "\<forall>b\<in>set (resblocks (transformer vt)). attn_keeps_dtype (attn b)"
    and f: "is_floating_point (dtype x)"
  shows "dtype y = dtype x \<and> dtype x = dtype (conv_weight (conv1 vt))"
proof -
  obtain e where e: "vit_embed vt x = Inr e"
    using run by (cases "vit_embed vt x") (auto simp add: VisionTransformer_forward_def)
  obtain r t' where tf: "Transformer_forward (transformer vt) e = (r, t')"
    by (cases "Transformer_forward (transformer vt) e")
  from run e tf obtain h where h: "r = Inr h" and p: "vit_pool vt h = Inr y"
    by (auto simp add: VisionTransformer_forward_def ebind_eq_Inr)
  obtain bs' where rb: "resblocks_forward (resblocks (transformer vt)) e = (Inr h, bs')"
    using tf h by (auto simp add: Transformer_forward_def split: prod.splits)
  have de: "dtype e = dtype x" using vit_embed_dtype [OF e] .
  have dh: "dtype h = dtype e"
    using resblocks_forward_dtype [OF rb k] f de by simp
  have dc: "dtype x = dtype (conv_weight (conv1 vt))"
    using e nn_Conv2d_forward_Inr
    by (auto simp add: vit_embed_def patchify_def ebind_eq_Inr)
  show ?thesis
    using vit_pool_dtype [OF p] dh de dc by simp
qed

lemma text_embed_dtype:
  assumes "text_embed m ids = Inr x"
  shows "dtype x = CLIP_dtype m"
proof -
  from assms obtain emb x0 pe x1 where "token_embedding m = Some emb"
    and "nn_Embedding_forward emb ids = Inr x0"
    and "text_positional_embedding m = Some pe"
    and a: "tensor_add (tensor_type (CLIP_dtype m) x0) (tensor_type (CLIP_dtype m) pe) = Inr x1"
    and p: "permute [1, 0, 2] x1 = Inr x"
    by (auto simp add: text_embed_def ebind_eq_Inr Let_def split: option.splits)
  show ?thesis
    using tensor_add_dtype [OF a] permute_Inr [OF p] by (simp add: tensor_type_def)
qed

lemma encode_text_huggingface_dtype:
  assumes "encode_text_huggingface m strs = Inr z"
  shows "dtype z = CLIP_dtype m"
proof -
  obtain tok where tk: "tokenizer m = Some (BertTokenizer tok)"
    using assms
    by (cases "tokenizer m")
       (auto simp add: encode_text_huggingface_def split: tokenizer.splits)
  from assms tk obtain enc where enc: "tok strs = Inr enc"
    by (cases "tok strs") (auto simp add: encode_text_huggingface_def)
  obtain bm where bm: "text_transformer m = Some (BertModel bm)"
    using assms tk enc
    by (cases "text_transformer m")
       (auto simp add: encode_text_huggingface_def Let_def split: text_model.splits)
  from assms tk enc bm obtain x1 where
    "matmul (tensor_type (CLIP_dtype m) x1) (text_projection m) = Inr z"
    by (auto simp add: encode_text_huggingface_def Let_def ebind_eq_Inr)
  then show ?thesis
    using matmul_Inr [of "tensor_type (CLIP_dtype m) x1" "text_projection m" z]
    by (simp add: tensor_type_def)
qed

lemma encode_text_dtype:
  assumes "encode_text m strs = (Inr z, m')"
  shows "dtype z = CLIP_dtype m"
proof (cases "bert_type m = ''openai''")
  case True
  from encode_text_trace [OF True assms] obtain h hid pos sel where
    hid: "text_hidden m h = Inr hid" and sel: "index_rows hid pos = Inr sel"
    and y: "matmul sel (text_projection m) = Inr z"
    by blast
  show ?thesis
    using text_hidden_Inr [OF hid] index_rows_Inr [OF sel] matmul_Inr [OF y] by simp
next
  case False
  then have "bert_type m = ''huggingface''" and "encode_text_huggingface m strs = Inr z"
    using assms by (auto simp add: encode_text_def split: if_splits)
  then show ?thesis using encode_text_huggingface_dtype by simp
qed

lemma text_tokens_device:
  assumes "text_tokens m strs = Inr ids"
  shows "device ids = CLIP_device m"
  using assms
  by (auto simp add: text_tokens_def ebind_eq_Inr to_device_def
      split: option.splits tokenizer.splits)

lemma text_embed_device_mismatch:
  assumes "token_embedding m = Some emb" "device ids \<noteq> device (emb_weight emb)"
    "dtype ids = Int32 \<or> dtype ids = Int64"
  shows "text_embed m ids = Inl RuntimeError"
  using assms by (auto simp add: text_embed_def nn_Embedding_forward_def)

lemma build_attention_mask_ok:
  assumes "0 \<le> n"
  shows "\<exists>m. build_attention_mask n u = Inr m \<and> shape m = [nat n, nat n]
           \<and> dtype m = Float32 \<and> device m = CPU"
  using assms
  by (simp add: build_attention_mask_def empty2_def fill_inplace_def triu_inplace_def)

lemma demo_clip_fields:
  "\<exists>vt msk tr tp.
     VisionTransformer_init 2 1 64 1 1 2 demo_vit_params = Inr vt
   \<and> build_attention_mask 2 (\<lambda>_. Fin 0) = Inr msk
   \<and> Transformer_init 2 1 1 (Some msk) (\<lambda>_. demo_block_params) = Inr tr
   \<and> shape tp = [2, 2] \<and> dtype tp = Float32 \<and> device tp = CPU
   \<and> CLIP_init demo_env demo_args = Inr demo_clip
   \<and> demo_clip =
       \<lparr>context_length = 2, visual = vt, bert_type = ''openai'',
        tokenizer = Some (SimpleTokenizer demo_tokenize),
        text_transformer = Some (TextTransformer tr),
        vocab_size = Some 3,
        token_embedding =
          Some \<lparr>num_embeddings = 3, embedding_dim = 2,
                emb_weight = \<lparr>shape = [3, 2], dtype = Float32, device = CPU,
                                entry = (\<lambda>_. 1)\<rparr>\<rparr>,
        text_positional_embedding =
          Some \<lparr>shape = [2, 2], dtype = Float32, device = CPU, entry = (\<lambda>_. 0)\<rparr>,
        text_projection = tp,
        ln_final = projr (nn_LayerNorm_init 2),
        logit_scale = \<lparr>shape = [], dtype = Float32, device = CPU,
                        entry = (\<lambda>_. ln (1 / (7 / 100)))\<rparr>\<rparr>"
proof -
  obtain vt where vt: "VisionTransformer_init 2 1 64 1 1 2 demo_vit_params = Inr vt"
    using VisionTransformer_init_ok [of 64 1 1 2 2 1 demo_vit_params] by auto
  obtain msk where msk: "build_attention_mask 2 (\<lambda>_. Fin 0) = Inr msk"
    using build_attention_mask_ok [of 2 "\<lambda>_. Fin 0"] by auto
  obtain tr where tr: "Transformer_init 2 1 1 (Some msk) (\<lambda>_. demo_block_params) = Inr tr"
    using Transformer_init_ok [of 2 1 1 "Some msk" "\<lambda>_. demo_block_params"] by auto
  have tb: "init_text_backbone demo_env demo_args =
      Inr \<lparr>tb_tokenizer = Some (SimpleTokenizer demo_tokenize),
           tb_transformer = Some (TextTransformer tr),
           tb_vocab_size = Some 3,
           tb_token_embedding = Some \<lparr>num_embeddings = 3, embedding_dim = 2,
                emb_weight = \<lparr>shape = [3, 2], dtype = Float32, device = CPU,
                                entry = (\<lambda>_. 1)\<rparr>\<rparr>,
           tb_positional_embedding =
             Some \<lparr>shape = [2, 2], dtype = Float32, device = CPU, entry = (\<lambda>_. 0)\<rparr>,
           tb_width = 2\<rparr>"
    using msk tr
    by (simp add: init_text_backbone_def demo_env_def demo_args_def nn_Embedding_init_def
        empty2_def)
  have ci: "CLIP_init demo_env demo_args =
      Inr \<lparr>context_length = 2, visual = vt, bert_type = ''openai'',
        tokenizer = Some (SimpleTokenizer demo_tokenize),
        text_transformer = Some (TextTransformer tr),
        vocab_size = Some 3,
        token_embedding =
          Some \<lparr>num_embeddings = 3, embedding_dim = 2,
                emb_weight = \<lparr>shape = [3, 2], dtype = Float32, device = CPU,
                                entry = (\<lambda>_. 1)\<rparr>\<rparr>,
        text_positional_embedding =
          Some \<lparr>shape = [2, 2], dtype = Float32, device = CPU, entry = (\<lambda>_. 0)\<rparr>,
        text_projection = \<lparr>shape = [2, 2], dtype = Float32, device = CPU,
                             entry = (\<lambda>idx. 2 powr (- 1 / 2) * 1)\<rparr>,
        ln_final = projr (nn_LayerNorm_init 2),
        logit_scale = \<lparr>shape = [], dtype = Float32, device = CPU,
                        entry = (\<lambda>_. ln (1 / (7 / 100)))\<rparr>\<rparr>"
    using vt tb
    by (simp add: CLIP_init_def Let_def empty2_def nn_LayerNorm_init_def)
       (simp add: demo_env_def demo_args_def)
  show ?thesis
    using vt msk tr ci by (simp add: demo_clip_def)
qed

lemma similarity_ok:
  assumes "shape fi = [Bi, D]" "dtype fi = Float32" "device fi = CPU"
    and "shape ft = [Bt, D]" "dtype ft = Float32" "device ft = CPU"
    and "shape (logit_scale m) = []" "dtype (logit_scale m) = Float32"
      "device (logit_scale m) = CPU"
  shows "\<exists>lpi lpt. similarity m fi ft = Inr (lpi, lpt)"
proof -
  obtain ni where ni: "tensor_norm fi = Inr ni" "shape ni = [Bi, 1]" "dtype ni = Float32"
      "device ni = CPU"
    using assms by (simp add: tensor_norm_def is_floating_point_def)
  obtain nfi where nfi: "tensor_div fi ni = Inr nfi" "shape nfi = [Bi, D]" "dtype nfi = Float32"
      "device nfi = CPU"
    using assms ni
    by (simp add: tensor_div_def binop_def result_device_def result_type_def
        broadcast_shapes_def promote_types_same is_floating_point_def)
  obtain nt where nt: "tensor_norm ft = Inr nt" "shape nt = [Bt, 1]" "dtype nt = Float32"
      "device nt = CPU"
    using assms by (simp add: tensor_norm_def is_floating_point_def)
  obtain nft where nft: "tensor_div ft nt = Inr nft" "shape nft = [Bt, D]" "dtype nft = Float32"
      "device nft = CPU"
    using assms nt
    by (simp add: tensor_div_def binop_def result_device_def result_type_def
        broadcast_shapes_def promote_types_same is_floating_point_def)
  obtain sc where sc: "tensor_mul (tensor_exp (logit_scale m)) nfi = Inr sc" "shape sc = [Bi, D]"
      "dtype sc = Float32" "device sc = CPU"
    using assms nfi
    by (simp add: tensor_mul_def binop_def result_device_def result_type_def tensor_exp_def
        broadcast_shapes_def is_floating_point_def)
  obtain tt where tt: "tensor_t nft = Inr tt" "shape tt = [D, Bt]" "dtype tt = Float32"
      "device tt = CPU"
    using nft by (simp add: tensor_t_def)
  obtain lpi where lpi: "matmul sc tt = Inr lpi" "shape lpi = [Bi, Bt]"
    using sc tt by (simp add: matmul_def)
  obtain lpt where lpt: "tensor_t lpi = Inr lpt"
    using lpi by (simp add: tensor_t_def)
  show ?thesis
    using ni nfi nt nft sc tt lpi lpt by (simp add: similarity_def)
qed

lemma demo_encode_text_ok:
  assumes bt: "bert_type m = ''openai''"
    and tk: "tokenizer m = Some (SimpleTokenizer demo_tokenize)"
    and te: "token_embedding m =
          Some \<lparr>num_embeddings = 3, embedding_dim = 2,
                emb_weight = \<lparr>shape = [3, 2], dtype = Float32, device = CPU,
                                entry = (\<lambda>_. 1)\<rparr>\<rparr>"
    and pe: "text_positional_embedding m =
          Some \<lparr>shape = [2, 2], dtype = Float32, device = CPU, entry = (\<lambda>_. 0)\<rparr>"
    and tt: "text_transformer m = Some (TextTransformer tr)"
    and ti: "Transformer_init 2 1 1 (Some msk) (\<lambda>_. demo_block_params) = Inr tr"
    and lf: "ln_final m = projr (nn_LayerNorm_init 2)"
    and tp: "shape (text_projection m) = [2, 2]" "dtype (text_projection m) = Float32"
      "device (text_projection m) = CPU"
    and cd: "CLIP_dtype m = Float32" "CLIP_device m = CPU"
  shows "\<exists>y m'. encode_text m [s] = (Inr y, m') \<and> shape y = [1, 2] \<and> dtype y = Float32
           \<and> device y = CPU"
proof -
  define ids :: "int tensor" where "ids = \<lparr>shape = [1, 2], dtype = Int64, device = CPU,
          entry = (\<lambda>idx. if last idx = 0 then 2 else 1)\<rparr>"
  have tok: "text_tokens m [s] = Inr ids"
    using tk cd by (simp add: text_tokens_def demo_tokenize_def to_device_def ids_def)
  define emb where "emb = \<lparr>num_embeddings = 3, embedding_dim = 2,
                emb_weight = \<lparr>shape = [3, 2], dtype = Float32, device = CPU,
                                entry = (\<lambda>_. 1::real)\<rparr>\<rparr>"
  have chk: "list_all (\<lambda>idx. 0 \<le> entry ids idx \<and> entry ids idx < int (num_embeddings emb))
               (all_indices (shape ids))"
    by (simp add: ids_def emb_def upt_conv_Cons)
  obtain x0 where x0: "nn_Embedding_forward emb ids = Inr x0" "shape x0 = [1, 2, 2]"
      "dtype x0 = Float32" "device x0 = CPU"
    using chk by (simp add: nn_Embedding_forward_def) (simp add: ids_def emb_def)
  obtain x1 where x1: "tensor_add (tensor_type Float32 x0)
        (tensor_type Float32 \<lparr>shape = [2, 2], dtype = Float32, device = CPU, entry = (\<lambda>_. 0)\<rparr>)
          = Inr x1" "shape x1 = [1, 2, 2]" "dtype x1 = Float32" "device x1 = CPU"
    using x0
    by (simp add: tensor_type_def tensor_add_def binop_def result_device_def result_type_def
        broadcast_shapes_def promote_types_same)
  obtain x where xp: "permute [1, 0, 2] x1 = Inr x" and xm: "shape x = [2, 1, 2]"
      "dtype x = Float32" "device x = CPU"
    using x1 by (simp add: permute_def)
  have x: "text_embed m ids = Inr x" "shape x = [2, 1, 2]" "dtype x = Float32" "device x = CPU"
    using te pe cd x0 x1 xp xm by (simp_all add: text_embed_def emb_def Let_def)
  have x3: "shape x = [2, 1, nat 2]" using x by simp
  have mh: "\<forall>i<nat 1. \<forall>q. shape q = [2, 1, nat 2] \<and> dtype q = Float32 \<and> device q = CPU \<longrightarrow>
               (\<exists>a. mha ((\<lambda>_. demo_block_params) i) q q q
                       (map_option (tensor_to Float32 CPU) (Some msk)) = Inr a
                  \<and> shape a = shape q \<and> dtype a = Float32 \<and> device a = CPU)"
    by (simp add: demo_block_params_def passthrough_attention_def)
  obtain h tr' where h: "Transformer_forward tr x = (Inr h, tr')" "shape h = shape x"
      "dtype h = Float32" "device h = CPU"
    using Transformer_forward_ok [OF ti x3 x(3,4) mh] by blast
  obtain hid where hid: "text_hidden m h = Inr hid" "shape hid = [1, 2, 2]"
      "dtype hid = Float32" "device hid = CPU"
    using h x lf cd
    by (simp add: text_hidden_def permute_def nn_LayerNorm_forward_def nn_LayerNorm_init_def
        tensor_type_def layer_norm_dtype_ok_def is_floating_point_def)
  obtain pos where pos: "argmax_last ids = Inr pos" "shape pos = [1]" "device pos = CPU"
      "entry pos [0] = 0"
    by (simp add: argmax_last_def ids_def row_of_def argmax_list_def upt_conv_Cons)
  obtain sel where sel: "index_rows hid pos = Inr sel" "shape sel = [1, 2]"
      "dtype sel = Float32" "device sel = CPU"
    using hid pos by (simp add: index_rows_def)
  obtain y where y: "matmul sel (text_projection m) = Inr y" "shape y = [1, 2]"
      "dtype y = Float32" "device y = CPU"
    using sel tp by (simp add: matmul_def)
  have pool: "text_pool m ids h = Inr y"
    using hid pos sel y by (simp add: text_pool_def)
  have "encode_text m [s] = (Inr y, m\<lparr>text_transformer := Some (TextTransformer tr')\<rparr>)"
    using bt tok x tt h pool by (simp add: encode_text_def encode_text_openai_def)
  then show ?thesis using y by blast
qed

lemma vit_forward_run:
  assumes init: "VisionTransformer_init res patch_size w l h od ps = Inr vt"
    and geom: "patch_size \<le> res"
    and x: "shape x = [B, 3, nat res, nat res]" "dtype x = Float32" "device x = CPU"
    and B: "1 \<le> B"
    and mha: "\<forall>i<nat l. \<forall>q. shape q = [(nat (res div patch_size))\<^sup>2 + 1, B, nat w]
                 \<and> dtype q = Float32 \<and> device q = CPU \<longrightarrow>
               (\<exists>a. mha (vit_blocks ps i) q q q None = Inr a
                  \<and> shape a = shape q \<and> dtype a = Float32 \<and> device a = CPU)"
  shows "\<exists>g xc tok sq e hs tr' xb c z p y.
           g = nat (res div patch_size)
         \<and> kernel_size (conv1 vt) = nat patch_size \<and> stride (conv1 vt) = nat patch_size
         \<and> nn_Conv2d_forward (conv1 vt) x = Inr xc \<and> shape xc = [B, nat w, g, g]
         \<and> patchify vt x = Inr tok \<and> shape tok = [B, g\<^sup>2, nat w]
         \<and> prepend_class_token vt tok = Inr sq \<and> shape sq = [B, g\<^sup>2 + 1, nat w]
         \<and> (\<forall>b k. b < B \<and> k < nat w \<longrightarrow>
                 entry sq [b, 0, k] = entry (class_embedding vt) [k]
               \<and> (\<forall>s. entry sq [b, Suc s, k] = entry tok [b, s, k]))
         \<and> shape (positional_embedding vt) = [g\<^sup>2 + 1, nat w]
         \<and> vit_embed vt x = Inr e \<and> shape e = [g\<^sup>2 + 1, B, nat w]
         \<and> (\<forall>blk\<in>set (resblocks (transformer vt)). attn_mask blk = None)
         \<and> Transformer_forward (transformer vt) e = (Inr hs, tr')
         \<and> shape hs = [g\<^sup>2 + 1, B, nat w]
         \<and> permute [1, 0, 2] hs = Inr xb \<and> select_first xb = Inr c
         \<and> (\<forall>b k. entry c [b, k] = entry hs [0, b, k])
         \<and> LayerNorm_forward (ln_post vt) c = Inr z
         \<and> proj vt = Some p \<and> matmul z p = Inr y
         \<and> (\<forall>b j. entry y [b, j] = sum_upto (nat w) (\<lambda>k. entry z [b, k] * entry p [k, j]))
         \<and> VisionTransformer_forward vt x = (Inr y, vt\<lparr>transformer := tr'\<rparr>)
         \<and> shape y = [B, nat od] \<and> dtype y = Float32 \<and> device y = CPU"
proof -
  note F = VisionTransformer_init_Inr [OF init]
  define g where "g = nat (res div patch_size)"
  have pos: "0 < w" "0 < patch_size" "0 \<le> od" using F by simp_all
  have rpos: "0 < res" using pos geom by simp
  have gq: "nat res div nat patch_size = g"
    using pos rpos by (simp add: g_def nat_div_distrib)
  have gg: "g * g = g\<^sup>2" by (simp add: power2_eq_square)
  have dnn: "0 \<le> res div patch_size" using pos rpos by (simp add: pos_imp_zdiv_nonneg_iff)
  have spe: "shape (positional_embedding vt) = [g\<^sup>2 + 1, nat w]"
    using F nat_grid [OF dnn] by (simp add: g_def)
  have c1: "conv1 vt = \<lparr>in_channels = 3, out_channels = nat w, kernel_size = nat patch_size,
                       stride = nat patch_size,
                       conv_weight = \<lparr>shape = [nat w, 3, nat patch_size, nat patch_size],
                                        dtype = Float32, device = CPU, entry = conv1_w ps\<rparr>\<rparr>"
    using F by simp
  have np: "0 < nat patch_size" "nat patch_size \<le> nat res" "0 < B" "0 < nat w"
    using pos geom B by simp_all
  have "\<exists>xc tok. nn_Conv2d_forward (conv1 vt) x = Inr xc
           \<and> shape xc = [B, nat w, nat res div nat patch_size, nat res div nat patch_size]
           \<and> patchify vt x = Inr tok
           \<and> shape tok = [B, (nat res div nat patch_size) * (nat res div nat patch_size), nat w]
           \<and> dtype tok = Float32 \<and> device tok = CPU"
    by (rule patchify_ok [OF c1 _ _ x np]) simp_all
  then obtain xc tok where xc: "nn_Conv2d_forward (conv1 vt) x = Inr xc"
      "shape xc = [B, nat w, g, g]"
    and tok: "patchify vt x = Inr tok" "shape tok = [B, g\<^sup>2, nat w]"
      "dtype tok = Float32" "device tok = CPU"
    unfolding gq gg by blast
  obtain sq where sq: "prepend_class_token vt tok = Inr sq" "shape sq = [B, g\<^sup>2 + 1, nat w]"
      "dtype sq = Float32" "device sq = CPU"
      "\<forall>b k. b < B \<and> k < nat w \<longrightarrow>
                 entry sq [b, 0, k] = entry (class_embedding vt) [k]
               \<and> (\<forall>s. entry sq [b, Suc s, k] = entry tok [b, s, k])"
    using prepend_class_token_ok [OF _ _ tok(2,3,4), of vt] F by auto
  obtain xp where xp: "tensor_add sq (to_dtype (dtype sq) (positional_embedding vt)) = Inr xp"
      "shape xp = [B, g\<^sup>2 + 1, nat w]" "dtype xp = Float32" "device xp = CPU"
    using add_positional_ok [OF sq(2,3,4) spe] F by auto
  obtain xn where xn: "LayerNorm_forward (ln_pre vt) xp = Inr xn" "shape xn = shape xp"
      "dtype xn = dtype xp" "device xn = device xp"
    using LayerNorm_forward_ok [of xp "ln_pre vt"] xp F pos
    by (auto simp add: nn_LayerNorm_init_def)
  obtain e where e: "permute [1, 0, 2] xn = Inr e" "shape e = [g\<^sup>2 + 1, B, nat w]"
      "dtype e = Float32" "device e = CPU"
    using permute3_ok [of xn B "g\<^sup>2 + 1" "nat w" "[1, 0, 2]"] xn xp by auto
  have emb: "vit_embed vt x = Inr e"
    using tok sq xp xn e by (simp add: vit_embed_def)
  have tri: "Transformer_init w l h None (vit_blocks ps) = Inr (transformer vt)"
    using F by simp
  have mha': "\<forall>i<nat l. \<forall>q. shape q = [g\<^sup>2 + 1, B, nat w] \<and> dtype q = Float32 \<and> device q = CPU \<longrightarrow>
               (\<exists>a. mha (vit_blocks ps i) q q q (map_option (tensor_to Float32 CPU) None) = Inr a
                  \<and> shape a = shape q \<and> dtype a = Float32 \<and> device a = CPU)"
    using mha by (simp add: g_def)
  obtain hs tr' where hs: "Transformer_forward (transformer vt) e = (Inr hs, tr')"
      "shape hs = shape e" "dtype hs = Float32" "device hs = CPU"
      "\<forall>b\<in>set (resblocks (transformer vt)). attn_mask b = None"
    using Transformer_forward_ok [OF tri e(2,3,4) mha'] by blast
  obtain xb where xb: "permute [1, 0, 2] hs = Inr xb" "shape xb = [B, g\<^sup>2 + 1, nat w]"
      "dtype xb = Float32" "device xb = CPU" "\<forall>i j k. entry xb [i, j, k] = entry hs [j, i, k]"
    using permute3_ok [of hs "g\<^sup>2 + 1" B "nat w" "[1, 0, 2]"] hs e by auto
  obtain c where c: "select_first xb = Inr c" "shape c = [B, nat w]" "dtype c = Float32"
      "device c = CPU" "\<forall>b k. entry c [b, k] = entry xb [b, 0, k]"
    using select_first_ok [OF xb(2)] xb by auto
  obtain z where z: "LayerNorm_forward (ln_post vt) c = Inr z" "shape z = shape c"
      "dtype z = dtype c" "device z = device c"
    using LayerNorm_forward_ok [of c "ln_post vt"] c F pos
    by (auto simp add: nn_LayerNorm_init_def)
  obtain p where p: "proj vt = Some p" "shape p = [nat w, nat od]" "dtype p = Float32"
      "device p = CPU"
    using F by blast
  obtain y where y: "matmul z p = Inr y" "shape y = [B, nat od]"
      "\<forall>b j. entry y [b, j] = sum_upto (nat w) (\<lambda>k. entry z [b, k] * entry p [k, j])"
      "dtype y = Float32" "device y = CPU"
    using matmul_ok [of z B "nat w" p "nat od"] z c p by auto
  have pool: "vit_pool vt hs = Inr y"
    using xb c z p y by (simp add: vit_pool_def)
  have fwd: "VisionTransformer_forward vt x = (Inr y, vt\<lparr>transformer := tr'\<rparr>)"
    using emb hs pool by (simp add: VisionTransformer_forward_def)
  have ce: "\<forall>b k. entry c [b, k] = entry hs [0, b, k]"
    using c(5) xb(5) by simp
  have ks: "kernel_size (conv1 vt) = nat patch_size" "stride (conv1 vt) = nat patch_size"
    by (simp_all add: c1)
  have she: "shape hs = [g\<^sup>2 + 1, B, nat w]" using hs e by simp
  show ?thesis
    using g_def ks xc tok(1,2) sq(1,2,5) spe emb e(2) hs(5) hs(1) she xb(1) c(1) ce z(1) p(1)
      y(1) y(3) fwd y(2) y(4) y(5)
    by blast
qed

lemma build_blocks_attn:
  assumes "build_blocks w h mask0 pss = Inr bs"
  shows "\<forall>b\<in>set bs. \<exists>ps\<in>set pss. attn b = mha ps"
  using assms
proof (induction pss arbitrary: bs)
  case Nil
  then show ?case by simp
next
  case (Cons ps pss)
  from Cons.prems obtain b bs' where b: "ResidualAttentionBlock_init w h mask0 ps = Inr b"
    and bs': "build_blocks w h mask0 pss = Inr bs'" and e: "bs = b # bs'"
    by (auto simp add: ebind_eq_Inr)
  show ?case
    using Cons.IH [OF bs'] ResidualAttentionBlock_init_Inr [OF b] e by auto
qed

lemma Transformer_init_Inr:
  assumes "Transformer_init w l h mask0 ps = Inr t"
  shows "build_blocks w h mask0 (map ps [0..<nat l]) = Inr (resblocks t)"
  using assms by (auto simp add: Transformer_init_def ebind_eq_Inr)

lemma demo_visual_run:
  assumes vt: "VisionTransformer_init 2 1 64 1 1 2 demo_vit_params = Inr vt"
  shows "\<exists>y tr'. VisionTransformer_forward vt demo_image = (Inr y, vt\<lparr>transformer := tr'\<rparr>)
           \<and> shape y = [1, 2] \<and> dtype y = Float32 \<and> device y = CPU"
proof -
  have x: "shape demo_image = [1, 3, nat 2, nat 2]" "dtype demo_image = Float32"
      "device demo_image = CPU"
    by (simp_all add: demo_image_def)
  have mh: "\<forall>i<nat 1. \<forall>q. shape q = [(nat (2 div 1))\<^sup>2 + 1, 1, nat 64]
                 \<and> dtype q = Float32 \<and> device q = CPU \<longrightarrow>
               (\<exists>a. mha (vit_blocks demo_vit_params i) q q q None = Inr a
                  \<and> shape a = shape q \<and> dtype a = Float32 \<and> device a = CPU)"
    by (simp add: demo_vit_params_def demo_block_params_def passthrough_attention_def)
  show ?thesis
    using vit_forward_run [OF vt _ x _ mh] by auto
qed

lemma demo_visual_attn:
  assumes vt: "VisionTransformer_init 2 1 64 1 1 2 demo_vit_params = Inr vt"
  shows "\<forall>b\<in>set (resblocks (transformer vt)). attn_keeps_dtype (attn b)"
proof -
  have "Transformer_init 64 1 1 None (vit_blocks demo_vit_params) = Inr (transformer vt)"
    using VisionTransformer_init_Inr [OF vt] by simp
  then have bs: "build_blocks 64 1 None (map (vit_blocks demo_vit_params) [0..<nat 1])
      = Inr (resblocks (transformer vt))"
    by (rule Transformer_init_Inr)
  have "\<forall>b\<in>set (resblocks (transformer vt)). attn b = passthrough_attention"
    using build_blocks_attn [OF bs] by (auto simp add: demo_vit_params_def demo_block_params_def)
  then show ?thesis
    by (simp add: attn_keeps_dtype_def passthrough_attention_def)
qed

lemma demo_forward_run:
  "\<exists>fi m1 ft m2 lpi lpt.
     encode_image demo_clip demo_image = (Inr fi, m1) \<and> shape fi = [1, 2]
   \<and> encode_text m1 [''a photo''] = (Inr ft, m2) \<and> shape ft = [1, 2]
   \<and> forward demo_clip demo_image [''a photo''] = (Inr (lpi, lpt), m2)"
proof -
  from demo_clip_fields obtain vt msk tr tp where
    vt: "VisionTransformer_init 2 1 64 1 1 2 demo_vit_params = Inr vt"
    and tr: "Transformer_init 2 1 1 (Some msk) (\<lambda>_. demo_block_params) = Inr tr"
    and tp: "shape tp = [2, 2]" "dtype tp = Float32" "device tp = CPU"
    and dc: "demo_clip =
       \<lparr>context_length = 2, visual = vt, bert_type = ''openai'',
        tokenizer = Some (SimpleTokenizer demo_tokenize),
        text_transformer = Some (TextTransformer tr),
        vocab_size = Some 3,
        token_embedding =
          Some \<lparr>num_embeddings = 3, embedding_dim = 2,
                emb_weight = \<lparr>shape = [3, 2], dtype = Float32, device = CPU,
                                entry = (\<lambda>_. 1)\<rparr>\<rparr>,
        text_positional_embedding =
          Some \<lparr>shape = [2, 2], dtype = Float32, device = CPU, entry = (\<lambda>_. 0)\<rparr>,
        text_projection = tp,
        ln_final = projr (nn_LayerNorm_init 2),
        logit_scale = \<lparr>shape = [], dtype = Float32, device = CPU,
                        entry = (\<lambda>_. ln (1 / (7 / 100)))\<rparr>\<rparr>"
    by blast
  have cw: "dtype (conv_weight (conv1 vt)) = Float32" "device (conv_weight (conv1 vt)) = CPU"
    using VisionTransformer_init_Inr [OF vt] by simp_all
  have cd: "CLIP_dtype demo_clip = Float32"
    by (simp add: CLIP_dtype_def dc cw)
  have ti: "tensor_type Float32 demo_image = demo_image"
    by (simp add: tensor_type_def demo_image_def)
  obtain fi tr' where fi: "VisionTransformer_forward vt demo_image = (Inr fi, vt\<lparr>transformer := tr'\<rparr>)"
    "shape fi = [1, 2]" "dtype fi = Float32" "device fi = CPU"
    using demo_visual_run [OF vt] by blast
  define m1 where "m1 = demo_clip\<lparr>visual := vt\<lparr>transformer := tr'\<rparr>\<rparr>"
  have ei: "encode_image demo_clip demo_image = (Inr fi, m1)"
    using fi(1) by (simp add: encode_image_def cd ti m1_def) (simp add: dc)
  have m1f: "bert_type m1 = ''openai''" "tokenizer m1 = Some (SimpleTokenizer demo_tokenize)"
    "token_embedding m1 =
          Some \<lparr>num_embeddings = 3, embedding_dim = 2,
                emb_weight = \<lparr>shape = [3, 2], dtype = Float32, device = CPU,
                                entry = (\<lambda>_. 1)\<rparr>\<rparr>"
    "text_positional_embedding m1 =
          Some \<lparr>shape = [2, 2], dtype = Float32, device = CPU, entry = (\<lambda>_. 0)\<rparr>"
    "text_transformer m1 = Some (TextTransformer tr)"
    "ln_final m1 = projr (nn_LayerNorm_init 2)"
    "shape (text_projection m1) = [2, 2]" "dtype (text_projection m1) = Float32"
    "device (text_projection m1) = CPU"
    "CLIP_dtype m1 = Float32" "CLIP_device m1 = CPU"
    using tp cw by (simp_all add: m1_def dc CLIP_dtype_def CLIP_device_def)
  obtain ft m2 where ft: "encode_text m1 [''a photo''] = (Inr ft, m2)" "shape ft = [1, 2]"
    "dtype ft = Float32" "device ft = CPU"
    using demo_encode_text_ok [OF m1f(1-5) tr m1f(6-11), of "''a photo''"] by blast
  have ls: "logit_scale m2 = logit_scale demo_clip"
    using encode_text_logit_scale [of m1 "[''a photo'']"] ft(1) by (simp add: m1_def)
  have lsm: "shape (logit_scale m2) = []" "dtype (logit_scale m2) = Float32"
    "device (logit_scale m2) = CPU"
    by (simp_all add: ls) (simp_all add: dc)
  obtain lpi lpt where "similarity m2 fi ft = Inr (lpi, lpt)"
    using similarity_ok [OF fi(2,3,4) ft(2,3,4) lsm] by blast
  then have "forward demo_clip demo_image [''a photo''] = (Inr (lpi, lpt), m2)"
    using ei ft(1) by (simp add: forward_def)
  then show ?thesis using ei fi(2) ft(1,2) by blast
qed

lemma demo_clip_text:
  "\<exists>msk tr.
     Transformer_init 2 1 1 (Some msk) (\<lambda>_. demo_block_params) = Inr tr
   \<and> VisionTransformer_init 2 1 64 1 1 2 demo_vit_params = Inr (visual demo_clip)
   \<and> bert_type demo_clip = ''openai''
   \<and> tokenizer demo_clip = Some (SimpleTokenizer demo_tokenize)
   \<and> token_embedding demo_clip =
          Some \<lparr>num_embeddings = 3, embedding_dim = 2,
                emb_weight = \<lparr>shape = [3, 2], dtype = Float32, device = CPU,
                                entry = (\<lambda>_. 1)\<rparr>\<rparr>
   \<and> text_positional_embedding demo_clip =
          Some \<lparr>shape = [2, 2], dtype = Float32, device = CPU, entry = (\<lambda>_. 0)\<rparr>
   \<and> text_transformer demo_clip = Some (TextTransformer tr)
   \<and> ln_final demo_clip = projr (nn_LayerNorm_init 2)
   \<and> shape (text_projection demo_clip) = [2, 2]
   \<and> dtype (text_projection demo_clip) = Float32
   \<and> device (text_projection demo_clip) = CPU
   \<and> CLIP_dtype demo_clip = Float32 \<and> CLIP_device demo_clip = CPU
   \<and> shape (logit_scale demo_clip) = []"
proof -
  from demo_clip_fields obtain vt msk tr tp where
    vt: "VisionTransformer_init 2 1 64 1 1 2 demo_vit_params = Inr vt"
    and tr: "Transformer_init 2 1 1 (Some msk) (\<lambda>_. demo_block_params) = Inr tr"
    and tp: "shape tp = [2, 2]" "dtype tp = Float32" "device tp = CPU"
    and dc: "demo_clip =
       \<lparr>context_length = 2, visual = vt, bert_type = ''openai'',
        tokenizer = Some (SimpleTokenizer demo_tokenize),
        text_transformer = Some (TextTransformer tr),
        vocab_size = Some 3,
        token_embedding =
          Some \<lparr>num_embeddings = 3, embedding_dim = 2,
                emb_weight = \<lparr>shape = [3, 2], dtype = Float32, device = CPU,
                                entry = (\<lambda>_. 1)\<rparr>\<rparr>,
        text_positional_embedding =
          Some \<lparr>shape = [2, 2], dtype = Float32, device = CPU, entry = (\<lambda>_. 0)\<rparr>,
        text_projection = tp,
        ln_final = projr (nn_LayerNorm_init 2),
        logit_scale = \<lparr>shape = [], dtype = Float32, device = CPU,
                        entry = (\<lambda>_. ln (1 / (7 / 100)))\<rparr>\<rparr>"
    by blast
  have cw: "dtype (conv_weight (conv1 vt)) = Float32" "device (conv_weight (conv1 vt)) = CPU"
    using VisionTransformer_init_Inr [OF vt] by simp_all
  have "VisionTransformer_init 2 1 64 1 1 2 demo_vit_params = Inr (visual demo_clip)"
    "bert_type demo_clip = ''openai''"
    "tokenizer demo_clip = Some (SimpleTokenizer demo_tokenize)"
    "token_embedding demo_clip =
          Some \<lparr>num_embeddings = 3, embedding_dim = 2,
                emb_weight = \<lparr>shape = [3, 2], dtype = Float32, device = CPU,
                                entry = (\<lambda>_. 1)\<rparr>\<rparr>"
    "text_positional_embedding demo_clip =
          Some \<lparr>shape = [2, 2], dtype = Float32, device = CPU, entry = (\<lambda>_. 0)\<rparr>"
    "text_transformer demo_clip = Some (TextTransformer tr)"
    "ln_final demo_clip = projr (nn_LayerNorm_init 2)"
    "shape (text_projection demo_clip) = [2, 2]" "dtype (text_projection demo_clip) = Float32"
    "device (text_projection demo_clip) = CPU"
    "CLIP_dtype demo_clip = Float32" "CLIP_device demo_clip = CPU"
    "shape (logit_scale demo_clip) = []"
    using tp cw vt by (simp_all add: CLIP_dtype_def CLIP_device_def) (simp_all add: dc)
  then show ?thesis using tr by blast
qed

subsection \<open>The causal mask\<close>

text \<open>
  C2.  For a non-negative context length \<open>n\<close>, \<open>build_attention_mask\<close> returns a float32
  tensor of shape \<open>(n, n)\<close>, whatever the allocated memory held, whose entry at row \<open>i\<close> and
  column \<open>j\<close> is minus infinity when \<open>j > i\<close> and zero when \<open>j \<le> i\<close>.  Under additive
  masking a score at \<open>(i, j)\<close> therefore becomes minus infinity, with softmax numerator
  zero, exactly when \<open>j > i\<close>, and is left as it is (numerator positive) when \<open>j \<le> i\<close>.
\<close>

theorem build_attention_mask_causal:
  assumes "0 \<le> n"
  shows "\<exists>m. build_attention_mask n uninit = Inr m
           \<and> shape m = [nat n, nat n]
           \<and> (\<forall>i j. i < nat n \<and> j < nat n \<longrightarrow>
                  entry m [i, j] = (if i < j then MInf else Fin 0)
                \<and> xadd s (entry m [i, j]) = (if i < j then MInf else Fin s)
                \<and> (xexp (xadd s (entry m [i, j])) = 0) = (i < j))"
  using assms
  by (simp add: build_attention_mask_def empty2_def fill_inplace_def triu_inplace_def Let_def)

theorem build_attention_mask_causal_witness:
  "(0::int) \<le> 3
   \<and> (case build_attention_mask 3 (\<lambda>_. Fin 7) of
        Inl e \<Rightarrow> False
      | Inr m \<Rightarrow> shape m = [3, 3]
          \<and> entry m [0, 0] = Fin 0 \<and> entry m [0, 1] = MInf \<and> entry m [0, 2] = MInf
          \<and> entry m [1, 0] = Fin 0 \<and> entry m [1, 1] = Fin 0 \<and> entry m [1, 2] = MInf
          \<and> entry m [2, 0] = Fin 0 \<and> entry m [2, 1] = Fin 0 \<and> entry m [2, 2] = Fin 0)"
  using build_attention_mask_causal [of 3 "\<lambda>_. Fin 7" 0]
  by (simp add: build_attention_mask_def empty2_def fill_inplace_def triu_inplace_def Let_def)

subsection \<open>The residual attention block\<close>

text \<open>
  C6.  Take a block as its constructor builds it for a width \<open>d_model\<close>, and an input \<open>x\<close>
  of shape \<open>(L, N, d_model)\<close> with the dtype and device of the constructed parameters
  (float32, CPU); let the attention module accept such a query with the block's mask and
  return a tensor of the query's shape, dtype and device.  Then the forward pass succeeds
  and computes first \<open>x' = x + attention(ln_1(x))\<close> and then
  \<open>y = x' + c_proj(QuickGELU(c_fc(ln_2(x'))))\<close>, entry by entry; the hidden layer of the
  feed-forward has four times the width; and \<open>y\<close> has the shape of \<open>x\<close>.
\<close>

theorem ResidualAttentionBlock_forward_structure:
  assumes init: "ResidualAttentionBlock_init d_model n_head mask0 ps = Inr blk"
    and sx: "shape x = [L, N, nat d_model]" and dx: "dtype x = Float32" and vx: "device x = CPU"
    and mha: "\<forall>q. shape q = shape x \<and> dtype q = Float32 \<and> device q = CPU \<longrightarrow>
               (\<exists>a. mha ps q q q (map_option (tensor_to Float32 CPU) mask0) = Inr a
                  \<and> shape a = shape q \<and> dtype a = Float32 \<and> device a = CPU)"
  shows "\<exists>n1 a x' n2 h f y blk'.
           LayerNorm_forward (ln_1 blk) x = Inr n1
         \<and> attention blk n1 = (Inr a, blk')
         \<and> tensor_add x a = Inr x'
         \<and> LayerNorm_forward (ln_2 blk) x' = Inr n2
         \<and> nn_Linear_forward (c_fc blk) n2 = Inr h
         \<and> shape h = [L, N, 4 * nat d_model]
         \<and> nn_Linear_forward (c_proj blk) (QuickGELU_forward h) = Inr f
         \<and> tensor_add x' f = Inr y
         \<and> ResidualAttentionBlock_forward blk x = (Inr y, blk')
         \<and> shape y = shape x
         \<and> (\<forall>i j k. i < L \<and> j < N \<and> k < nat d_model \<longrightarrow>
               entry x' [i, j, k] = entry x [i, j, k] + entry a [i, j, k]
             \<and> entry y [i, j, k] = entry x' [i, j, k] + entry f [i, j, k])"
  using block_forward_run [OF assms] by blast

theorem ResidualAttentionBlock_forward_structure_witness:
  "ResidualAttentionBlock_init 1 1 None demo_block_params
     = Inr (projr (ResidualAttentionBlock_init 1 1 None demo_block_params))
   \<and> \<not> isl (fst (ResidualAttentionBlock_forward
               (projr (ResidualAttentionBlock_init 1 1 None demo_block_params)) demo_x))
   \<and> shape (projr (fst (ResidualAttentionBlock_forward
               (projr (ResidualAttentionBlock_init 1 1 None demo_block_params)) demo_x)))
       = [1, 1, 1]"
proof -
  have i: "ResidualAttentionBlock_init 1 1 None demo_block_params
     = Inr (projr (ResidualAttentionBlock_init 1 1 None demo_block_params))"
    by (simp add: ResidualAttentionBlock_init_def nn_LayerNorm_init_def nn_Linear_init_def)
  have c: "\<forall>q. shape q = shape demo_x \<and> dtype q = Float32 \<and> device q = CPU \<longrightarrow>
               (\<exists>a. mha demo_block_params q q q (map_option (tensor_to Float32 CPU) None) = Inr a
                  \<and> shape a = shape q \<and> dtype a = Float32 \<and> device a = CPU)"
    by (simp add: demo_block_params_def passthrough_attention_def)
  show ?thesis
    using ResidualAttentionBlock_forward_structure [OF i, of demo_x 1 1, OF _ _ _ c] i
    by (auto simp add: demo_x_def)
qed

text \<open>
  C7.  When a block holds a mask \<open>m\<close> and runs \<open>attention\<close> on \<open>x\<close>, the mask that the
  attention module receives, and that the block stores, is \<open>m\<close> cast to the dtype and the
  device of \<open>x\<close>; its shape and entries are those of \<open>m\<close>.  Inside \<open>forward\<close> the argument
  of \<open>attention\<close> is \<open>ln_1(x0)\<close>, which has the dtype and device of the block's input \<open>x0\<close>:
  whenever \<open>ln_1\<close> succeeds the block ends up holding the mask cast to those.
\<close>

theorem attention_casts_mask:
  assumes "attn_mask blk = Some m"
  shows "attention blk x =
           (attn blk x x x (Some (tensor_to (dtype x) (device x) m)),
            blk\<lparr>attn_mask := Some (tensor_to (dtype x) (device x) m)\<rparr>)
         \<and> dtype (tensor_to (dtype x) (device x) m) = dtype x
         \<and> device (tensor_to (dtype x) (device x) m) = device x
         \<and> shape (tensor_to (dtype x) (device x) m) = shape m
         \<and> entry (tensor_to (dtype x) (device x) m) = entry m
         \<and> (\<forall>x0 n1. LayerNorm_forward (ln_1 blk) x0 = Inr n1 \<longrightarrow>
              attn_mask (snd (ResidualAttentionBlock_forward blk x0))
                = Some (tensor_to (dtype x0) (device x0) m))"
proof -
  have "attn_mask (snd (ResidualAttentionBlock_forward blk x0))
          = Some (tensor_to (dtype x0) (device x0) m)"
    if "LayerNorm_forward (ln_1 blk) x0 = Inr n1" for x0 n1
  proof -
    have "dtype n1 = dtype x0 \<and> device n1 = device x0"
      using that
      by (auto simp add: LayerNorm_forward_def nn_LayerNorm_forward_def tensor_type_def
          ebind_eq_Inr split: if_splits)
    then show ?thesis
      using that assms
      by (simp add: ResidualAttentionBlock_forward_def attention_def Let_def)
  qed
  then show ?thesis
    using assms by (simp add: attention_def tensor_to_def Let_def)
qed

theorem attention_casts_mask_witness:
  "attn_mask ((projr (ResidualAttentionBlock_init 1 1 (Some demo_mask) demo_block_params))) = Some demo_mask
   \<and> dtype demo_mask = Float32 \<and> device demo_mask = CPU
   \<and> snd (attention (projr (ResidualAttentionBlock_init 1 1 (Some demo_mask) demo_block_params)) demo_half)
      = (projr (ResidualAttentionBlock_init 1 1 (Some demo_mask) demo_block_params))
          \<lparr>attn_mask := Some (tensor_to Float16 (CUDA 0) demo_mask)\<rparr>
   \<and> dtype (tensor_to Float16 (CUDA 0) demo_mask) = Float16
   \<and> device (tensor_to Float16 (CUDA 0) demo_mask) = CUDA 0"
proof -
  have i: "attn_mask ((projr (ResidualAttentionBlock_init 1 1 (Some demo_mask) demo_block_params))) = Some demo_mask"
    by (simp add: ResidualAttentionBlock_init_def nn_LayerNorm_init_def nn_Linear_init_def)
  show ?thesis
    using attention_casts_mask [OF i, of demo_half] i
    by (simp add: demo_half_def demo_mask_def)
qed

subsection \<open>The cast around the layer norm\<close>

text \<open>
  C9.  Take a layer whose parameters are float32, as the constructor makes them, and an
  input whose last dimension has the normalised size and which lives on the device of
  the parameters, whatever its dtype.  Then \<open>LayerNorm.forward\<close> runs the parent's
  normalisation on the float32 cast of the input, obtains a float32 result, and returns
  that result cast to the input's dtype, with the input's shape.  The function returns
  nothing but this tensor: the layer is not changed.  (A layer whose parameters were
  converted to another dtype is refused for every input, since the parent is always
  given float32.)
\<close>

theorem LayerNorm_forward_cast:
  assumes "shape x \<noteq> []" and "last (shape x) = normalized_shape lnm"
    and "device (ln_weight lnm) = device x" and "device (ln_bias lnm) = device x"
    and "dtype (ln_weight lnm) = Float32" and "dtype (ln_bias lnm) = Float32"
  shows "\<exists>ret. nn_LayerNorm_forward lnm (tensor_type Float32 x) = Inr ret
           \<and> dtype (tensor_type Float32 x) = Float32 \<and> dtype ret = Float32
           \<and> LayerNorm_forward lnm x = Inr (tensor_type (dtype x) ret)
           \<and> dtype (tensor_type (dtype x) ret) = dtype x
           \<and> shape (tensor_type (dtype x) ret) = shape x"
  using assms
  by (simp add: LayerNorm_forward_def nn_LayerNorm_forward_def tensor_type_def
      layer_norm_dtype_ok_def is_floating_point_def)

theorem LayerNorm_forward_cast_witness:
  "nn_LayerNorm_init 2 = Inr (projr (nn_LayerNorm_init 2))
   \<and> dtype (ln_weight (projr (nn_LayerNorm_init 2))) = Float32
   \<and> dtype (ln_bias (projr (nn_LayerNorm_init 2))) = Float32
   \<and> \<not> isl (LayerNorm_forward (projr (nn_LayerNorm_init 2))
        \<lparr>shape = [1, 2], dtype = Float16, device = CPU, entry = (\<lambda>idx. real (last idx))\<rparr>)
   \<and> dtype (projr (LayerNorm_forward (projr (nn_LayerNorm_init 2))
        \<lparr>shape = [1, 2], dtype = Float16, device = CPU, entry = (\<lambda>idx. real (last idx))\<rparr>)) = Float16
   \<and> shape (projr (LayerNorm_forward (projr (nn_LayerNorm_init 2))
        \<lparr>shape = [1, 2], dtype = Float16, device = CPU, entry = (\<lambda>idx. real (last idx))\<rparr>)) = [1, 2]"
  using LayerNorm_forward_cast [of
      "\<lparr>shape = [1, 2], dtype = Float16, device = CPU, entry = (\<lambda>idx. real (last idx))\<rparr>"
      "projr (nn_LayerNorm_init 2)"]
  by (auto simp add: nn_LayerNorm_init_def)

subsection \<open>Stored state across a forward pass\<close>

text \<open>
  C8, as the claim states it, fails: a block whose parameters were moved to a GPU still
  holds the float32 CPU mask it was built with, and a successful forward pass on a GPU
  input replaces the stored mask.
\<close>

theorem forward_mutates_mask_counterexample:
  "\<not> isl (fst (ResidualAttentionBlock_forward (ResidualAttentionBlock_to (CUDA 0) demo_block) demo_x_cuda))
   \<and> attn_mask (snd (ResidualAttentionBlock_forward (ResidualAttentionBlock_to (CUDA 0) demo_block) demo_x_cuda))
       \<noteq> attn_mask (ResidualAttentionBlock_to (CUDA 0) demo_block)"
  by (simp add: demo_block_def demo_x_cuda_def demo_mask_def demo_block_params_def
      passthrough_attention_def ResidualAttentionBlock_to_def nn_LayerNorm_to_def nn_Linear_to_def
      ResidualAttentionBlock_init_def nn_LayerNorm_init_def nn_Linear_init_def
      ResidualAttentionBlock_forward_def attention_def LayerNorm_forward_def
      nn_LayerNorm_forward_def tensor_type_def tensor_to_def to_device_def
      tensor_add_def binop_def result_device_def result_type_def broadcast_shapes_def
      promote_types_def mlp_def nn_Linear_forward_def QuickGELU_forward_def
      layer_norm_dtype_ok_def is_floating_point_def Let_def)


text \<open>
  C8, amended.  A forward pass of the container, of the vision encoder, of a transformer
  stack or of a block changes no stored field other than the \<open>attn_mask\<close> of the blocks it
  runs, and a mask that changes keeps its shape and entries (it is the old mask under
  the dtype and device of the block's input, see C7); a block without a mask is left as
  it is.
\<close>

theorem forward_frame:
  "clip_frame m (snd (forward m img strs))
   \<and> vit_frame v (snd (VisionTransformer_forward v x))
   \<and> transformer_frame t (snd (Transformer_forward t x))
   \<and> block_frame blk (snd (ResidualAttentionBlock_forward blk x))"
proof -
  obtain r1 m1 where e1: "encode_image m img = (r1, m1)" by (cases "encode_image m img")
  obtain r2 m2 where e2: "encode_text m1 strs = (r2, m2)" by (cases "encode_text m1 strs")
  have f1: "m1\<lparr>visual := visual m\<rparr> = m" and g1: "vit_frame (visual m) (visual m1)"
    using encode_image_frame [of m img] e1 by simp_all
  have f2: "m2\<lparr>text_transformer := text_transformer m1\<rparr> = m1"
    and g2: "text_model_frame (text_transformer m1) (text_transformer m2)"
    using encode_text_frame [of m1 strs] e2 by simp_all
  have t1: "text_transformer m1 = text_transformer m"
    using arg_cong [OF f1, of text_transformer] by simp
  have v2: "visual m2 = visual m1"
    using arg_cong [OF f2, of visual] by simp
  have "m2\<lparr>visual := visual m, text_transformer := text_transformer m\<rparr>
          = (m2\<lparr>text_transformer := text_transformer m1\<rparr>)\<lparr>visual := visual m\<rparr>"
    by (simp add: t1)
  also have "\<dots> = m1\<lparr>visual := visual m\<rparr>" by (simp only: f2)
  also have "\<dots> = m" by (rule f1)
  finally have u2: "m2\<lparr>visual := visual m, text_transformer := text_transformer m\<rparr> = m" .
  have c2: "clip_frame m m2"
    unfolding clip_frame_def using u2 g1 g2 t1 v2 by metis
  have u1: "m1\<lparr>visual := visual m, text_transformer := text_transformer m\<rparr> = m"
    by (simp add: f1)
  have c1: "clip_frame m m1"
    unfolding clip_frame_def using u1 g1 t1 text_model_frame_refl by metis
  have "snd (forward m img strs) = m1 \<or> snd (forward m img strs) = m2"
    using e1 e2 by (cases r1; cases r2) (simp_all add: forward_def)
  then have "clip_frame m (snd (forward m img strs))"
    using c1 c2 by auto
  then show ?thesis
    by (simp add: VisionTransformer_forward_frame Transformer_forward_frame block_forward_frame)
qed


subsection \<open>The backbone selector\<close>

text \<open>
  C3, as the claim states it, fails: with the selector \<open>"bert"\<close> and every other argument
  at its default the constructor completes.
\<close>

theorem CLIP_init_accepts_unrecognised_selector_counterexample:
  "\<not> isl (CLIP_init demo_env (default_args\<lparr>arg_bert_type := ''bert''\<rparr>))"
proof -
  obtain vt where "VisionTransformer_init 224 32 768 12 (768 div 64) 512 demo_vit_params = Inr vt"
    using VisionTransformer_init_ok [of 768 "768 div 64" 32 512 224 12 demo_vit_params] by auto
  then show ?thesis
    by (simp add: CLIP_init_def default_args_def demo_env_def init_text_backbone_def
        empty2_def nn_LayerNorm_init_def Let_def)
qed

text \<open>
  C3, amended.  The constructor does not validate the selector.  For a selector that is
  neither \<open>"openai"\<close> nor \<open>"huggingface"\<close> it takes neither branch and goes on: it fails
  exactly when the construction of the vision encoder fails or the remaining arguments
  are refused (a negative embedding dimension, a transformer width that is not
  positive), and the container it otherwise returns stores the selector as given, has no
  tokenizer, no text transformer, no token or positional embedding, and a text projection
  of shape \<open>(transformer_width, embed_dim)\<close>.
\<close>

theorem CLIP_init_unrecognised_selector:
  assumes "arg_bert_type a \<noteq> ''openai''" and "arg_bert_type a \<noteq> ''huggingface''"
  shows "(isl (CLIP_init env a) \<longleftrightarrow>
            isl (VisionTransformer_init (arg_input_resolution a) (vision_patch_size a)
                   (vision_width a) (vision_layers a) (vision_width a div 64) (embed_dim a)
                   (visual_params env))
            \<or> embed_dim a < 0 \<or> transformer_width a \<le> 0)
       \<and> (\<forall>m. CLIP_init env a = Inr m \<longrightarrow>
              bert_type m = arg_bert_type a \<and> tokenizer m = None \<and> text_transformer m = None
            \<and> vocab_size m = None \<and> token_embedding m = None
            \<and> text_positional_embedding m = None
            \<and> shape (text_projection m) = [nat (transformer_width a), nat (embed_dim a)])"
proof (cases "VisionTransformer_init (arg_input_resolution a) (vision_patch_size a)
                   (vision_width a) (vision_layers a) (vision_width a div 64) (embed_dim a)
                   (visual_params env)")
  case (Inl e)
  then show ?thesis by (simp add: CLIP_init_def Let_def)
next
  case (Inr vis)
  then show ?thesis
    using init_text_backbone_other [OF assms, of env]
    by (auto simp add: CLIP_init_def Let_def empty2_def nn_LayerNorm_init_def)
qed

theorem CLIP_init_unrecognised_selector_witness:
  "arg_bert_type (default_args\<lparr>arg_bert_type := ''OpenAI''\<rparr>) \<noteq> ''openai''
   \<and> arg_bert_type (default_args\<lparr>arg_bert_type := ''OpenAI''\<rparr>) \<noteq> ''huggingface''
   \<and> CLIP_init demo_env (default_args\<lparr>arg_bert_type := ''OpenAI''\<rparr>)
       = Inr (projr (CLIP_init demo_env (default_args\<lparr>arg_bert_type := ''OpenAI''\<rparr>)))
   \<and> tokenizer (projr (CLIP_init demo_env (default_args\<lparr>arg_bert_type := ''OpenAI''\<rparr>))) = None
   \<and> text_transformer (projr (CLIP_init demo_env (default_args\<lparr>arg_bert_type := ''OpenAI''\<rparr>))) = None"
proof -
  let ?a = "default_args\<lparr>arg_bert_type := ''OpenAI''\<rparr>"
  have n: "arg_bert_type ?a \<noteq> ''openai''" "arg_bert_type ?a \<noteq> ''huggingface''"
    by (simp_all add: default_args_def)
  obtain vt where "VisionTransformer_init 224 32 768 12 (768 div 64) 512 demo_vit_params = Inr vt"
    using VisionTransformer_init_ok [of 768 "768 div 64" 32 512 224 12 demo_vit_params] by auto
  then have v: "\<not> isl (VisionTransformer_init (arg_input_resolution ?a) (vision_patch_size ?a)
                   (vision_width ?a) (vision_layers ?a) (vision_width ?a div 64) (embed_dim ?a)
                   (visual_params demo_env))"
    by (simp add: default_args_def demo_env_def)
  have d: "\<not> embed_dim ?a < 0" "\<not> transformer_width ?a \<le> 0"
    by (simp_all add: default_args_def)
  have ok: "\<not> isl (CLIP_init demo_env ?a)"
    using CLIP_init_unrecognised_selector [OF n, of demo_env] v d by blast
  then have eq: "CLIP_init demo_env ?a = Inr (projr (CLIP_init demo_env ?a))"
    by simp
  show ?thesis
    using CLIP_init_unrecognised_selector [OF n, of demo_env] eq n by blast
qed


subsection \<open>The similarity of \<open>forward\<close>\<close>



subsection \<open>The vision encoder\<close>

text \<open>
  C5.  Take a vision encoder as its constructor builds it, with a patch size that is at
  most the input resolution, and a batch of \<open>B \<ge> 1\<close> images of shape
  \<open>(B, 3, input_resolution, input_resolution)\<close> with the dtype and device of the constructed
  parameters (float32, CPU); let the attention module of every block accept a query of
  shape \<open>(grid\<^sup>2 + 1, B, width)\<close> without a mask and return a tensor of the query's shape,
  dtype and device.  Then \<open>forward\<close> succeeds with an output of shape \<open>(B, output_dim)\<close>,
  through these steps: the convolution, whose kernel and stride are the patch size, gives
  \<open>(B, width, grid, grid)\<close> with \<open>grid = input_resolution // patch_size\<close>; flattened and
  transposed this is \<open>grid\<^sup>2\<close> tokens; the class embedding is put at sequence position 0
  and the tokens after it, giving the sequence length \<open>grid\<^sup>2 + 1\<close>, which is the number of
  rows of the positional embedding; no block of the stack holds a mask; of the stack's
  output only position 0 is kept, normalised by \<open>ln_post\<close> and multiplied by \<open>proj\<close>, no
  bias being added.
\<close>

theorem VisionTransformer_forward_shape:
  assumes init: "VisionTransformer_init res patch_size w l h od ps = Inr vt"
    and geom: "patch_size \<le> res"
    and x: "shape x = [B, 3, nat res, nat res]" "dtype x = Float32" "device x = CPU"
    and B: "1 \<le> B"
    and mha: "\<forall>i<nat l. \<forall>q. shape q = [(nat (res div patch_size))\<^sup>2 + 1, B, nat w]
                 \<and> dtype q = Float32 \<and> device q = CPU \<longrightarrow>
               (\<exists>a. mha (vit_blocks ps i) q q q None = Inr a
                  \<and> shape a = shape q \<and> dtype a = Float32 \<and> device a = CPU)"
  shows "\<exists>g xc tok sq e hs tr' xb c z p y.
           g = nat (res div patch_size)
         \<and> kernel_size (conv1 vt) = nat patch_size \<and> stride (conv1 vt) = nat patch_size
         \<and> nn_Conv2d_forward (conv1 vt) x = Inr xc \<and> shape xc = [B, nat w, g, g]
         \<and> patchify vt x = Inr tok \<and> shape tok = [B, g\<^sup>2, nat w]
         \<and> prepend_class_token vt tok = Inr sq \<and> shape sq = [B, g\<^sup>2 + 1, nat w]
         \<and> (\<forall>b k. b < B \<and> k < nat w \<longrightarrow>
                 entry sq [b, 0, k] = entry (class_embedding vt) [k]
               \<and> (\<forall>s. entry sq [b, Suc s, k] = entry tok [b, s, k]))
         \<and> shape (positional_embedding vt) = [g\<^sup>2 + 1, nat w]
         \<and> vit_embed vt x = Inr e \<and> shape e = [g\<^sup>2 + 1, B, nat w]
         \<and> (\<forall>blk\<in>set (resblocks (transformer vt)). attn_mask blk = None)
         \<and> Transformer_forward (transformer vt) e = (Inr hs, tr')
         \<and> shape hs = [g\<^sup>2 + 1, B, nat w]
         \<and> permute [1, 0, 2] hs = Inr xb \<and> select_first xb = Inr c
         \<and> (\<forall>b k. entry c [b, k] = entry hs [0, b, k])
         \<and> LayerNorm_forward (ln_post vt) c = Inr z
         \<and> proj vt = Some p \<and> matmul z p = Inr y
         \<and> (\<forall>b j. entry y [b, j] = sum_upto (nat w) (\<lambda>k. entry z [b, k] * entry p [k, j]))
         \<and> VisionTransformer_forward vt x = (Inr y, vt\<lparr>transformer := tr'\<rparr>)
         \<and> shape y = [B, nat od]"
  using vit_forward_run [OF assms] by blast

theorem VisionTransformer_forward_shape_witness:
  "VisionTransformer_init 2 1 64 1 1 2 demo_vit_params
     = Inr (projr (VisionTransformer_init 2 1 64 1 1 2 demo_vit_params))
   \<and> shape demo_image = [1, 3, 2, 2]
   \<and> \<not> isl (fst (VisionTransformer_forward
                (projr (VisionTransformer_init 2 1 64 1 1 2 demo_vit_params)) demo_image))
   \<and> shape (projr (fst (VisionTransformer_forward
                (projr (VisionTransformer_init 2 1 64 1 1 2 demo_vit_params)) demo_image)))
       = [1, 2]
   \<and> shape (positional_embedding (projr (VisionTransformer_init 2 1 64 1 1 2 demo_vit_params)))
       = [5, 64]"
proof -
  obtain vt where vt: "VisionTransformer_init 2 1 64 1 1 2 demo_vit_params = Inr vt"
    using VisionTransformer_init_ok [of 64 1 1 2 2 1 demo_vit_params] by auto
  have x: "shape demo_image = [1, 3, nat 2, nat 2]" "dtype demo_image = Float32"
      "device demo_image = CPU"
    by (simp_all add: demo_image_def)
  have mh: "\<forall>i<nat 1. \<forall>q. shape q = [(nat (2 div 1))\<^sup>2 + 1, 1, nat 64]
                 \<and> dtype q = Float32 \<and> device q = CPU \<longrightarrow>
               (\<exists>a. mha (vit_blocks demo_vit_params i) q q q None = Inr a
                  \<and> shape a = shape q \<and> dtype a = Float32 \<and> device a = CPU)"
    by (simp add: demo_vit_params_def demo_block_params_def passthrough_attention_def)
  have g: "(1::int) \<le> 2" "(1::nat) \<le> 1" by simp_all
  from VisionTransformer_forward_shape [OF vt g(1) x g(2) mh] obtain y tr' where
    "VisionTransformer_forward vt demo_image = (Inr y, vt\<lparr>transformer := tr'\<rparr>)"
    "shape y = [1, nat 2]"
    "shape (positional_embedding vt) = [(nat (2 div 1))\<^sup>2 + 1, nat 64]"
    by blast
  then show ?thesis
    using vt x by simp
qed

subsection \<open>The text encoder\<close>

text \<open>
  C4.  Whenever the first variant of \<open>encode_text\<close> returns an embedding, the token ids
  form a matrix \<open>(B, n)\<close> with \<open>n > 0\<close>, and row \<open>b\<close> of the embedding is the projection of
  the final hidden state (after \<open>ln_final\<close>) at the position \<open>argmax_list\<close> of the ids of
  sequence \<open>b\<close>: a position of the sequence and of the hidden states, at which the id is
  at least every id of the sequence and greater than every id before it.  Encoding the
  same strings again, on the container as the first call left it, tokenizes to the same
  ids and selects at the same positions.
\<close>

theorem encode_text_pools_at_argmax:
  assumes bt: "bert_type m = ''openai''" and enc: "encode_text m strs = (Inr y, m')"
  shows "\<exists>ids x tr h tr' hid pos sel B n.
           text_tokens m strs = Inr ids \<and> shape ids = [B, n] \<and> 0 < n
         \<and> text_embed m ids = Inr x
         \<and> text_transformer m = Some (TextTransformer tr)
         \<and> Transformer_forward tr x = (Inr h, tr')
         \<and> text_hidden m h = Inr hid \<and> shape hid = [B, shape h ! 0, shape h ! 2]
         \<and> argmax_last ids = Inr pos \<and> index_rows hid pos = Inr sel
         \<and> matmul sel (text_projection m) = Inr y
         \<and> (\<forall>b<B. argmax_list (row_of ids [b]) < n
               \<and> argmax_list (row_of ids [b]) < shape h ! 0
               \<and> (\<forall>k<n. entry ids [b, k] \<le> entry ids [b, argmax_list (row_of ids [b])])
               \<and> (\<forall>k<argmax_list (row_of ids [b]).
                     entry ids [b, k] < entry ids [b, argmax_list (row_of ids [b])])
               \<and> (\<forall>k. entry sel [b, k] = entry hid [b, argmax_list (row_of ids [b]), k])
               \<and> (\<forall>j. entry y [b, j] =
                     sum_upto (shape h ! 2)
                       (\<lambda>k. entry hid [b, argmax_list (row_of ids [b]), k]
                              * entry (text_projection m) [k, j])))
         \<and> text_tokens m' strs = Inr ids
         \<and> (\<forall>y2 m2. encode_text m' strs = (Inr y2, m2) \<longrightarrow>
               (\<exists>hid2 sel2. index_rows hid2 pos = Inr sel2
                  \<and> matmul sel2 (text_projection m') = Inr y2))"
proof -
  from encode_text_trace [OF bt enc] obtain ids x tr h tr' hid pos sel where
    ids: "text_tokens m strs = Inr ids" and x: "text_embed m ids = Inr x"
    and tr: "text_transformer m = Some (TextTransformer tr)"
    and tf: "Transformer_forward tr x = (Inr h, tr')"
    and m': "m' = m\<lparr>text_transformer := Some (TextTransformer tr')\<rparr>"
    and hid: "text_hidden m h = Inr hid" and pos: "argmax_last ids = Inr pos"
    and sel: "index_rows hid pos = Inr sel" and y: "matmul sel (text_projection m) = Inr y"
    by blast
  note H = text_hidden_Inr [OF hid]
  note P = argmax_last_Inr [OF pos]
  note S = index_rows_Inr [OF sel]
  note M = matmul_Inr [OF y]
  define B where "B = shape hid ! 0"
  define n where "n = last (shape ids)"
  have sids: "shape ids = [B, n]"
  proof -
    have "butlast (shape ids) = [B]" using S P by (simp add: B_def)
    then have "butlast (shape ids) @ [last (shape ids)] = [B, n]" by (simp add: n_def)
    then show ?thesis using P by simp
  qed
  have npos: "0 < n" using P by (simp add: n_def)
  have shid: "shape hid = [B, shape h ! 0, shape h ! 2]"
    using H by (simp add: B_def)
  have am: "argmax_list (row_of ids [b]) < n
          \<and> (\<forall>k<n. entry ids [b, k] \<le> entry ids [b, argmax_list (row_of ids [b])])
          \<and> (\<forall>k<argmax_list (row_of ids [b]).
                entry ids [b, k] < entry ids [b, argmax_list (row_of ids [b])])" for b
  proof -
    have len: "length (row_of ids [b]) = n" by (simp add: row_of_def sids)
    have nth: "row_of ids [b] ! k = entry ids [b, k]" if "k < n" for k
      using row_of_nth [OF sids that] by simp
    have ne: "row_of ids [b] \<noteq> []" using len npos by auto
    note A = argmax_list_spec [OF ne]
    have a1: "argmax_list (row_of ids [b]) < n" using A by (simp add: len)
    have a2: "\<forall>k<n. entry ids [b, k] \<le> entry ids [b, argmax_list (row_of ids [b])]"
    proof (intro allI impI)
      fix k assume k: "k < n"
      have "row_of ids [b] ! k \<le> row_of ids [b] ! argmax_list (row_of ids [b])"
        using A k len by simp
      then show "entry ids [b, k] \<le> entry ids [b, argmax_list (row_of ids [b])]"
        using nth [OF k] nth [OF a1] by simp
    qed
    have a3: "\<forall>k<argmax_list (row_of ids [b]).
                entry ids [b, k] < entry ids [b, argmax_list (row_of ids [b])]"
    proof (intro allI impI)
      fix k assume k: "k < argmax_list (row_of ids [b])"
      then have kn: "k < n" using a1 by simp
      have "row_of ids [b] ! k < row_of ids [b] ! argmax_list (row_of ids [b])"
        using A k by simp
      then show "entry ids [b, k] < entry ids [b, argmax_list (row_of ids [b])]"
        using nth [OF kn] nth [OF a1] by simp
    qed
    show ?thesis using a1 a2 a3 by blast
  qed
  have "shape sel = shape hid ! 0 # drop 2 (shape hid)" using S by simp
  then have mm: "shape sel = [B, shape h ! 2]"
    by (subst (asm) (1 2) shid) simp
  have selent: "entry sel [b, k] = entry hid [b, argmax_list (row_of ids [b]), k]" for b k
    using S P by (simp add: Let_def)
  have yent: "entry y [b, j] =
                sum_upto (shape h ! 2)
                  (\<lambda>k. entry hid [b, argmax_list (row_of ids [b]), k]
                         * entry (text_projection m) [k, j])" for b j
    using M mm selent by simp
  have bound: "argmax_list (row_of ids [b]) < shape h ! 0" if "b < B" for b
  proof -
    have "entry pos [b] < int (shape hid ! 1)" using S that by (simp add: B_def)
    moreover have "shape hid ! 1 = shape h ! 0" by (subst shid) simp
    ultimately show ?thesis using P by simp
  qed
  have dv: "CLIP_device m' = CLIP_device m" and tk: "tokenizer m' = tokenizer m"
    by (simp_all add: m' CLIP_device_def)
  have "text_tokens m' strs = text_tokens m strs"
    unfolding text_tokens_def dv tk by (rule refl)
  then have tok': "text_tokens m' strs = Inr ids"
    using ids by simp
  have bt': "bert_type m' = ''openai''" using bt by (simp add: m')
  have second: "\<exists>hid2 sel2. index_rows hid2 pos = Inr sel2
                  \<and> matmul sel2 (text_projection m') = Inr y2"
    if "encode_text m' strs = (Inr y2, m2)" for y2 m2
  proof -
    from encode_text_trace [OF bt' that] obtain ids2 hid2 pos2 sel2 where
      "text_tokens m' strs = Inr ids2" "argmax_last ids2 = Inr pos2"
      "index_rows hid2 pos2 = Inr sel2" "matmul sel2 (text_projection m') = Inr y2"
      by blast
    then show ?thesis using tok' pos by auto
  qed
  show ?thesis
    using ids sids npos x tr tf hid shid pos sel y am bound selent yent tok' second by blast
qed

theorem encode_text_pools_at_argmax_witness:
  "bert_type demo_clip = ''openai''
   \<and> \<not> isl (fst (encode_text demo_clip [''a photo'']))
   \<and> row_of (projr (text_tokens demo_clip [''a photo''])) [0] = [2, 1]
   \<and> argmax_list (row_of (projr (text_tokens demo_clip [''a photo''])) [0]) = 0
   \<and> text_tokens (snd (encode_text demo_clip [''a photo''])) [''a photo'']
       = text_tokens demo_clip [''a photo'']"
proof -
  from demo_clip_text obtain msk tr where
    tr: "Transformer_init 2 1 1 (Some msk) (\<lambda>_. demo_block_params) = Inr tr"
    and vt: "VisionTransformer_init 2 1 64 1 1 2 demo_vit_params = Inr (visual demo_clip)"
    and f: "bert_type demo_clip = ''openai''"
    "tokenizer demo_clip = Some (SimpleTokenizer demo_tokenize)"
    "token_embedding demo_clip =
          Some \<lparr>num_embeddings = 3, embedding_dim = 2,
                emb_weight = \<lparr>shape = [3, 2], dtype = Float32, device = CPU,
                                entry = (\<lambda>_. 1)\<rparr>\<rparr>"
    "text_positional_embedding demo_clip =
          Some \<lparr>shape = [2, 2], dtype = Float32, device = CPU, entry = (\<lambda>_. 0)\<rparr>"
    "text_transformer demo_clip = Some (TextTransformer tr)"
    "ln_final demo_clip = projr (nn_LayerNorm_init 2)"
    "shape (text_projection demo_clip) = [2, 2]" "dtype (text_projection demo_clip) = Float32"
    "device (text_projection demo_clip) = CPU"
    "CLIP_dtype demo_clip = Float32" "CLIP_device demo_clip = CPU"
    by blast
  obtain y m' where e: "encode_text demo_clip [''a photo''] = (Inr y, m')"
    using demo_encode_text_ok [OF f(1-5) tr f(6-11), of "''a photo''"] by blast
  have tt: "text_tokens demo_clip [''a photo'']
      = Inr \<lparr>shape = [1, 2], dtype = Int64, device = CPU,
             entry = (\<lambda>idx. if last idx = 0 then 2 else 1)\<rparr>"
    using f(2,11) by (simp add: text_tokens_def demo_tokenize_def to_device_def)
  have r: "row_of (projr (text_tokens demo_clip [''a photo''])) [0] = [2, 1]"
    by (simp add: tt row_of_def upt_conv_Cons)
  have am: "argmax_list (row_of (projr (text_tokens demo_clip [''a photo''])) [0]) = 0"
    by (simp add: r argmax_list_def)
  from encode_text_pools_at_argmax [OF f(1) e] obtain ids where
    "text_tokens demo_clip [''a photo''] = Inr ids" "text_tokens m' [''a photo''] = Inr ids"
    by blast
  then show ?thesis
    using f(1) e r am by simp
qed

subsection \<open>The dtype and device of the vision convolution weight\<close>

text \<open>
  C10.  \<open>encode_image\<close> runs the vision encoder on the input cast to the dtype of
  \<open>visual.conv1.weight\<close>; when that dtype is a floating-point one and the attention modules
  return the dtype of their query, an output of \<open>encode_image\<close> has that dtype.  An output
  of \<open>encode_text\<close> (either variant) has that dtype.  In the first variant the token ids
  are on the device of \<open>visual.conv1.weight\<close> and the embedded sequence has its dtype; so
  text encoding depends on where the vision parameters live: when the token embedding's
  weight is on another device than the convolution weight, \<open>encode_text\<close> fails.
\<close>

theorem encoders_follow_conv1_weight:
  "encode_image m img =
     (case VisionTransformer_forward (visual m)
             (tensor_type (dtype (conv_weight (conv1 (visual m)))) img) of
        (r, vis') \<Rightarrow> (r, m\<lparr>visual := vis'\<rparr>))
   \<and> (\<forall>y m'. encode_image m img = (Inr y, m')
          \<and> is_floating_point (dtype (conv_weight (conv1 (visual m))))
          \<and> (\<forall>b\<in>set (resblocks (transformer (visual m))). attn_keeps_dtype (attn b))
        \<longrightarrow> dtype y = dtype (conv_weight (conv1 (visual m))))
   \<and> (\<forall>z m'. encode_text m strs = (Inr z, m')
        \<longrightarrow> dtype z = dtype (conv_weight (conv1 (visual m))))
   \<and> (\<forall>ids. text_tokens m strs = Inr ids
        \<longrightarrow> device ids = device (conv_weight (conv1 (visual m)))
          \<and> (\<forall>x. text_embed m ids = Inr x \<longrightarrow> dtype x = dtype (conv_weight (conv1 (visual m))))
          \<and> (\<forall>emb. bert_type m = ''openai'' \<and> token_embedding m = Some emb
                 \<and> device (emb_weight emb) \<noteq> device (conv_weight (conv1 (visual m)))
                 \<and> (dtype ids = Int32 \<or> dtype ids = Int64)
               \<longrightarrow> encode_text m strs = (Inl RuntimeError, m)))"
proof -
  have a: "encode_image m img =
     (case VisionTransformer_forward (visual m)
             (tensor_type (dtype (conv_weight (conv1 (visual m)))) img) of
        (r, vis') \<Rightarrow> (r, m\<lparr>visual := vis'\<rparr>))"
    by (simp add: encode_image_def CLIP_dtype_def)
  have b: "dtype y = dtype (conv_weight (conv1 (visual m)))"
    if "encode_image m img = (Inr y, m')"
      "is_floating_point (dtype (conv_weight (conv1 (visual m))))"
      "\<forall>b\<in>set (resblocks (transformer (visual m))). attn_keeps_dtype (attn b)" for y m'
  proof -
    obtain r vis' where v: "VisionTransformer_forward (visual m) (tensor_type (CLIP_dtype m) img)
        = (r, vis')"
      by (cases "VisionTransformer_forward (visual m) (tensor_type (CLIP_dtype m) img)")
    then have "r = Inr y" using that(1) by (simp add: encode_image_def)
    then have "VisionTransformer_forward (visual m) (tensor_type (CLIP_dtype m) img)
        = (Inr y, vis')" using v by simp
    then show ?thesis
      using VisionTransformer_forward_dtype [of "visual m" "tensor_type (CLIP_dtype m) img" y vis']
        that(2,3)
      by (simp add: tensor_type_def CLIP_dtype_def)
  qed
  have c: "dtype z = dtype (conv_weight (conv1 (visual m)))"
    if "encode_text m strs = (Inr z, m')" for z m'
    using encode_text_dtype [OF that] by (simp add: CLIP_dtype_def)
  have d: "device ids = device (conv_weight (conv1 (visual m)))
          \<and> (\<forall>x. text_embed m ids = Inr x \<longrightarrow> dtype x = dtype (conv_weight (conv1 (visual m))))
          \<and> (\<forall>emb. bert_type m = ''openai'' \<and> token_embedding m = Some emb
                 \<and> device (emb_weight emb) \<noteq> device (conv_weight (conv1 (visual m)))
                 \<and> (dtype ids = Int32 \<or> dtype ids = Int64)
               \<longrightarrow> encode_text m strs = (Inl RuntimeError, m))"
    if t: "text_tokens m strs = Inr ids" for ids
  proof -
    have d1: "device ids = device (conv_weight (conv1 (visual m)))"
      using text_tokens_device [OF t] by (simp add: CLIP_device_def)
    have d2: "\<forall>x. text_embed m ids = Inr x \<longrightarrow> dtype x = dtype (conv_weight (conv1 (visual m)))"
      using text_embed_dtype by (simp add: CLIP_dtype_def)
    have d3: "encode_text m strs = (Inl RuntimeError, m)"
      if "bert_type m = ''openai''" "token_embedding m = Some emb"
        "device (emb_weight emb) \<noteq> device (conv_weight (conv1 (visual m)))"
        "dtype ids = Int32 \<or> dtype ids = Int64" for emb
    proof -
      have "text_embed m ids = Inl RuntimeError"
        using text_embed_device_mismatch [OF that(2) _ that(4)] that(3) d1 by simp
      then show ?thesis
        using t that(1) by (simp add: encode_text_def encode_text_openai_def)
    qed
    show ?thesis using d1 d2 d3 by blast
  qed
  show ?thesis using a b c d by blast
qed

theorem encoders_follow_conv1_weight_witness:
  "dtype (conv_weight (conv1 (visual demo_clip))) = Float32
   \<and> \<not> isl (fst (encode_image demo_clip demo_image))
   \<and> dtype (projr (fst (encode_image demo_clip demo_image))) = Float32
   \<and> \<not> isl (fst (encode_text demo_clip [''a photo'']))
   \<and> dtype (projr (fst (encode_text demo_clip [''a photo'']))) = Float32
   \<and> device (projr (text_tokens demo_clip [''a photo''])) = CPU"
proof -
  from demo_clip_text obtain msk tr where
    tr: "Transformer_init 2 1 1 (Some msk) (\<lambda>_. demo_block_params) = Inr tr"
    and vt: "VisionTransformer_init 2 1 64 1 1 2 demo_vit_params = Inr (visual demo_clip)"
    and f: "bert_type demo_clip = ''openai''"
    "tokenizer demo_clip = Some (SimpleTokenizer demo_tokenize)"
    "token_embedding demo_clip =
          Some \<lparr>num_embeddings = 3, embedding_dim = 2,
                emb_weight = \<lparr>shape = [3, 2], dtype = Float32, device = CPU,
                                entry = (\<lambda>_. 1)\<rparr>\<rparr>"
    "text_positional_embedding demo_clip =
          Some \<lparr>shape = [2, 2], dtype = Float32, device = CPU, entry = (\<lambda>_. 0)\<rparr>"
    "text_transformer demo_clip = Some (TextTransformer tr)"
    "ln_final demo_clip = projr (nn_LayerNorm_init 2)"
    "shape (text_projection demo_clip) = [2, 2]" "dtype (text_projection demo_clip) = Float32"
    "device (text_projection demo_clip) = CPU"
    "CLIP_dtype demo_clip = Float32" "CLIP_device demo_clip = CPU"
    by blast
  have cw: "dtype (conv_weight (conv1 (visual demo_clip))) = Float32"
    using VisionTransformer_init_Inr [OF vt] by simp
  from demo_forward_run obtain fi m1 where
    ei: "encode_image demo_clip demo_image = (Inr fi, m1)"
    by blast
  obtain z m' where et: "encode_text demo_clip [''a photo''] = (Inr z, m')"
    using demo_encode_text_ok [OF f(1-5) tr f(6-11), of "''a photo''"] by blast
  have tt: "text_tokens demo_clip [''a photo'']
      = Inr \<lparr>shape = [1, 2], dtype = Int64, device = CPU,
             entry = (\<lambda>idx. if last idx = 0 then 2 else 1)\<rparr>"
    using f(2,11) by (simp add: text_tokens_def demo_tokenize_def to_device_def)
  have fl: "is_floating_point (dtype (conv_weight (conv1 (visual demo_clip))))"
    by (simp add: cw is_floating_point_def)
  have kd: "\<forall>b\<in>set (resblocks (transformer (visual demo_clip))). attn_keeps_dtype (attn b)"
    using demo_visual_attn [OF vt] .
  note T = encoders_follow_conv1_weight [of demo_clip demo_image "[''a photo'']"]
  have d1: "dtype fi = dtype (conv_weight (conv1 (visual demo_clip)))"
    using T ei fl kd by blast
  have d2: "dtype z = dtype (conv_weight (conv1 (visual demo_clip)))"
    using T et by blast
  have d3: "device (projr (text_tokens demo_clip [''a photo'']))
      = device (conv_weight (conv1 (visual demo_clip)))"
    using T tt by (metis sum.sel(2))
  show ?thesis
    using d1 d2 d3 ei et f(11) by (simp add: cw CLIP_device_def)
qed

end
